theory Spec2Isabelle
  imports Complex_Main "HOL-Library.AList"
begin

section \<open>The vault migration engine of the migration server\<close>

text \<open>
  A shallow embedding of the migration server (\<^verbatim>\<open>src/unnamed/part_002\<close>): the retry
  helper \<^verbatim>\<open>retryWithBackoff\<close>, the item counter \<^verbatim>\<open>getVaultItemCount\<close>, the bridge
  \<^verbatim>\<open>createCustomItemViaCLI\<close>, the two per-vault procedures \<^verbatim>\<open>migrateVault\<close> and
  \<^verbatim>\<open>migrateVaultWithProgress\<close>, and the two endpoints that call them.

  JavaScript strings are modelled as \<^typ>\<open>string\<close>. An error is the message of the thrown
  \<^verbatim>\<open>Error\<close>; a computation that can throw returns \<open>string + 'a\<close>, with \<open>Inl\<close> the
  message.
\<close>

subsection \<open>Strings\<close>

text \<open>
  \<^verbatim>\<open>a || b\<close> on strings: the empty string is falsy.
\<close>

definition orElse :: "string \<Rightarrow> string \<Rightarrow> string" where
  "orElse a b = (if a \<noteq> [] then a else b)"

text \<open>\<^verbatim>\<open>x || b\<close> where \<^verbatim>\<open>x\<close> may be \<^verbatim>\<open>undefined\<close>.\<close>

definition optOrElse :: "string option \<Rightarrow> string \<Rightarrow> string" where
  "optOrElse a b = (case a of None \<Rightarrow> b | Some x \<Rightarrow> orElse x b)"

text \<open>
  \<^verbatim>\<open>String.prototype.toLowerCase\<close>, on the letters A to Z. Every keyword the server
  compares a lowered string with is made of the characters a to z and the underscore,
  so what lowering does to any other character cannot change a comparison.
\<close>

definition lowerChar :: "char \<Rightarrow> char" where
  "lowerChar c = (let n = (of_char c :: nat) in
     if 65 \<le> n \<and> n \<le> 90 then char_of (n + 32) else c)"

definition toLowerCase :: "string \<Rightarrow> string" where
  "toLowerCase s = map lowerChar s"

definition startsWith :: "string \<Rightarrow> string \<Rightarrow> bool" where
  "startsWith s p = (take (length p) s = p)"

text \<open>\<^verbatim>\<open>String.prototype.includes\<close>: \<open>sub\<close> occurs in \<open>s\<close> as a contiguous run.\<close>

fun strIncludes :: "string \<Rightarrow> string \<Rightarrow> bool" where
  "strIncludes [] sub = (sub = [])"
| "strIncludes (c # cs) sub = (startsWith (c # cs) sub \<or> strIncludes cs sub)"

text \<open>\<^verbatim>\<open>\d\<close> of a regular expression without the unicode flag: 0 to 9.\<close>

definition isDigit :: "char \<Rightarrow> bool" where
  "isDigit c = (let n = (of_char c :: nat) in 48 \<le> n \<and> n \<le> 57)"

text \<open>
  \<^verbatim>\<open>String.prototype.replace(a, b)\<close> with one-character strings: the first occurrence
  only.
\<close>

fun replaceFirst :: "char \<Rightarrow> char \<Rightarrow> string \<Rightarrow> string" where
  "replaceFirst a b [] = []"
| "replaceFirst a b (c # cs) = (if c = a then b # cs else c # replaceFirst a b cs)"

text \<open>
  \<^verbatim>\<open>String.prototype.trim\<close>: the white space and line terminators of ECMAScript that
  an eight-bit character can be (tab, line feed, vertical tab, form feed, carriage
  return, space, no-break space).
\<close>

definition isJsSpace :: "char \<Rightarrow> bool" where
  "isJsSpace c = (of_char c \<in> {9, 10, 11, 12, 13, 32, 160 :: nat})"

definition trim :: "string \<Rightarrow> string" where
  "trim s = rev (dropWhile isJsSpace (rev (dropWhile isJsSpace s)))"

text \<open>The decimal digits of a number, as a template literal prints it.\<close>

fun showNat :: "nat \<Rightarrow> string" where
  "showNat n = (if n < 10 then [char_of (48 + n)]
                else showNat (n div 10) @ [char_of (48 + n mod 10)])"

declare showNat.simps [simp del]

subsection \<open>Item fields\<close>

text \<open>
  \<^verbatim>\<open>sdk.ItemFieldType\<close> is an enumeration of the SDK the server imports; the server
  only compares its members for equality.
\<close>

datatype fieldType =
    Text | Concealed | CreditCardType | CreditCardNumber | Phone | Url | Totp | Email
  | Reference | SshKey | Menu | MonthYear | Address | Date | Unsupported

text \<open>
  A field as the SDK returns it. \<open>f_label\<close> and \<open>f_sectionId\<close> are \<open>None\<close> when the
  property is absent. \<open>f_details\<close> is the \<^verbatim>\<open>details\<close> object when there is one, and
  \<open>d_content\<close> its \<^verbatim>\<open>content\<close> object: the string properties it owns, by name.
\<close>

record details =
  d_content :: "(string \<times> string) list option"

record field =
  f_id :: string
  f_title :: string
  f_label :: "string option"
  f_fieldType :: fieldType
  f_value :: string
  f_sectionId :: "string option"
  f_details :: "details option"

text \<open>\<^verbatim>\<open>field.details && field.details.content\<close>, and a property of it.\<close>

definition detailsContent :: "field \<Rightarrow> (string \<times> string) list option" where
  "detailsContent f = (case f_details f of None \<Rightarrow> None | Some d \<Rightarrow> d_content d)"

definition ownProp :: "(string \<times> string) list \<Rightarrow> string \<Rightarrow> string option" where
  "ownProp c k = map_of c k"

text \<open>
  The value of a destination field is a string, but for one case: a property that
  \<^verbatim>\<open>cardTypeMap\<close> inherits from \<^verbatim>\<open>Object.prototype\<close> (\<open>JInherited\<close>, by its name).
\<close>

datatype jsval = JStr string | JInherited string

record addressContent =
  street :: string
  city :: string
  country :: string
  zip :: string
  state :: string

record newField =
  nf_id :: string
  nf_title :: string
  nf_fieldType :: fieldType
  nf_value :: jsval
  nf_sectionId :: "string option"
  nf_details :: "addressContent option"

subsection \<open>Payment-card fields (lines 1214 to 1274, and 1859 to 1919)\<close>

text \<open>
  \<^verbatim>\<open>cardTypeMap[key]\<close>: the four properties of the object literal, then the
  properties every object inherits. All of them are truthy.
\<close>

definition objectPrototypeKeys :: "string list" where
  "objectPrototypeKeys =
     [''constructor'', ''__defineGetter__'', ''__defineSetter__'', ''hasOwnProperty'',
      ''__lookupGetter__'', ''__lookupSetter__'', ''isPrototypeOf'',
      ''propertyIsEnumerable'', ''toString'', ''valueOf'', ''__proto__'',
      ''toLocaleString'']"

definition cardTypeMap :: "string \<Rightarrow> jsval option" where
  "cardTypeMap k =
     (if k = ''mc'' then Some (JStr ''Mastercard'')
      else if k = ''visa'' then Some (JStr ''Visa'')
      else if k = ''amex'' then Some (JStr ''American Express'')
      else if k = ''discover'' then Some (JStr ''Discover'')
      else if k \<in> set objectPrototypeKeys then Some (JInherited k)
      else None)"

text \<open>The four regular expressions of the expiry branch, each anchored at both ends.\<close>

definition reMMslashYYYY :: "string \<Rightarrow> bool" where
  "reMMslashYYYY s = (length s = 7 \<and> list_all isDigit (take 2 s) \<and> s ! 2 = CHR ''/''
     \<and> list_all isDigit (drop 3 s))"

definition reMMdashYYYY :: "string \<Rightarrow> bool" where
  "reMMdashYYYY s = (length s = 7 \<and> list_all isDigit (take 2 s) \<and> s ! 2 = CHR ''-''
     \<and> list_all isDigit (drop 3 s))"

definition reMMYY :: "string \<Rightarrow> bool" where
  "reMMYY s = (length s = 4 \<and> list_all isDigit s)"

definition reMMslashYY :: "string \<Rightarrow> bool" where
  "reMMslashYY s = (length s = 5 \<and> list_all isDigit (take 2 s) \<and> s ! 2 = CHR ''/''
     \<and> list_all isDigit (drop 3 s))"

text \<open>Lines 1239 to 1254: the value of an expiry field.\<close>

definition normalizeExpiry :: "string \<Rightarrow> string" where
  "normalizeExpiry expiryValue =
     (if expiryValue \<noteq> [] then
        (if reMMslashYYYY expiryValue then expiryValue
         else if reMMdashYYYY expiryValue then replaceFirst (CHR ''-'') (CHR ''/'') expiryValue
         else if reMMYY expiryValue then take 2 expiryValue @ ''/20'' @ drop 2 expiryValue
         else if reMMslashYY expiryValue then take 2 expiryValue @ ''/20'' @ drop 3 expiryValue
         else ''01/1970'')
      else ''01/1970'')"

definition isTypeRole :: "field \<Rightarrow> bool" where
  "isTypeRole f = (f_id f = ''type'' \<or> strIncludes (toLowerCase (f_title f)) ''type'')"

definition isExpiryRole :: "field \<Rightarrow> bool" where
  "isExpiryRole f = (f_id f = ''expiry'' \<or> strIncludes (toLowerCase (f_title f)) ''expiry''
     \<or> strIncludes (toLowerCase (f_title f)) ''expiration'')"

definition isNumberRole :: "field \<Rightarrow> bool" where
  "isNumberRole f = (f_id f = ''number'' \<or> f_id f = ''ccnum''
     \<or> strIncludes (toLowerCase (f_title f)) ''number'')"

definition isCvvRole :: "field \<Rightarrow> bool" where
  "isCvvRole f = (f_id f = ''cvv'' \<or> strIncludes (toLowerCase (f_title f)) ''verification'')"

definition isPinRole :: "field \<Rightarrow> bool" where
  "isPinRole f = (f_id f = ''pin'' \<or> strIncludes (toLowerCase (f_title f)) ''pin'')"

definition builtInFieldIds :: "string list" where
  "builtInFieldIds = [''cardholder'', ''type'', ''number'', ''ccnum'', ''cvv'', ''expiry'']"

text \<open>
  The callback of \<^verbatim>\<open>fullItem.fields.map\<close> for a payment card. The five tests are
  consecutive \<^verbatim>\<open>if\<close> statements, not alternatives: a later one overwrites what an
  earlier one assigned.
\<close>

definition ccField :: "field \<Rightarrow> newField" where
  "ccField f =
     (let nf0 = \<lparr> nf_id = orElse (f_id f) ''unnamed'',
                  nf_title = orElse (f_title f) (optOrElse (f_label f) ''unnamed''),
                  nf_fieldType = f_fieldType f,
                  nf_value = JStr (f_value f),
                  nf_sectionId = f_sectionId f,
                  nf_details = None \<rparr>;
          nf1 = (if isTypeRole f then
                   nf0\<lparr> nf_fieldType := CreditCardType,
                        nf_value := (case cardTypeMap (toLowerCase (f_value f)) of
                                       Some v \<Rightarrow> v
                                     | None \<Rightarrow> JStr (orElse (f_value f) ''Unknown'')) \<rparr>
                 else nf0);
          nf2 = (if isExpiryRole f then
                   nf1\<lparr> nf_fieldType := MonthYear,
                        nf_value := JStr (normalizeExpiry (f_value f)) \<rparr>
                 else nf1);
          nf3 = (if isNumberRole f then nf2\<lparr> nf_fieldType := CreditCardNumber \<rparr> else nf2);
          nf4 = (if isCvvRole f then nf3\<lparr> nf_fieldType := Concealed \<rparr> else nf3);
          nf5 = (if isPinRole f then nf4\<lparr> nf_fieldType := Concealed \<rparr> else nf4)
      in if (nf_sectionId nf5 = None \<or> nf_sectionId nf5 = Some [])
            \<and> nf_id nf5 \<notin> set builtInFieldIds
         then nf5\<lparr> nf_sectionId := Some ''add more'' \<rparr> else nf5)"

subsection \<open>Fields of every other item (lines 1282 to 1335, and 1927 to 1980)\<close>

text \<open>The chain of conditionals that keeps a field type the destination accepts.\<close>

definition keptFieldType :: "fieldType \<Rightarrow> fieldType" where
  "keptFieldType t =
     (if t = Text then Text else if t = Concealed then Concealed
      else if t = Totp then Totp else if t = Address then Address
      else if t = SshKey then SshKey else if t = Date then Date
      else if t = MonthYear then MonthYear else if t = Email then Email
      else if t = Phone then Phone else if t = Url then Url
      else if t = Menu then Menu else Text)"

text \<open>\<^verbatim>\<open>field.details?.content?.totp\<close>\<close>

definition detailsTotp :: "field \<Rightarrow> string option" where
  "detailsTotp f = (case detailsContent f of None \<Rightarrow> None | Some c \<Rightarrow> ownProp c ''totp'')"

text \<open>\<^verbatim>\<open>field.value || field.details?.content?.totp || ""\<close>\<close>

definition totpValue :: "field \<Rightarrow> string" where
  "totpValue f = orElse (f_value f) (optOrElse (detailsTotp f) [])"

definition isValidTotpUri :: "string \<Rightarrow> bool" where
  "isValidTotpUri v = startsWith v ''otpauth://totp/''"

text \<open>
  \<^verbatim>\<open>/^[A-Z2-7]{16,32}$/i\<close>: with the ignore-case flag and without the unicode flag a
  character class of ASCII letters matches the same letters in either case and nothing
  else.
\<close>

definition isBase32Char :: "char \<Rightarrow> bool" where
  "isBase32Char c = (let n = (of_char c :: nat) in
     (65 \<le> n \<and> n \<le> 90) \<or> (97 \<le> n \<and> n \<le> 122) \<or> (50 \<le> n \<and> n \<le> 55))"

definition isPotentialTotpSeed :: "string \<Rightarrow> bool" where
  "isPotentialTotpSeed v = (16 \<le> length v \<and> length v \<le> 32 \<and> list_all isBase32Char v)"

definition transcodeField :: "field \<Rightarrow> newField" where
  "transcodeField f =
     (let nf0 = \<lparr> nf_id = orElse (f_id f) ''unnamed'',
                  nf_title = orElse (f_title f) (optOrElse (f_label f) ''unnamed''),
                  nf_fieldType = keptFieldType (f_fieldType f),
                  nf_value = JStr (f_value f),
                  nf_sectionId = f_sectionId f,
                  nf_details = None \<rparr>;
          others =
            (if f_fieldType f = Totp then
               (if isValidTotpUri (totpValue f) \<or> isPotentialTotpSeed (totpValue f)
                then nf0\<lparr> nf_value := JStr (totpValue f) \<rparr>
                else nf0\<lparr> nf_fieldType := Text, nf_value := JStr (totpValue f) \<rparr>)
             else if f_fieldType f = Date \<or> f_fieldType f = MonthYear
             then nf0\<lparr> nf_value := JStr (f_value f) \<rparr>
             else nf0)
      in case detailsContent f of
           Some c \<Rightarrow>
             if f_fieldType f = Address then
               nf0\<lparr> nf_details := Some \<lparr> street = optOrElse (ownProp c ''street'') [],
                                          city = optOrElse (ownProp c ''city'') [],
                                          country = optOrElse (ownProp c ''country'') [],
                                          zip = optOrElse (ownProp c ''zip'') [],
                                          state = optOrElse (ownProp c ''state'') [] \<rparr>,
                    nf_value := JStr [] \<rparr>
             else if f_fieldType f = SshKey then
               nf0\<lparr> nf_value := JStr (optOrElse (ownProp c ''privateKey'') (f_value f)) \<rparr>
             else others
         | None \<Rightarrow> others)"

text \<open>
  The items \<^verbatim>\<open>migrateVault\<close> receives are those \<^verbatim>\<open>listVaultItems\<close> returns. This is
  the callback it maps over the fields of each item it has read (lines 2263 to 2297).
\<close>

definition listItemField :: "field \<Rightarrow> field" where
  "listItemField f =
     (let others =
            (if f_fieldType f = Totp then
               f\<lparr> f_value := optOrElse (detailsTotp f) (f_value f),
                  f_details := (case f_details f of None \<Rightarrow> Some \<lparr> d_content = None \<rparr>
                                | Some d \<Rightarrow> Some d) \<rparr>
             else f)
      in case detailsContent f of
           Some c \<Rightarrow>
             if f_fieldType f = Address then
               f\<lparr> f_details := Some \<lparr> d_content = Some
                    [(''street'', optOrElse (ownProp c ''street'') []),
                     (''city'', optOrElse (ownProp c ''city'') []),
                     (''state'', optOrElse (ownProp c ''state'') []),
                     (''zip'', optOrElse (ownProp c ''zip'') []),
                     (''country'', optOrElse (ownProp c ''country'') [])] \<rparr> \<rparr>
             else if f_fieldType f = SshKey then
               f\<lparr> f_details := Some \<lparr> d_content = Some
                    [(''privateKey'', optOrElse (ownProp c ''privateKey'') (f_value f)),
                     (''publicKey'', optOrElse (ownProp c ''publicKey'') []),
                     (''fingerprint'', optOrElse (ownProp c ''fingerprint'') []),
                     (''keyType'', optOrElse (ownProp c ''keyType'') [])] \<rparr> \<rparr>
             else others
         | None \<Rightarrow> others)"

subsection \<open>Items\<close>

type_synonym bytes = "char list"

record itemSection =
  sec_id :: string
  sec_title :: string
  sec_label :: "string option"

record itemFile =
  fl_name :: string
  fl_content :: bytes
  fl_sectionId :: string
  fl_fieldId :: string

datatype autofillBehavior = AnywhereOnWebsite | ExactDomain | Never

record website =
  ws_url :: "string option"
  ws_href :: "string option"
  ws_label :: "string option"
  ws_autofillBehavior :: "autofillBehavior option"

text \<open>
  An item as \<^verbatim>\<open>listVaultItems\<close> returns it. The category is a string at run time;
  \<open>None\<close> is \<^verbatim>\<open>undefined\<close>.
\<close>

record item =
  it_id :: string
  it_title :: string
  it_category :: "string option"
  it_fields :: "field list"
  it_sections :: "itemSection list"
  it_tags :: "string list"
  it_websites :: "website list"
  it_notes :: string
  it_files :: "itemFile list"

text \<open>What \<^verbatim>\<open>client.items.get\<close> resolves to, as far as the server reads it.\<close>

record fullItem =
  fi_category :: string
  fi_document :: "string option"
  fi_fields :: "field list"

text \<open>The members of \<^verbatim>\<open>sdk.ItemCategory\<close> the server names: string constants of the SDK.\<close>

definition ItemCategory_Login :: string where "ItemCategory_Login = ''Login''"
definition ItemCategory_SecureNote :: string where "ItemCategory_SecureNote = ''SecureNote''"
definition ItemCategory_Document :: string where "ItemCategory_Document = ''Document''"
definition ItemCategory_CreditCard :: string where "ItemCategory_CreditCard = ''CreditCard''"
definition ItemCategory_SshKey :: string where "ItemCategory_SshKey = ''SshKey''"

record newSection =
  ns_id :: string
  ns_title :: string

record newFile =
  nfl_name :: string
  nfl_content :: bytes
  nfl_sectionId :: string
  nfl_fieldId :: string

record newWebsite =
  nw_url :: string
  nw_label :: string
  nw_autofillBehavior :: autofillBehavior

record newItem =
  ni_title :: string
  ni_category :: string
  ni_vaultId :: string
  ni_notes :: "string option"
  ni_document :: "(string \<times> bytes) option"
  ni_fields :: "newField list option"
  ni_sections :: "newSection list option"
  ni_files :: "newFile list option"
  ni_tags :: "string list option"
  ni_websites :: "newWebsite list option"

text \<open>
  The JSON the command-line tool prints for an item and for a template, as far as the
  bridge reads or rewrites it. \<open>None\<close> is an absent property.
\<close>

record rawField =
  rf_id :: "string option"
  rf_label :: string
  rf_value :: string
  rf_reference :: "string option"
  rf_sectionId :: "string option"

record rawItem =
  ri_id :: "string option"
  ri_title :: string
  ri_created_at :: "string option"
  ri_updated_at :: "string option"
  ri_last_edited_by :: "string option"
  ri_version :: "nat option"
  ri_category :: string
  ri_category_id :: "string option"
  ri_vaultId :: "string option"
  ri_fields :: "rawField list option"

record template =
  tpl_uuid :: string
  tpl_name :: string
  tpl_category :: "string option"

subsection \<open>The environment and the state\<close>

text \<open>
  Everything outside the process is a \<open>world\<close>: for each remote call, subprocess and file
  operation, the outcome it has at a given time and for given arguments. Time is the
  \<open>clock\<close> of the state, which counts the interactions made so far, so a world fixes
  the whole sequence of responses of a run and any sequence is some world.
  \<open>w_isCancelled n\<close> is the value of the flag \<^verbatim>\<open>isMigrationCancelled\<close> at its \<open>n\<close>-th
  read, and \<open>w_now n\<close> the \<open>n\<close>-th reading of \<^verbatim>\<open>Date.now()\<close>. \<open>w_sdkCustom\<close> is the value
  of \<^verbatim>\<open>sdk.ItemCategory.Custom\<close> in the installed SDK (\<open>None\<close> when the enumeration has
  no such member).
\<close>

record world =
  w_sdkCustom :: "string option"
  w_isCancelled :: "nat \<Rightarrow> bool"
  w_now :: "nat \<Rightarrow> nat"
  w_createClient :: "nat \<Rightarrow> string \<Rightarrow> string option"
  w_itemsList :: "nat \<Rightarrow> string \<Rightarrow> string \<Rightarrow> string + string list"
  w_itemsListArchived :: "nat \<Rightarrow> string \<Rightarrow> string \<Rightarrow> string + string list"
  w_vaultCreate :: "nat \<Rightarrow> string \<Rightarrow> string \<Rightarrow> string + string"
  w_listVaults :: "nat \<Rightarrow> string + (string \<times> string) list"
  w_listVaultItems :: "nat \<Rightarrow> string \<Rightarrow> string + item list"
  w_itemsGet :: "nat \<Rightarrow> string \<Rightarrow> string \<Rightarrow> string + fullItem"
  w_filesRead :: "nat \<Rightarrow> string \<Rightarrow> string \<Rightarrow> string + bytes"
  w_itemsCreate :: "nat \<Rightarrow> newItem \<Rightarrow> string option"
  w_cliItemGet :: "nat \<Rightarrow> string \<Rightarrow> string \<Rightarrow> string \<Rightarrow> string + rawItem"
  w_cliTemplateList :: "nat \<Rightarrow> string \<Rightarrow> string + template list"
  w_writeFile :: "nat \<Rightarrow> string \<Rightarrow> rawItem \<Rightarrow> string option"
  w_cliItemCreate :: "nat \<Rightarrow> string \<Rightarrow> string \<Rightarrow> string \<Rightarrow> string option"
  w_unlink :: "nat \<Rightarrow> string \<Rightarrow> string option"

datatype level = INFO | WARNING | ERROR

type_synonym logLine = "level \<times> string option \<times> string"

record failedItem =
  fa_vaultId :: string
  fa_vaultName :: string
  fa_itemId :: string
  fa_itemTitle :: string
  fa_error :: string

record vaultSummary =
  vs_vaultName :: string
  vs_sourceItemCount :: nat
  vs_destItemCount :: nat
  vs_successCount :: nat
  vs_failureCount :: nat

text \<open>
  The state of the process: the two counters that index the world, the delays
  \<^verbatim>\<open>retryWithBackoff\<close> has waited (milliseconds, in order), and the \<^verbatim>\<open>LogManager\<close>
  (its global log, failed items and vault summaries; its per-vault logs and its
  counters are functions of the global log, and timestamps are left out).
\<close>

record sys =
  clock :: nat
  checks :: nat
  timeReads :: nat
  slept :: "nat list"
  globalLog :: "logLine list"
  failedItems :: "failedItem list"
  vaultSummaries :: "(string \<times> vaultSummary) list"

definition tick :: "sys \<Rightarrow> sys" where
  "tick s = s\<lparr> clock := Suc (clock s) \<rparr>"

definition logAt :: "level \<Rightarrow> string option \<Rightarrow> string \<Rightarrow> sys \<Rightarrow> sys" where
  "logAt lvl vaultId message s = s\<lparr> globalLog := globalLog s @ [(lvl, vaultId, message)] \<rparr>"

definition logInfo :: "string option \<Rightarrow> string \<Rightarrow> sys \<Rightarrow> sys" where
  "logInfo = logAt INFO"

definition logWarning :: "string option \<Rightarrow> string \<Rightarrow> sys \<Rightarrow> sys" where
  "logWarning = logAt WARNING"

definition logError :: "string option \<Rightarrow> string \<Rightarrow> sys \<Rightarrow> sys" where
  "logError = logAt ERROR"

definition dquote :: string where
  "dquote = [char_of (34 :: nat)]"

definition squote :: string where
  "squote = [char_of (39 :: nat)]"

text \<open>\<^verbatim>\<open>logFailedItem\<close>: \<^verbatim>\<open>error.message || error.toString()\<close> of an \<^verbatim>\<open>Error\<close>.\<close>

definition logFailedItem :: "string \<Rightarrow> string \<Rightarrow> string \<Rightarrow> string \<Rightarrow> string \<Rightarrow> sys \<Rightarrow> sys" where
  "logFailedItem vaultId vaultName itemId itemTitle err s =
     logError (Some vaultId)
       (''Failed to migrate item ['' @ itemId @ ''] '' @ dquote @ itemTitle @ dquote @ '': '' @ err)
       (s\<lparr> failedItems := failedItems s @
            [\<lparr> fa_vaultId = vaultId, fa_vaultName = vaultName, fa_itemId = itemId,
               fa_itemTitle = itemTitle, fa_error = orElse err ''Error'' \<rparr>] \<rparr>)"

definition logVaultComplete :: "string \<Rightarrow> vaultSummary \<Rightarrow> sys \<Rightarrow> sys" where
  "logVaultComplete vaultId stats s =
     s\<lparr> vaultSummaries := AList.update vaultId stats (vaultSummaries s) \<rparr>"

subsection \<open>retryWithBackoff (lines 843 to 860)\<close>

text \<open>\<^verbatim>\<open>error.message.includes('data conflict') || error.message.includes('rate limit')\<close>\<close>

definition isTransient :: "string \<Rightarrow> bool" where
  "isTransient e = (strIncludes e ''data conflict'' \<or> strIncludes e ''rate limit'')"

text \<open>
  The loop, from \<open>attempt\<close> on. \<open>fn\<close> is the wrapped operation: it reads and changes
  the state and resolves (\<open>Inr\<close>) or rejects (\<open>Inl\<close>). The result is \<open>Inr None\<close> when
  the loop ends without an attempt, where the JavaScript function returns
  \<^verbatim>\<open>undefined\<close>.
\<close>

function retryLoop ::
  "(sys \<Rightarrow> (string + 'a) \<times> sys) \<Rightarrow> nat \<Rightarrow> nat \<Rightarrow> nat \<Rightarrow> sys \<Rightarrow> (string + 'a option) \<times> sys" where
  "retryLoop fn maxRetries baseDelay attempt s =
     (if attempt \<le> maxRetries then
        (case fn s of
           (Inr v, s1) \<Rightarrow> (Inr (Some v), s1)
         | (Inl e, s1) \<Rightarrow>
             if isTransient e \<and> attempt < maxRetries then
               (let delay = baseDelay * 2 ^ (attempt - 1);
                    s2 = logWarning None
                           (''Retrying attempt '' @ showNat attempt @ '' after '' @ showNat delay
                              @ ''ms due to '' @ e) s1;
                    s3 = s2\<lparr> slept := slept s2 @ [delay] \<rparr>
                in retryLoop fn maxRetries baseDelay (attempt + 1) s3)
             else (Inl e, s1))
      else (Inr None, s))"
  by pat_completeness auto
termination
  by (relation "measure (\<lambda>(fn, maxRetries, baseDelay, attempt, s). Suc maxRetries - attempt)") auto

declare retryLoop.simps [simp del]

definition retryWithBackoff ::
  "(sys \<Rightarrow> (string + 'a) \<times> sys) \<Rightarrow> nat \<Rightarrow> nat \<Rightarrow> sys \<Rightarrow> (string + 'a option) \<times> sys" where
  "retryWithBackoff fn maxRetries baseDelay s = retryLoop fn maxRetries baseDelay 1 s"

text \<open>With the default arguments, as every call site has it.\<close>

definition retryDefault :: "(sys \<Rightarrow> (string + 'a) \<times> sys) \<Rightarrow> sys \<Rightarrow> (string + 'a option) \<times> sys" where
  "retryDefault fn s = retryWithBackoff fn 3 1000 s"

subsection \<open>getVaultItemCount (lines 1042 to 1068)\<close>

text \<open>\<^verbatim>\<open>OnePasswordSDK.initializeClient\<close> (lines 2203 to 2220).\<close>

definition initializeClient :: "world \<Rightarrow> string \<Rightarrow> sys \<Rightarrow> (string + unit) \<times> sys" where
  "initializeClient w token s =
     (if token = [] then (Inl ''Service account token is required.'', s)
      else
        (let s1 = logInfo None ''Initializing 1Password SDK client'' s in
         case w_createClient w (clock s1) token of
           None \<Rightarrow> (Inr (), tick s1)
         | Some e \<Rightarrow>
             (Inl (''Failed to initialize client: '' @ e),
              logError None (''Failed to initialize client: '' @ e) (tick s1))))"

text \<open>The body of the outer \<^verbatim>\<open>try\<close>.\<close>

definition getVaultItemCount_try :: "world \<Rightarrow> string \<Rightarrow> string \<Rightarrow> sys \<Rightarrow> (string + nat) \<times> sys" where
  "getVaultItemCount_try w vaultId token s =
     (case initializeClient w token s of
        (Inl e, s1) \<Rightarrow> (Inl e, s1)
      | (Inr _, s1) \<Rightarrow>
          (case w_itemsList w (clock s1) token vaultId of
             Inl e \<Rightarrow> (Inl e, tick s1)
           | Inr activeItems \<Rightarrow>
               (let activeCount = length activeItems;
                    s2 = tick s1;
                    s3 = (case w_itemsListArchived w (clock s2) token vaultId of
                            Inr archivedItems \<Rightarrow>
                              (let archivedCount = length archivedItems in
                               if archivedCount > 0
                               then logInfo (Some vaultId)
                                      (''Contains '' @ showNat archivedCount @ '' archived items'')
                                      (tick s2)
                               else tick s2)
                          | Inl archiveError \<Rightarrow>
                              logWarning (Some vaultId)
                                (''Could not fetch archived items: '' @ archiveError) (tick s2))
                in (Inr activeCount, s3))))"

text \<open>The function: the body, and the \<^verbatim>\<open>catch\<close> that logs and returns 0.\<close>

definition getVaultItemCount :: "world \<Rightarrow> string \<Rightarrow> string \<Rightarrow> sys \<Rightarrow> (string + nat) \<times> sys" where
  "getVaultItemCount w vaultId token s =
     (case getVaultItemCount_try w vaultId token s of
        (Inr n, s1) \<Rightarrow> (Inr n, s1)
      | (Inl e, s1) \<Rightarrow>
          (Inr 0, logError (Some vaultId) (''Error fetching item count: '' @ e) s1))"

text \<open>
  A remote call whose outcomes are \<open>r\<close>, by time: it yields the outcome at the clock
  and advances the clock.
\<close>

definition scripted :: "(nat \<Rightarrow> string + 'a) \<Rightarrow> sys \<Rightarrow> (string + 'a) \<times> sys" where
  "scripted r s = (r (clock s), tick s)"

subsection \<open>createCustomItemViaCLI (lines 863 to 1039)\<close>

definition templateHint :: string where
  "templateHint = ''Please provide a Custom Template UUID in the connection form''"

definition noTemplateFound :: string where
  "noTemplateFound = ''No CUSTOM template found in destination account. '' @ templateHint
     @ '' or ensure custom templates are enabled.''"

text \<open>The message the inner \<^verbatim>\<open>catch\<close> of the template lookup throws (line 924).\<close>

definition failedToGetTemplate :: "string \<Rightarrow> string" where
  "failedToGetTemplate e = ''Failed to get CUSTOM template: '' @ e @ ''. '' @ templateHint @ ''.''"

text \<open>\<^verbatim>\<open>customTemplateId && customTemplateId.trim() !== ''\<close>\<close>

definition templateProvided :: "string option \<Rightarrow> bool" where
  "templateProvided customTemplateId =
     (case customTemplateId of None \<Rightarrow> False | Some t \<Rightarrow> t \<noteq> [] \<and> trim t \<noteq> [])"

definition isCustomTemplate :: "template \<Rightarrow> bool" where
  "isCustomTemplate t = (tpl_name t = ''Custom'' \<or> tpl_category t = Some ''CUSTOM'')"

text \<open>
  Lines 896 to 926: the template identifier of the destination, supplied or looked up
  with \<^verbatim>\<open>op item template list\<close>.
\<close>

definition resolveTemplate ::
  "world \<Rightarrow> string \<Rightarrow> string \<Rightarrow> string option \<Rightarrow> sys \<Rightarrow> (string + string) \<times> sys" where
  "resolveTemplate w destToken vaultId customTemplateId s =
     (if templateProvided customTemplateId then
        (let destCategoryId = trim (optOrElse customTemplateId []) in
         (Inr destCategoryId,
          logInfo (Some vaultId) (''Using provided CUSTOM template UUID: '' @ destCategoryId) s))
      else
        (let s1 = logInfo (Some vaultId) ''Getting CUSTOM template list from destination'' s in
         case w_cliTemplateList w (clock s1) destToken of
           Inl e \<Rightarrow> (Inl (failedToGetTemplate e), tick s1)
         | Inr templates \<Rightarrow>
             (case find isCustomTemplate templates of
                None \<Rightarrow> (Inl (failedToGetTemplate noTemplateFound), tick s1)
              | Some customTemplate \<Rightarrow>
                  (Inr (tpl_uuid customTemplate),
                   logInfo (Some vaultId)
                     (''Found CUSTOM template in destination with UUID: '' @ tpl_uuid customTemplate)
                     (tick s1)))))"

text \<open>Lines 932 to 967: the item as it is written to the temporary file.\<close>

definition prepareCustomItem :: "rawItem \<Rightarrow> string \<Rightarrow> string \<Rightarrow> rawItem" where
  "prepareCustomItem sourceItem destCategoryId destVaultId =
     sourceItem\<lparr> ri_id := None, ri_created_at := None, ri_updated_at := None,
                 ri_last_edited_by := None, ri_version := None,
                 ri_category := ''CUSTOM'', ri_category_id := Some destCategoryId,
                 ri_fields := map_option (map (\<lambda>field. field\<lparr> rf_reference := None, rf_id := None \<rparr>))
                                (ri_fields sourceItem),
                 ri_vaultId := Some destVaultId \<rparr>"

text \<open>
  The \<^verbatim>\<open>TypeError\<close> of reading a property of \<^verbatim>\<open>undefined\<close>, as the runtime words it.
\<close>

definition cannotRead :: "string \<Rightarrow> string" where
  "cannotRead p = ''Cannot read properties of undefined (reading '' @ squote @ p @ squote @ '')''"

text \<open>
  The body of the outer \<^verbatim>\<open>try\<close>. The diagnostic print of line 888 reads
  \<^verbatim>\<open>sourceItem.fields.slice\<close> and throws when the item has no \<^verbatim>\<open>fields\<close>. The
  temporary file is removed in the \<^verbatim>\<open>finally\<close>, after the creation succeeded or
  failed; a failure to remove it is logged and goes no further.
\<close>

definition createCustomItemViaCLI_try ::
  "world \<Rightarrow> item \<Rightarrow> string \<Rightarrow> string \<Rightarrow> string \<Rightarrow> string \<Rightarrow> string \<Rightarrow> string option \<Rightarrow> sys
     \<Rightarrow> (string + unit) \<times> sys" where
  "createCustomItemViaCLI_try w itm sourceToken destToken sourceVaultId destVaultId vaultId
       customTemplateId s =
     (let s1 = logInfo (Some vaultId)
                 (''Fetching CUSTOM item '' @ it_id itm @ '' via CLI from source'') s in
      case w_cliItemGet w (clock s1) sourceToken (it_id itm) sourceVaultId of
        Inl e \<Rightarrow> (Inl e, tick s1)
      | Inr sourceItem \<Rightarrow>
          (case ri_fields sourceItem of
             None \<Rightarrow> (Inl (cannotRead ''slice''), tick s1)
           | Some _ \<Rightarrow>
               (case resolveTemplate w destToken vaultId customTemplateId (tick s1) of
                  (Inl e, s2) \<Rightarrow> (Inl e, s2)
                | (Inr destCategoryId, s2) \<Rightarrow>
                    (let prepared = prepareCustomItem sourceItem destCategoryId destVaultId;
                         tmpFile = ''/tmp/op-custom-item-'' @ it_id itm @ ''-''
                                     @ showNat (w_now w (timeReads s2)) @ ''.json'';
                         s3 = logInfo (Some vaultId)
                                (''Writing CUSTOM item template to '' @ tmpFile)
                                (s2\<lparr> timeReads := Suc (timeReads s2) \<rparr>)
                     in case w_writeFile w (clock s3) tmpFile prepared of
                          Some e \<Rightarrow> (Inl e, tick s3)
                        | None \<Rightarrow>
                            (let s4 = logInfo (Some vaultId)
                                        (''Creating CUSTOM item '' @ dquote @ it_title itm @ dquote
                                           @ '' via CLI in destination'') (tick s3);
                                 created = w_cliItemCreate w (clock s4) destToken destVaultId tmpFile;
                                 s5 = (case created of
                                         None \<Rightarrow>
                                           logInfo (Some vaultId)
                                             (''Successfully created CUSTOM item '' @ dquote
                                                @ it_title itm @ dquote @ '' via CLI'') (tick s4)
                                       | Some _ \<Rightarrow> tick s4);
                                 s6 = (case w_unlink w (clock s5) tmpFile of
                                         None \<Rightarrow>
                                           logInfo (Some vaultId)
                                             (''Cleaned up temp file '' @ tmpFile) (tick s5)
                                       | Some cleanupError \<Rightarrow>
                                           logWarning (Some vaultId)
                                             (''Failed to clean up temp file '' @ tmpFile @ '': ''
                                                @ cleanupError) (tick s5))
                             in (case created of None \<Rightarrow> Inr () | Some e \<Rightarrow> Inl e, s6))))))"

text \<open>The function: the body, and the \<^verbatim>\<open>catch\<close> that logs the error and throws it again.\<close>

definition createCustomItemViaCLI ::
  "world \<Rightarrow> item \<Rightarrow> string \<Rightarrow> string \<Rightarrow> string \<Rightarrow> string \<Rightarrow> string \<Rightarrow> string option \<Rightarrow> sys
     \<Rightarrow> (string + unit) \<times> sys" where
  "createCustomItemViaCLI w itm sourceToken destToken sourceVaultId destVaultId vaultId
       customTemplateId s =
     (case createCustomItemViaCLI_try w itm sourceToken destToken sourceVaultId destVaultId
             vaultId customTemplateId s of
        (Inr u, s1) \<Rightarrow> (Inr u, s1)
      | (Inl e, s1) \<Rightarrow>
          (Inl e, logError (Some vaultId) (''Failed to create CUSTOM item via CLI: '' @ e) s1))"

subsection \<open>Results and bookkeeping of a vault\<close>

text \<open>
  Numbers that JavaScript computes with a division, the progress percentages, are
  modelled as exact rationals.
\<close>

record itemResult =
  r_id :: string
  r_title :: string
  r_success :: bool
  r_error :: "string option"
  r_progress :: rat

text \<open>What \<^verbatim>\<open>migrateVault\<close> returns; \<open>destItemCount\<close> is \<open>None\<close> for \<^verbatim>\<open>null\<close>.\<close>

record vaultResult =
  itemsLength :: nat
  migrationResults :: "itemResult list"
  sourceItemCount :: nat
  destItemCount :: "nat option"
  successCount :: nat
  failureCount :: nat

datatype status = InProgress | Completed | Cancelled | Failed

text \<open>
  The local object \<^verbatim>\<open>logEntry\<close>. The procedures only write to it; the model returns
  it beside the result, as it is when the procedure ends.
\<close>

record logEntry =
  le_status :: status
  le_errors :: "string list"
  le_itemResults :: "(string \<times> string \<times> bool \<times> string option) list"
  le_sourceItemCount :: "nat option"
  le_newVaultId :: "string option"
  le_destItemCount :: "nat option"
  le_successCount :: "nat option"
  le_failureCount :: "nat option"

text \<open>The parameters of a vault's migration, and the vault created for it.\<close>

record vaultCtx =
  cx_vaultId :: string
  cx_vaultName :: string
  cx_sourceToken :: string
  cx_destToken :: string
  cx_customTemplateId :: "string option"
  cx_newVaultId :: string
  cx_itemsLength :: nat

text \<open>The variables of the item loop.\<close>

record loopVars =
  lv_migrationResults :: "itemResult list"
  lv_processedItems :: nat
  lv_successCount :: nat
  lv_failureCount :: nat
  lv_logEntry :: logEntry

definition progressOf :: "nat \<Rightarrow> nat \<Rightarrow> rat" where
  "progressOf processedItems n = (of_nat processedItems / of_nat n) * 100"

subsection \<open>One item through the SDK (lines 1172 to 1396, and 1817 to 2041)\<close>

text \<open>\<^verbatim>\<open>String(item.category)\<close> and \<^verbatim>\<open>typeof item.category\<close>\<close>

definition categoryStr :: "item \<Rightarrow> string" where
  "categoryStr itm = (case it_category itm of None \<Rightarrow> ''undefined'' | Some c \<Rightarrow> c)"

definition categoryType :: "item \<Rightarrow> string" where
  "categoryType itm = (case it_category itm of None \<Rightarrow> ''undefined'' | Some c \<Rightarrow> ''string'')"

definition isCustomItem :: "world \<Rightarrow> item \<Rightarrow> bool" where
  "isCustomItem w itm =
     (it_category itm = Some ''CUSTOM'' \<or>
      it_category itm = Some ''Custom'' \<or>
      it_category itm = Some ''Unsupported'' \<or>
      it_category itm = w_sdkCustom w \<or>
      categoryStr itm = ''Custom'' \<or>
      categoryStr itm = ''CUSTOM'' \<or>
      categoryStr itm = ''Unsupported'' \<or>
      toLowerCase (categoryStr itm) = ''custom'' \<or>
      toLowerCase (categoryStr itm) = ''unsupported'')"

definition callItemsGet :: "world \<Rightarrow> string \<Rightarrow> string \<Rightarrow> sys \<Rightarrow> (string + fullItem) \<times> sys" where
  "callItemsGet w vaultId itemId = scripted (\<lambda>t. w_itemsGet w t vaultId itemId)"

definition callFilesRead :: "world \<Rightarrow> string \<Rightarrow> string \<Rightarrow> sys \<Rightarrow> (string + bytes) \<times> sys" where
  "callFilesRead w vaultId itemId = scripted (\<lambda>t. w_filesRead w t vaultId itemId)"

definition callItemsCreate :: "world \<Rightarrow> newItem \<Rightarrow> sys \<Rightarrow> (string + unit) \<times> sys" where
  "callItemsCreate w newItm =
     scripted (\<lambda>t. case w_itemsCreate w t newItm of None \<Rightarrow> Inr () | Some e \<Rightarrow> Inl e)"

text \<open>Lines 1179 to 1183.\<close>

definition notesStep :: "item \<Rightarrow> newItem \<Rightarrow> newItem" where
  "notesStep itm newItm =
     (if it_notes itm \<noteq> [] \<and> trim (it_notes itm) \<noteq> []
      then newItm\<lparr> ni_notes := Some (it_notes itm) \<rparr>
      else if it_category itm = Some ItemCategory_SecureNote
      then newItm\<lparr> ni_notes := Some ''Migrated Secure Note'' \<rparr>
      else newItm)"

text \<open>
  Lines 1186 to 1202. Whatever is thrown inside is caught, logged as a warning, and
  the item goes on without its document. \<^verbatim>\<open>new Uint8Array(undefined)\<close> is empty.
\<close>

definition documentStep :: "world \<Rightarrow> string \<Rightarrow> item \<Rightarrow> newItem \<Rightarrow> sys \<Rightarrow> newItem \<times> sys" where
  "documentStep w vaultId itm newItm s =
     (if it_category itm = Some ''Document'' \<or> it_category itm = Some ItemCategory_Document then
        (let failed = (\<lambda>e s'. (newItm, logWarning (Some vaultId)
                         (''Document handling failed for '' @ it_title itm @ '': '' @ e) s')) in
         case retryDefault (callItemsGet w vaultId (it_id itm)) s of
           (Inl e, s1) \<Rightarrow> failed e s1
         | (Inr None, s1) \<Rightarrow> failed (cannotRead ''category'') s1
         | (Inr (Some fullItm), s1) \<Rightarrow>
             (case fi_document fullItm of
                None \<Rightarrow> failed (''Item '' @ it_id itm @ '' is not a valid Document'') s1
              | Some documentName \<Rightarrow>
                  if fi_category fullItm \<noteq> ItemCategory_Document
                  then failed (''Item '' @ it_id itm @ '' is not a valid Document'') s1
                  else
                    (case retryDefault (callFilesRead w vaultId (it_id itm)) s1 of
                       (Inl e, s2) \<Rightarrow> failed e s2
                     | (Inr documentContent, s2) \<Rightarrow>
                         (newItm\<lparr> ni_document := Some (documentName,
                                     case documentContent of None \<Rightarrow> [] | Some c \<Rightarrow> c) \<rparr>, s2))))
      else (newItm, s))"

text \<open>Lines 1210 to 1278. The category is set before the \<^verbatim>\<open>try\<close>; the fields inside it.\<close>

definition creditCardStep :: "world \<Rightarrow> string \<Rightarrow> item \<Rightarrow> newItem \<Rightarrow> sys \<Rightarrow> newItem \<times> sys" where
  "creditCardStep w vaultId itm newItm s =
     (if it_category itm = Some ''CreditCard'' \<or> it_category itm = Some ItemCategory_CreditCard then
        (let newItm1 = newItm\<lparr> ni_category := ItemCategory_CreditCard \<rparr>;
             failed = (\<lambda>e s'. (newItm1, logWarning (Some vaultId)
                         (''Credit card field processing failed for '' @ it_title itm @ '': '' @ e) s'))
         in case retryDefault (callItemsGet w vaultId (it_id itm)) s of
              (Inl e, s1) \<Rightarrow> failed e s1
            | (Inr None, s1) \<Rightarrow> failed (cannotRead ''fields'') s1
            | (Inr (Some fullItm), s1) \<Rightarrow>
                (newItm1\<lparr> ni_fields := Some (map ccField (fi_fields fullItm)) \<rparr>, s1))
      else (newItm, s))"

text \<open>Lines 1281 to 1338.\<close>

definition fieldsStep :: "item \<Rightarrow> newItem \<Rightarrow> newItem" where
  "fieldsStep itm newItm =
     (if it_fields itm \<noteq> [] \<and> ni_category newItm \<noteq> ItemCategory_CreditCard
      then newItm\<lparr> ni_fields := Some (map transcodeField (it_fields itm)) \<rparr>
      else if it_category itm = Some ItemCategory_SecureNote
      then newItm\<lparr> ni_notes := Some (orElse (it_notes itm) ''Migrated Secure Note'') \<rparr>
      else newItm)"

text \<open>Lines 1341 to 1346.\<close>

definition sectionsStep :: "item \<Rightarrow> newItem \<Rightarrow> newItem" where
  "sectionsStep itm newItm =
     (if it_sections itm \<noteq> []
      then newItm\<lparr> ni_sections := Some (map (\<lambda>sec. \<lparr> ns_id = sec_id sec,
                        ns_title = orElse (sec_title sec) (optOrElse (sec_label sec) []) \<rparr>)
                      (it_sections itm)) \<rparr>
      else newItm)"

text \<open>
  Lines 1353 to 1372: the loop over the files, with its index, the files pushed so far
  and the \<^verbatim>\<open>Set\<close> of their section identifiers, in insertion order. The content of a
  file is a byte array, which is truthy.
\<close>

definition setAdd :: "string \<Rightarrow> string list \<Rightarrow> string list" where
  "setAdd x xs = (if x \<in> set xs then xs else xs @ [x])"

fun filesLoop ::
  "world \<Rightarrow> nat \<Rightarrow> itemFile list \<Rightarrow> newFile list \<Rightarrow> string list \<Rightarrow> sys
     \<Rightarrow> newFile list \<times> string list \<times> sys" where
  "filesLoop w index [] files fileSectionIds s = (files, fileSectionIds, s)"
| "filesLoop w index (file # rest) files fileSectionIds s =
     (let fileName = fl_name file;
          fileSectionId = orElse (fl_sectionId file) ''add more'';
          fromClock = fl_fieldId file = [];
          fileFieldId = (if fromClock
                         then fileName @ ''-'' @ showNat (w_now w (timeReads s)) @ ''-'' @ showNat index
                         else fl_fieldId file);
          s1 = (if fromClock then s\<lparr> timeReads := Suc (timeReads s) \<rparr> else s)
      in if fileName \<noteq> []
         then filesLoop w (Suc index) rest
                (files @ [\<lparr> nfl_name = fileName, nfl_content = fl_content file,
                             nfl_sectionId = fileSectionId, nfl_fieldId = fileFieldId \<rparr>])
                (setAdd fileSectionId fileSectionIds) s1
         else filesLoop w (Suc index) rest files fileSectionIds s1)"

text \<open>Lines 1375 to 1379: a section for every section identifier of a file that has none.\<close>

fun addFileSections :: "string list \<Rightarrow> newSection list \<Rightarrow> newSection list" where
  "addFileSections [] sections = sections"
| "addFileSections (sectionId # rest) sections =
     addFileSections rest
       (if list_ex (\<lambda>sec. ns_id sec = sectionId) sections then sections
        else sections @ [\<lparr> ns_id = sectionId,
                            ns_title = (if sectionId = ''add more'' then [] else sectionId) \<rparr>])"

text \<open>Lines 1349 to 1380.\<close>

definition filesStep :: "world \<Rightarrow> item \<Rightarrow> newItem \<Rightarrow> sys \<Rightarrow> newItem \<times> sys" where
  "filesStep w itm newItm s =
     (if it_files itm \<noteq> [] then
        (case filesLoop w 0 (it_files itm) [] [] s of
           (files, fileSectionIds, s1) \<Rightarrow>
             (newItm\<lparr> ni_files := Some files,
                       ni_sections := Some (addFileSections fileSectionIds
                          (case ni_sections newItm of None \<Rightarrow> [] | Some secs \<Rightarrow> secs)) \<rparr>, s1))
      else (newItm, s))"

text \<open>Lines 1383 to 1393.\<close>

definition tagsStep :: "item \<Rightarrow> newItem \<Rightarrow> newItem" where
  "tagsStep itm newItm =
     (if it_tags itm \<noteq> [] then newItm\<lparr> ni_tags := Some (it_tags itm) \<rparr> else newItm)"

definition websitesStep :: "item \<Rightarrow> newItem \<Rightarrow> newItem" where
  "websitesStep itm newItm =
     (if it_websites itm \<noteq> []
      then newItm\<lparr> ni_websites := Some (map (\<lambda>ws.
               \<lparr> nw_url = optOrElse (ws_url ws) (optOrElse (ws_href ws) []),
                 nw_label = optOrElse (ws_label ws) ''website'',
                 nw_autofillBehavior = (case ws_autofillBehavior ws of
                                          None \<Rightarrow> AnywhereOnWebsite | Some b \<Rightarrow> b) \<rparr>)
             (it_websites itm)) \<rparr>
      else newItm)"

text \<open>
  The item is built and created with \<^verbatim>\<open>retryWithBackoff\<close>. The text of this part
  is the same in \<^verbatim>\<open>migrateVault\<close> and in \<^verbatim>\<open>migrateVaultWithProgress\<close>.
\<close>

definition migrateViaSDK :: "world \<Rightarrow> vaultCtx \<Rightarrow> item \<Rightarrow> sys \<Rightarrow> (string + unit) \<times> sys" where
  "migrateViaSDK w cx itm s =
     (let newItem0 = \<lparr> ni_title = it_title itm,
                       ni_category = optOrElse (it_category itm) ItemCategory_Login,
                       ni_vaultId = cx_newVaultId cx,
                       ni_notes = None, ni_document = None, ni_fields = None,
                       ni_sections = None, ni_files = None, ni_tags = None,
                       ni_websites = None \<rparr>;
          newItem1 = notesStep itm newItem0
      in case documentStep w (cx_vaultId cx) itm newItem1 s of
           (newItem2, s2) \<Rightarrow>
             (let newItem3 = (if it_category itm = Some ''SSH_KEY''
                              then newItem2\<lparr> ni_category := ItemCategory_SshKey \<rparr>
                              else newItem2)
              in case creditCardStep w (cx_vaultId cx) itm newItem3 s2 of
                   (newItem4, s4) \<Rightarrow>
                     (let newItem5 = sectionsStep itm (fieldsStep itm newItem4)
                      in case filesStep w itm newItem5 s4 of
                           (newItem6, s6) \<Rightarrow>
                             (let newItem7 = websitesStep itm (tagsStep itm newItem6)
                              in case retryDefault (callItemsCreate w newItem7) s6 of
                                   (Inl e, s7) \<Rightarrow> (Inl e, s7)
                                 | (Inr _, s7) \<Rightarrow> (Inr (), s7)))))"

subsection \<open>One item of the loop\<close>

text \<open>
  What the \<^verbatim>\<open>try\<close> block of the loop does before it records the item: the bridge
  for a custom item, the SDK for any other (lines 1137 to 1156 and 1172 to 1396; the
  same text at 1776 to 1795 and 1817 to 2041). \<open>Inl\<close> is the error the \<^verbatim>\<open>catch\<close> of
  the loop receives.
\<close>

definition attemptItem :: "world \<Rightarrow> vaultCtx \<Rightarrow> item \<Rightarrow> sys \<Rightarrow> (string + unit) \<times> sys" where
  "attemptItem w cx itm s =
     (let s1 = logInfo (Some (cx_vaultId cx))
                 (''Item '' @ dquote @ it_title itm @ dquote @ '' category: '' @ categoryStr itm
                    @ '' (type: '' @ categoryType itm @ '')'') s
      in if isCustomItem w itm then
           createCustomItemViaCLI w itm (cx_sourceToken cx) (cx_destToken cx) (cx_vaultId cx)
             (cx_newVaultId cx) (cx_vaultId cx) (cx_customTemplateId cx)
             (logInfo (Some (cx_vaultId cx))
                (''Detected CUSTOM item '' @ dquote @ it_title itm @ dquote @ '' (category: ''
                   @ categoryStr itm @ '') - migrating via CLI'') s1)
         else migrateViaSDK w cx itm s1)"

definition successMessage :: "world \<Rightarrow> item \<Rightarrow> string" where
  "successMessage w itm =
     (if isCustomItem w itm
      then ''Successfully migrated CUSTOM item ['' @ it_id itm @ ''] '' @ dquote @ it_title itm
             @ dquote @ '' via CLI''
      else ''Successfully migrated item ['' @ it_id itm @ ''] '' @ dquote @ it_title itm @ dquote)"

subsection \<open>migrateVault (lines 1071 to 1471)\<close>

text \<open>
  The body of the loop, after the cancellation check: the attempt, then the
  bookkeeping of a success (lines 1158 to 1167 and 1398 to 1407) or, in the \<^verbatim>\<open>catch\<close>,
  of a failure (lines 1410 to 1426).
\<close>

definition itemBody :: "world \<Rightarrow> vaultCtx \<Rightarrow> item \<Rightarrow> loopVars \<Rightarrow> sys \<Rightarrow> loopVars \<times> sys" where
  "itemBody w cx itm lv s =
     (case attemptItem w cx itm s of
        (Inr _, s1) \<Rightarrow>
          (let processedItems = lv_processedItems lv + 1;
               successCount = lv_successCount lv + 1
           in (lv\<lparr> lv_processedItems := processedItems,
                   lv_successCount := successCount,
                   lv_migrationResults := lv_migrationResults lv @
                     [\<lparr> r_id = it_id itm, r_title = it_title itm, r_success = True,
                        r_error = None,
                        r_progress = progressOf processedItems (cx_itemsLength cx) \<rparr>],
                   lv_logEntry := (lv_logEntry lv)\<lparr> le_itemResults :=
                     le_itemResults (lv_logEntry lv) @ [(it_id itm, it_title itm, True, None)] \<rparr> \<rparr>,
               logInfo (Some (cx_vaultId cx)) (successMessage w itm) s1))
      | (Inl e, s1) \<Rightarrow>
          (let processedItems = lv_processedItems lv + 1;
               failureCount = lv_failureCount lv + 1
           in (lv\<lparr> lv_processedItems := processedItems,
                   lv_failureCount := failureCount,
                   lv_migrationResults := lv_migrationResults lv @
                     [\<lparr> r_id = it_id itm, r_title = it_title itm, r_success = False,
                        r_error = Some e,
                        r_progress = progressOf processedItems (cx_itemsLength cx) \<rparr>],
                   lv_logEntry := (lv_logEntry lv)\<lparr>
                     le_errors := le_errors (lv_logEntry lv) @
                       [''Item '' @ it_id itm @ '' ('' @ it_title itm @ ''): '' @ e],
                     le_itemResults := le_itemResults (lv_logEntry lv) @
                       [(it_id itm, it_title itm, False, Some e)] \<rparr> \<rparr>,
               logFailedItem (cx_vaultId cx) (cx_vaultName cx) (it_id itm) (it_title itm) e s1)))"

text \<open>Line 1123 (and 1762): the log line of a cancellation.\<close>

definition cancelVault :: "vaultCtx \<Rightarrow> sys \<Rightarrow> sys" where
  "cancelVault cx s = logInfo (Some (cx_vaultId cx)) ''Migration cancelled by user'' s"

text \<open>
  The loop (lines 1120 to 1428). The flag is read before each item; the result is
  \<open>True\<close> when the loop returned on a cancellation.
\<close>

fun itemLoop ::
  "world \<Rightarrow> vaultCtx \<Rightarrow> item list \<Rightarrow> loopVars \<Rightarrow> sys \<Rightarrow> bool \<times> loopVars \<times> sys" where
  "itemLoop w cx [] lv s = (False, lv, s)"
| "itemLoop w cx (itm # rest) lv s =
     (if w_isCancelled w (checks s) then
        (True, lv\<lparr> lv_logEntry := (lv_logEntry lv)\<lparr> le_status := Cancelled \<rparr> \<rparr>,
         cancelVault cx (s\<lparr> checks := Suc (checks s) \<rparr>))
      else
        (case itemBody w cx itm lv (s\<lparr> checks := Suc (checks s) \<rparr>) of
           (lv1, s1) \<Rightarrow> itemLoop w cx rest lv1 s1))"

definition newLogEntry :: logEntry where
  "newLogEntry = \<lparr> le_status = InProgress, le_errors = [], le_itemResults = [],
     le_sourceItemCount = None, le_newVaultId = None, le_destItemCount = None,
     le_successCount = None, le_failureCount = None \<rparr>"

text \<open>
  Lines 1084 to 1112 (and 1723 to 1751): the source count, the destination vault, the
  items. \<open>Inl\<close> is what is thrown to the outer \<^verbatim>\<open>catch\<close>.
\<close>

definition beginVault ::
  "world \<Rightarrow> string \<Rightarrow> string \<Rightarrow> string \<Rightarrow> string \<Rightarrow> logEntry \<Rightarrow> sys
     \<Rightarrow> (string + nat \<times> string \<times> item list) \<times> logEntry \<times> sys" where
  "beginVault w vaultId vaultName sourceToken destToken le s =
     (case getVaultItemCount w vaultId sourceToken s of
        (Inl e, s1) \<Rightarrow> (Inl e, le, s1)
      | (Inr srcCount, s1) \<Rightarrow>
          (let le1 = le\<lparr> le_sourceItemCount := Some srcCount \<rparr>;
               s2 = logInfo (Some vaultId) (''Source item count: '' @ showNat srcCount) s1
           in case w_vaultCreate w (clock s2) destToken vaultName of
                Inl e \<Rightarrow>
                  (Inl (''Vault creation failed: '' @ e), le1,
                   logError (Some vaultId) (''Failed to create destination vault: '' @ e) (tick s2))
              | Inr newVaultId \<Rightarrow>
                  (let le2 = le1\<lparr> le_newVaultId := Some newVaultId \<rparr>;
                       s3 = logInfo (Some vaultId) (''Created destination vault '' @ newVaultId)
                              (tick s2)
                   in case w_listVaultItems w (clock s3) vaultId of
                        Inl e \<Rightarrow>
                          (Inl (''Item listing failed: '' @ e), le2,
                           logError (Some vaultId) (''Failed to list items: '' @ e) (tick s3))
                      | Inr items \<Rightarrow>
                          (Inr (srcCount, newVaultId, items), le2,
                           logInfo (Some vaultId)
                             (''Found '' @ showNat (length items) @ '' items to migrate'')
                             (tick s3)))))"

text \<open>Lines 1430 to 1463 (and 2085 to 2118): the destination count and the result.\<close>

definition finishVault ::
  "world \<Rightarrow> vaultCtx \<Rightarrow> nat \<Rightarrow> loopVars \<Rightarrow> sys \<Rightarrow> (string + vaultResult) \<times> logEntry \<times> sys" where
  "finishVault w cx srcCount lv s =
     (case getVaultItemCount w (cx_newVaultId cx) (cx_destToken cx) s of
        (Inl e, s1) \<Rightarrow> (Inl e, lv_logEntry lv, s1)
      | (Inr dstCount, s1) \<Rightarrow>
          (let vaultId = cx_vaultId cx;
               le = (lv_logEntry lv)\<lparr> le_destItemCount := Some dstCount,
                       le_status := Completed,
                       le_successCount := Some (lv_successCount lv),
                       le_failureCount := Some (lv_failureCount lv) \<rparr>;
               s2 = logInfo (Some vaultId) (''Destination item count: '' @ showNat dstCount) s1;
               s3 = logInfo (Some vaultId)
                      (''Migration completed - Success: '' @ showNat (lv_successCount lv)
                         @ '', Failed: '' @ showNat (lv_failureCount lv)) s2;
               s4 = logVaultComplete vaultId
                      \<lparr> vs_vaultName = cx_vaultName cx, vs_sourceItemCount = srcCount,
                        vs_destItemCount = dstCount, vs_successCount = lv_successCount lv,
                        vs_failureCount = lv_failureCount lv \<rparr> s3;
               s5 = (if srcCount = dstCount \<and> lv_failureCount lv = 0
                     then logInfo (Some vaultId)
                            (''Successfully migrated all '' @ showNat srcCount @ '' items'') s4
                     else logWarning (Some vaultId)
                            (''Item count mismatch - Source: '' @ showNat srcCount
                               @ '', Destination: '' @ showNat dstCount @ '', Failed: ''
                               @ showNat (lv_failureCount lv)) s4)
           in (Inr \<lparr> itemsLength = cx_itemsLength cx,
                     migrationResults = lv_migrationResults lv,
                     sourceItemCount = srcCount,
                     destItemCount = Some dstCount,
                     successCount = lv_successCount lv,
                     failureCount = lv_failureCount lv \<rparr>, le, s5)))"

text \<open>What the loop returns on a cancellation (lines 1124 to 1131).\<close>

definition cancelledResult :: "vaultCtx \<Rightarrow> nat \<Rightarrow> loopVars \<Rightarrow> vaultResult" where
  "cancelledResult cx srcCount lv =
     \<lparr> itemsLength = cx_itemsLength cx,
       migrationResults = lv_migrationResults lv,
       sourceItemCount = srcCount,
       destItemCount = None,
       successCount = lv_successCount lv,
       failureCount = lv_failureCount lv \<rparr>"

definition initialLoopVars :: "logEntry \<Rightarrow> loopVars" where
  "initialLoopVars le = \<lparr> lv_migrationResults = [], lv_processedItems = 0,
     lv_successCount = 0, lv_failureCount = 0, lv_logEntry = le \<rparr>"

definition vaultContext ::
  "string \<Rightarrow> string \<Rightarrow> string \<Rightarrow> string \<Rightarrow> string option \<Rightarrow> string \<Rightarrow> item list \<Rightarrow> vaultCtx" where
  "vaultContext vaultId vaultName sourceToken destToken customTemplateId newVaultId items =
     \<lparr> cx_vaultId = vaultId, cx_vaultName = vaultName, cx_sourceToken = sourceToken,
       cx_destToken = destToken, cx_customTemplateId = customTemplateId,
       cx_newVaultId = newVaultId, cx_itemsLength = length items \<rparr>"

text \<open>The outer \<^verbatim>\<open>catch\<close> (lines 1465 to 1470, and 2120 to 2125).\<close>

definition vaultCatch ::
  "string \<Rightarrow> (string + vaultResult) \<times> logEntry \<times> sys \<Rightarrow> (string + vaultResult) \<times> logEntry \<times> sys" where
  "vaultCatch vaultId outcome =
     (case outcome of
        (Inr r, le, s) \<Rightarrow> (Inr r, le, s)
      | (Inl e, le, s) \<Rightarrow>
          (Inl e,
           le\<lparr> le_status := Failed, le_errors := le_errors le @ [''Vault migration: '' @ e] \<rparr>,
           logError (Some vaultId) (''Vault migration failed: '' @ e) s))"

text \<open>Line 1081 (and 1720): the first line of the log of a vault.\<close>

definition startVault :: "string \<Rightarrow> string \<Rightarrow> sys \<Rightarrow> sys" where
  "startVault vaultId vaultName s =
     logInfo (Some vaultId) (''Starting migration for vault '' @ vaultName) s"

text \<open>
  The procedure. The sessions \<^verbatim>\<open>sourceSDK\<close> and \<^verbatim>\<open>destSDK\<close> and the predicate
  \<^verbatim>\<open>isCancelled\<close> are the world's.
\<close>

definition migrateVault ::
  "world \<Rightarrow> string \<Rightarrow> string \<Rightarrow> string \<Rightarrow> string \<Rightarrow> string option \<Rightarrow> sys
     \<Rightarrow> (string + vaultResult) \<times> logEntry \<times> sys" where
  "migrateVault w vaultId vaultName sourceToken destToken customTemplateId s =
     vaultCatch vaultId
       (case beginVault w vaultId vaultName sourceToken destToken newLogEntry
               (startVault vaultId vaultName s) of
          (Inl e, le, s1) \<Rightarrow> (Inl e, le, s1)
        | (Inr (srcCount, newVaultId, items), le, s1) \<Rightarrow>
            (let cx = vaultContext vaultId vaultName sourceToken destToken customTemplateId
                        newVaultId items
             in case itemLoop w cx items (initialLoopVars le) s1 of
                  (True, lv, s2) \<Rightarrow> (Inr (cancelledResult cx srcCount lv), lv_logEntry lv, s2)
                | (False, lv, s2) \<Rightarrow> finishVault w cx srcCount lv s2))"

subsection \<open>migrateVaultWithProgress (lines 1710 to 2126)\<close>

text \<open>
  A call of \<^verbatim>\<open>onProgress\<close>, by its arguments. The callback of the one call site
  (lines 1604 to 1621) writes an event to the response and returns; the model collects
  the calls in order.
\<close>

record progressCall =
  pc_itemsProcessed :: nat
  pc_totalItems :: nat
  pc_successCount :: nat
  pc_failureCount :: nat

text \<open>
  \<^verbatim>\<open>if (processedItems % 3 === 0 || processedItems === items.length) onProgress(...)\<close>
\<close>

definition reportProgress :: "vaultCtx \<Rightarrow> loopVars \<Rightarrow> progressCall list \<Rightarrow> progressCall list" where
  "reportProgress cx lv calls =
     (if lv_processedItems lv mod 3 = 0 \<or> lv_processedItems lv = cx_itemsLength cx
      then calls @ [\<lparr> pc_itemsProcessed = lv_processedItems lv,
                      pc_totalItems = cx_itemsLength cx,
                      pc_successCount = lv_successCount lv,
                      pc_failureCount = lv_failureCount lv \<rparr>]
      else calls)"

text \<open>
  The body of the loop: as in \<^verbatim>\<open>migrateVault\<close>, with the progress report after the
  bookkeeping of a success (lines 1808 to 1811 and 2054 to 2057) and of a failure
  (lines 2078 to 2081).
\<close>

definition itemBodyWithProgress ::
  "world \<Rightarrow> vaultCtx \<Rightarrow> item \<Rightarrow> loopVars \<Rightarrow> progressCall list \<Rightarrow> sys
     \<Rightarrow> loopVars \<times> progressCall list \<times> sys" where
  "itemBodyWithProgress w cx itm lv calls s =
     (case attemptItem w cx itm s of
        (Inr _, s1) \<Rightarrow>
          (let processedItems = lv_processedItems lv + 1;
               successCount = lv_successCount lv + 1;
               lv1 = lv\<lparr> lv_processedItems := processedItems,
                        lv_successCount := successCount,
                        lv_migrationResults := lv_migrationResults lv @
                          [\<lparr> r_id = it_id itm, r_title = it_title itm, r_success = True,
                             r_error = None,
                             r_progress = progressOf processedItems (cx_itemsLength cx) \<rparr>],
                        lv_logEntry := (lv_logEntry lv)\<lparr> le_itemResults :=
                          le_itemResults (lv_logEntry lv) @
                            [(it_id itm, it_title itm, True, None)] \<rparr> \<rparr>
           in (lv1, reportProgress cx lv1 calls,
               logInfo (Some (cx_vaultId cx)) (successMessage w itm) s1))
      | (Inl e, s1) \<Rightarrow>
          (let processedItems = lv_processedItems lv + 1;
               failureCount = lv_failureCount lv + 1;
               lv1 = lv\<lparr> lv_processedItems := processedItems,
                        lv_failureCount := failureCount,
                        lv_migrationResults := lv_migrationResults lv @
                          [\<lparr> r_id = it_id itm, r_title = it_title itm, r_success = False,
                             r_error = Some e,
                             r_progress = progressOf processedItems (cx_itemsLength cx) \<rparr>],
                        lv_logEntry := (lv_logEntry lv)\<lparr>
                          le_errors := le_errors (lv_logEntry lv) @
                            [''Item '' @ it_id itm @ '' ('' @ it_title itm @ ''): '' @ e],
                          le_itemResults := le_itemResults (lv_logEntry lv) @
                            [(it_id itm, it_title itm, False, Some e)] \<rparr> \<rparr>
           in (lv1, reportProgress cx lv1 calls,
               logFailedItem (cx_vaultId cx) (cx_vaultName cx) (it_id itm) (it_title itm) e s1)))"

fun itemLoopWithProgress ::
  "world \<Rightarrow> vaultCtx \<Rightarrow> item list \<Rightarrow> loopVars \<Rightarrow> progressCall list \<Rightarrow> sys
     \<Rightarrow> bool \<times> loopVars \<times> progressCall list \<times> sys" where
  "itemLoopWithProgress w cx [] lv calls s = (False, lv, calls, s)"
| "itemLoopWithProgress w cx (itm # rest) lv calls s =
     (if w_isCancelled w (checks s) then
        (True, lv\<lparr> lv_logEntry := (lv_logEntry lv)\<lparr> le_status := Cancelled \<rparr> \<rparr>, calls,
         cancelVault cx (s\<lparr> checks := Suc (checks s) \<rparr>))
      else
        (case itemBodyWithProgress w cx itm lv calls (s\<lparr> checks := Suc (checks s) \<rparr>) of
           (lv1, calls1, s1) \<Rightarrow> itemLoopWithProgress w cx rest lv1 calls1 s1))"

text \<open>The procedure: its result, its \<^verbatim>\<open>logEntry\<close>, the calls of \<^verbatim>\<open>onProgress\<close>, the state.\<close>

definition migrateVaultWithProgress ::
  "world \<Rightarrow> string \<Rightarrow> string \<Rightarrow> string \<Rightarrow> string \<Rightarrow> string option \<Rightarrow> sys
     \<Rightarrow> ((string + vaultResult) \<times> logEntry \<times> sys) \<times> progressCall list" where
  "migrateVaultWithProgress w vaultId vaultName sourceToken destToken customTemplateId s =
     (case beginVault w vaultId vaultName sourceToken destToken newLogEntry
             (startVault vaultId vaultName s) of
        (Inl e, le, s1) \<Rightarrow> (vaultCatch vaultId (Inl e, le, s1), [])
      | (Inr (srcCount, newVaultId, items), le, s1) \<Rightarrow>
          (let cx = vaultContext vaultId vaultName sourceToken destToken customTemplateId
                      newVaultId items
           in case itemLoopWithProgress w cx items (initialLoopVars le) [] s1 of
                (True, lv, calls, s2) \<Rightarrow>
                  (vaultCatch vaultId (Inr (cancelledResult cx srcCount lv), lv_logEntry lv, s2),
                   calls)
              | (False, lv, calls, s2) \<Rightarrow>
                  (vaultCatch vaultId (finishVault w cx srcCount lv s2), calls)))"

subsection \<open>The endpoint of one vault (lines 1474 to 1520)\<close>

record migrateRequest =
  rq_vaultId :: "string option"
  rq_vaultName :: "string option"
  rq_sourceToken :: "string option"
  rq_destToken :: "string option"
  rq_customTemplateId :: "string option"

record stats =
  st_successCount :: nat
  st_failureCount :: nat
  st_sourceItemCount :: nat
  st_destItemCount :: "nat option"

record response =
  rs_code :: nat
  rs_success :: bool
  rs_message :: string
  rs_results :: "itemResult list option"
  rs_stats :: "stats option"

definition statsOf :: "vaultResult \<Rightarrow> stats" where
  "statsOf r = \<lparr> st_successCount = successCount r, st_failureCount = failureCount r,
     st_sourceItemCount = sourceItemCount r, st_destItemCount = destItemCount r \<rparr>"

text \<open>\<^verbatim>\<open>!x\<close> for a parameter of the request.\<close>

definition missing :: "string option \<Rightarrow> bool" where
  "missing x = (x = None \<or> x = Some [])"

text \<open>Lines 1495 to 1515: the reply to a result of \<^verbatim>\<open>migrateVault\<close>.\<close>

definition replyTo :: "string \<Rightarrow> string \<Rightarrow> vaultResult \<Rightarrow> sys \<Rightarrow> response \<times> sys" where
  "replyTo vaultId vaultName r s =
     (if failureCount r > 0 \<or> Some (sourceItemCount r) \<noteq> destItemCount r then
        (\<lparr> rs_code = 200, rs_success = False,
           rs_message = ''Vault '' @ dquote @ vaultName @ dquote
              @ '' migration completed with '' @ showNat (failureCount r)
              @ '' failures out of '' @ showNat (itemsLength r) @ '' items'',
           rs_results = Some (migrationResults r), rs_stats = Some (statsOf r) \<rparr>,
         logInfo (Some vaultId)
           (''Migration completed with issues - '' @ showNat (successCount r)
              @ '' succeeded, '' @ showNat (failureCount r) @ '' failed'') s)
      else
        (\<lparr> rs_code = 200, rs_success = True,
           rs_message = ''Successfully migrated vault '' @ dquote @ vaultName @ dquote
              @ '' with '' @ showNat (itemsLength r) @ '' items'',
           rs_results = Some (migrationResults r), rs_stats = Some (statsOf r) \<rparr>,
         logInfo (Some vaultId)
           (''Migration successful - '' @ showNat (successCount r) @ '' items migrated'') s))"

definition endpointFailed :: "string \<Rightarrow> string \<Rightarrow> sys \<Rightarrow> response \<times> sys" where
  "endpointFailed vaultId e s =
     (\<lparr> rs_code = 500, rs_success = False,
        rs_message = ''Failed to migrate vault: '' @ e,
        rs_results = None, rs_stats = None \<rparr>,
      logError (Some vaultId) (''Migration endpoint failed: '' @ e) s)"

definition migrateVaultEndpoint :: "world \<Rightarrow> migrateRequest \<Rightarrow> sys \<Rightarrow> response \<times> sys" where
  "migrateVaultEndpoint w rq s =
     (if missing (rq_vaultId rq) \<or> missing (rq_vaultName rq) \<or> missing (rq_sourceToken rq)
         \<or> missing (rq_destToken rq) then
        (\<lparr> rs_code = 400, rs_success = False,
           rs_message = ''Vault ID, vault name, source token, and destination token are required'',
           rs_results = None, rs_stats = None \<rparr>,
         logError None ''Missing required parameters for vault migration'' s)
      else
        (let vaultId = optOrElse (rq_vaultId rq) [];
             vaultName = optOrElse (rq_vaultName rq) [];
             sourceToken = optOrElse (rq_sourceToken rq) [];
             destToken = optOrElse (rq_destToken rq) []
         in case initializeClient w sourceToken s of
              (Inl e, s1) \<Rightarrow> endpointFailed vaultId e s1
            | (Inr _, s1) \<Rightarrow>
                (case initializeClient w destToken s1 of
                   (Inl e, s2) \<Rightarrow> endpointFailed vaultId e s2
                 | (Inr _, s2) \<Rightarrow>
                     (case migrateVault w vaultId vaultName sourceToken destToken
                             (rq_customTemplateId rq) s2 of
                        (Inl e, le, s3) \<Rightarrow> endpointFailed vaultId e s3
                      | (Inr r, le, s3) \<Rightarrow> replyTo vaultId vaultName r s3))))"

subsection \<open>The endpoint of many vaults (lines 1523 to 1707)\<close>

text \<open>
  The \<^verbatim>\<open>vaults\<close> parameter of the query: absent, not parseable (with the parser's
  message), or the list of identifier and name it holds.
\<close>

datatype vaultsParam = NoVaults | BadVaults string | SelectedVaults "(string \<times> string) list"

record bulkRequest =
  bq_sourceToken :: "string option"
  bq_destToken :: "string option"
  bq_vaults :: vaultsParam
  bq_customTemplateId :: "string option"

record vaultOutcome =
  vo_vaultId :: string
  vo_vaultName :: string
  vo_success :: bool
  vo_message :: string
  vo_results :: "itemResult list option"
  vo_stats :: "stats option"
  vo_error :: "string option"
  vo_phase :: string

record summary =
  sm_totalEntries :: nat
  sm_errors :: nat
  sm_warnings :: nat
  sm_vaults :: nat
  sm_failedItems :: nat

text \<open>The events written to the response, in order.\<close>

datatype sse =
    TokensRequired
  | CancelledByUser "vaultOutcome list"
  | Preparing rat string string
  | Migrating rat string string progressCall
  | Outcome rat vaultOutcome
  | Finished bool string "vaultOutcome list" summary
  | BulkFailed string

text \<open>\<^verbatim>\<open>LogManager.getSummary\<close> (lines 657 to 665), from the global log.\<close>

definition getSummary :: "sys \<Rightarrow> summary" where
  "getSummary s =
     \<lparr> sm_totalEntries = length (globalLog s),
       sm_errors = length (filter (\<lambda>(lvl, v, m). lvl = ERROR) (globalLog s)),
       sm_warnings = length (filter (\<lambda>(lvl, v, m). lvl = WARNING) (globalLog s)),
       sm_vaults = length (remdups (concat (map (\<lambda>(lvl, v, m).
                      case v of None \<Rightarrow> [] | Some i \<Rightarrow> if i = [] then [] else [i])
                    (globalLog s)))),
       sm_failedItems = length (failedItems s) \<rparr>"

text \<open>\<^verbatim>\<open>OnePasswordSDK.listVaults\<close> (lines 2222 to 2233), on an initialized client.\<close>

definition listVaults :: "world \<Rightarrow> sys \<Rightarrow> (string + (string \<times> string) list) \<times> sys" where
  "listVaults w s =
     (case w_listVaults w (clock s) of
        Inr vaults \<Rightarrow>
          (Inr vaults, logInfo None (''Listed '' @ showNat (length vaults) @ '' vaults'') (tick s))
      | Inl e \<Rightarrow>
          (Inl (''Failed to list vaults: '' @ e),
           logError None (''Failed to list vaults: '' @ e) (tick s)))"

record bulkCtx =
  bx_sourceToken :: string
  bx_destToken :: string
  bx_customTemplateId :: "string option"
  bx_totalVaults :: nat

text \<open>The callback of lines 1604 to 1621, applied to a call.\<close>

definition progressEvent :: "bulkCtx \<Rightarrow> nat \<Rightarrow> string \<Rightarrow> string \<Rightarrow> progressCall \<Rightarrow> sse" where
  "progressEvent bx completedVaults vaultId vaultName c =
     Migrating
       (((of_nat completedVaults + of_nat (pc_itemsProcessed c) / of_nat (pc_totalItems c))
           / of_nat (bx_totalVaults bx)) * 100)
       vaultId vaultName c"

text \<open>Lines 1630 to 1666: the outcome of a vault, from what the procedure returned or threw.\<close>

definition outcomeOf ::
  "string \<Rightarrow> string \<Rightarrow> (string + vaultResult) \<Rightarrow> vaultOutcome" where
  "outcomeOf vaultId vaultName res =
     (case res of
        Inr r \<Rightarrow>
          (let ok = (failureCount r = 0 \<and> Some (sourceItemCount r) = destItemCount r) in
           \<lparr> vo_vaultId = vaultId, vo_vaultName = vaultName, vo_success = ok,
             vo_message =
               (if ok then ''Successfully migrated vault '' @ dquote @ vaultName @ dquote
                             @ '' with '' @ showNat (itemsLength r) @ '' items''
                else ''Vault '' @ dquote @ vaultName @ dquote @ '' completed with ''
                       @ showNat (failureCount r) @ '' failures out of ''
                       @ showNat (itemsLength r) @ '' items''),
             vo_results = Some (migrationResults r), vo_stats = Some (statsOf r),
             vo_error = None, vo_phase = ''completed'' \<rparr>)
      | Inl e \<Rightarrow>
          \<lparr> vo_vaultId = vaultId, vo_vaultName = vaultName, vo_success = False,
            vo_message = ''Failed to migrate vault '' @ dquote @ vaultName @ dquote @ '': '' @ e,
            vo_results = None, vo_stats = None, vo_error = Some e, vo_phase = ''failed'' \<rparr>)"

text \<open>Line 1578: the log line of a cancellation between two vaults.\<close>

definition cancelBulk :: "sys \<Rightarrow> sys" where
  "cancelBulk s = logInfo None ''Bulk migration cancelled by user'' s"

text \<open>
  The loop over the vaults (lines 1576 to 1667), with the vaults completed so far,
  their outcomes and the events written. The flag is read before each vault; the
  result is \<open>True\<close> when the loop returned on a cancellation.
\<close>

fun vaultLoop ::
  "world \<Rightarrow> bulkCtx \<Rightarrow> (string \<times> string) list \<Rightarrow> nat \<Rightarrow> vaultOutcome list \<Rightarrow> sse list \<Rightarrow> sys
     \<Rightarrow> bool \<times> vaultOutcome list \<times> sse list \<times> sys" where
  "vaultLoop w bx [] completedVaults results events s = (False, results, events, s)"
| "vaultLoop w bx ((vaultId, vaultName) # rest) completedVaults results events s =
     (if w_isCancelled w (checks s) then
        (True, results, events @ [CancelledByUser results],
         cancelBulk (s\<lparr> checks := Suc (checks s) \<rparr>))
      else
        (let newVaultName = vaultName @ '' (Migrated)'';
             events1 = events @
               [Preparing ((of_nat completedVaults / of_nat (bx_totalVaults bx)) * 100)
                  vaultId vaultName]
         in case migrateVaultWithProgress w vaultId newVaultName (bx_sourceToken bx)
                   (bx_destToken bx) (bx_customTemplateId bx)
                   (s\<lparr> checks := Suc (checks s) \<rparr>) of
              ((res, le, s1), calls) \<Rightarrow>
                (let events2 = events1 @
                       map (progressEvent bx completedVaults vaultId vaultName) calls;
                     s2 = (case res of
                             Inr _ \<Rightarrow> s1
                           | Inl e \<Rightarrow> logError (Some vaultId) (''Vault migration failed: '' @ e) s1);
                     outcome = outcomeOf vaultId vaultName res;
                     progress = (of_nat (Suc completedVaults) / of_nat (bx_totalVaults bx)) * 100
                 in vaultLoop w bx rest (Suc completedVaults) (results @ [outcome])
                      (events2 @ [Outcome progress outcome]) s2)))"

text \<open>Lines 1669 to 1695: the closing event.\<close>

definition closingEvent :: "nat \<Rightarrow> vaultOutcome list \<Rightarrow> sys \<Rightarrow> sse \<times> sys" where
  "closingEvent totalVaults results s =
     (let failedVaults = filter (\<lambda>r. \<not> vo_success r) results;
          sm = getSummary s
      in if length failedVaults > 0 then
           (let m = '' completed with '' @ showNat (length failedVaults)
                      @ '' vault failures out of '' @ showNat totalVaults @ '' vaults''
            in (Finished False (''Migration'' @ m) results sm,
                logInfo None (''Bulk migration'' @ m) s))
         else
           (let m = ''Successfully migrated all '' @ showNat totalVaults @ '' vaults''
            in (Finished True m results sm, logInfo None m s)))"

text \<open>
  The endpoint. The assignment that clears the flag at line 1555 is a write to the
  world's flag: what the later reads return is the world's.
\<close>

definition migrateAllVaults :: "world \<Rightarrow> bulkRequest \<Rightarrow> sys \<Rightarrow> sse list \<times> sys" where
  "migrateAllVaults w rq s =
     (let s0 = (case bq_vaults rq of
                  BadVaults e \<Rightarrow> logError None (''Failed to parse vaults query: '' @ e) s
                | _ \<Rightarrow> s);
          selectedVaults = (case bq_vaults rq of SelectedVaults vs \<Rightarrow> vs | _ \<Rightarrow> [])
      in if missing (bq_sourceToken rq) \<or> missing (bq_destToken rq) then
           ([TokensRequired], logError None ''Missing required tokens for bulk migration'' s0)
         else
           (let sourceToken = optOrElse (bq_sourceToken rq) [];
                destToken = optOrElse (bq_destToken rq) [];
                s1 = logInfo None ''Starting bulk vault migration'' s0;
                failed = (\<lambda>e s'. ([BulkFailed (''Failed to migrate vaults: '' @ e)],
                                   logError None (''Bulk migration failed: '' @ e) s'))
            in case initializeClient w sourceToken s1 of
                 (Inl e, s2) \<Rightarrow> failed e s2
               | (Inr _, s2) \<Rightarrow>
                   (case initializeClient w destToken s2 of
                      (Inl e, s3) \<Rightarrow> failed e s3
                    | (Inr _, s3) \<Rightarrow>
                        (case (if selectedVaults \<noteq> [] then (Inr selectedVaults, s3)
                               else listVaults w s3) of
                           (Inl e, s4) \<Rightarrow> failed e s4
                         | (Inr vaultsToMigrate, s4) \<Rightarrow>
                             (let bx = \<lparr> bx_sourceToken = sourceToken, bx_destToken = destToken,
                                         bx_customTemplateId = bq_customTemplateId rq,
                                         bx_totalVaults = length vaultsToMigrate \<rparr>
                              in case vaultLoop w bx vaultsToMigrate 0 [] [] s4 of
                                   (True, results, events, s5) \<Rightarrow> (events, s5)
                                 | (False, results, events, s5) \<Rightarrow>
                                     (case closingEvent (length vaultsToMigrate) results s5 of
                                        (ev, s6) \<Rightarrow> (events @ [ev], s6)))))))"

subsection \<open>Predicates of the statements\<close>

text \<open>The counters of the loop agree with the results recorded so far.\<close>

definition countsAgree :: "loopVars \<Rightarrow> bool" where
  "countsAgree lv =
     (lv_successCount lv + lv_failureCount lv = lv_processedItems lv
      \<and> lv_processedItems lv = length (lv_migrationResults lv)
      \<and> lv_successCount lv = length (filter r_success (lv_migrationResults lv))
      \<and> lv_failureCount lv = length (filter (\<lambda>r. \<not> r_success r) (lv_migrationResults lv)))"

text \<open>What a progress checkpoint reports adds up.\<close>

definition callAddsUp :: "progressCall \<Rightarrow> bool" where
  "callAddsUp c = (pc_successCount c + pc_failureCount c = pc_itemsProcessed c)"

text \<open>The entry recorded for an item, from the outcome of its attempt.\<close>

definition entryOf :: "vaultCtx \<Rightarrow> item \<Rightarrow> nat \<Rightarrow> string + unit \<Rightarrow> itemResult" where
  "entryOf cx itm processedItems res =
     \<lparr> r_id = it_id itm, r_title = it_title itm,
       r_success = (case res of Inl e \<Rightarrow> False | Inr u \<Rightarrow> True),
       r_error = (case res of Inl e \<Rightarrow> Some e | Inr u \<Rightarrow> None),
       r_progress = progressOf processedItems (cx_itemsLength cx) \<rparr>"

subsection \<open>Example inputs\<close>

definition cardTypeField :: "string \<Rightarrow> field" where
  "cardTypeField v = \<lparr> f_id = ''type'', f_title = ''Card Type'', f_label = None,
     f_fieldType = Text, f_value = v, f_sectionId = None, f_details = None \<rparr>"

definition chipAndPinField :: field where
  "chipAndPinField = \<lparr> f_id = ''type'', f_title = ''Type (chip and PIN)'', f_label = None,
     f_fieldType = Text, f_value = ''jcb'', f_sectionId = None, f_details = None \<rparr>"

definition otpField :: "string \<Rightarrow> field" where
  "otpField v = \<lparr> f_id = ''otp'', f_title = ''one-time password'', f_label = None,
     f_fieldType = Totp, f_value = v, f_sectionId = None, f_details = None \<rparr>"

definition hotpUri :: string where
  "hotpUri = ''otpauth://hotp/ACME:bob?secret=JBSWY3DPEHPK3PXP&counter=0''"

definition sys0 :: sys where
  "sys0 = \<lparr> clock = 0, checks = 0, timeReads = 0, slept = [], globalLog = [],
     failedItems = [], vaultSummaries = [] \<rparr>"

text \<open>An operation that is rate limited twice and then succeeds.\<close>

definition limitedTwice :: "nat \<Rightarrow> string + unit" where
  "limitedTwice t = (if t < 2 then Inl ''429: rate limit exceeded'' else Inr ())"

text \<open>An operation that is always refused.\<close>

definition alwaysRefused :: "nat \<Rightarrow> string + unit" where
  "alwaysRefused t = Inl ''validation: bad field shape''"

text \<open>
  A world where every call succeeds, no vault has an item, the destination has no
  template and nobody cancels.
\<close>

definition quietWorld :: world where
  "quietWorld = \<lparr>
     w_sdkCustom = None,
     w_isCancelled = (\<lambda>n. False),
     w_now = (\<lambda>n. 5000 + n),
     w_createClient = (\<lambda>t token. None),
     w_itemsList = (\<lambda>t token vaultId. Inr []),
     w_itemsListArchived = (\<lambda>t token vaultId. Inr []),
     w_vaultCreate = (\<lambda>t token vaultName. Inr ''new-vault''),
     w_listVaults = (\<lambda>t. Inr []),
     w_listVaultItems = (\<lambda>t vaultId. Inr []),
     w_itemsGet = (\<lambda>t vaultId itemId. Inl ''item not found''),
     w_filesRead = (\<lambda>t vaultId itemId. Inl ''file not found''),
     w_itemsCreate = (\<lambda>t newItm. None),
     w_cliItemGet = (\<lambda>t token itemId vaultId. Inl ''item not found''),
     w_cliTemplateList = (\<lambda>t token. Inr []),
     w_writeFile = (\<lambda>t path content. None),
     w_cliItemCreate = (\<lambda>t token vaultId path. None),
     w_unlink = (\<lambda>t path. None) \<rparr>"

text \<open>Three active items, and the listing of archived items fails.\<close>

definition archiveDownWorld :: world where
  "archiveDownWorld = quietWorld\<lparr>
     w_itemsList := (\<lambda>t token vaultId. Inr [''a'', ''b'', ''c'']),
     w_itemsListArchived := (\<lambda>t token vaultId. Inl ''timeout'') \<rparr>"

text \<open>A login item with nothing but its name.\<close>

definition plainItem :: "string \<Rightarrow> item" where
  "plainItem n = \<lparr> it_id = n, it_title = n, it_category = Some ''Login'', it_fields = [],
     it_sections = [], it_tags = [], it_websites = [], it_notes = [], it_files = [] \<rparr>"

definition tenItems :: "item list" where
  "tenItems = map plainItem [''i1'', ''i2'', ''i3'', ''i4'', ''i5'', ''i6'', ''i7'', ''i8'',
     ''i9'', ''i10'']"

text \<open>A vault of ten items; the flag is set while the fourth item is migrated.\<close>

definition cancelWorld :: world where
  "cancelWorld = quietWorld\<lparr>
     w_listVaultItems := (\<lambda>t vaultId. Inr tenItems),
     w_isCancelled := (\<lambda>n. 4 \<le> n) \<rparr>"

text \<open>
  A vault of five items, counted as five in the source and in the destination. The flag
  is down at the first nine reads, which is more than the run makes.
\<close>

definition fiveWorld :: world where
  "fiveWorld = quietWorld\<lparr>
     w_isCancelled := (\<lambda>n. 9 \<le> n),
     w_itemsList := (\<lambda>t token vaultId. Inr [''i1'', ''i2'', ''i3'', ''i4'', ''i5'']),
     w_listVaultItems := (\<lambda>t vaultId. Inr (take 5 tenItems)) \<rparr>"

text \<open>
  A vault of three items; the destination refuses the second. The flag is down at the
  first nine reads.
\<close>

definition refusingWorld :: world where
  "refusingWorld = quietWorld\<lparr>
     w_isCancelled := (\<lambda>n. 9 \<le> n),
     w_listVaultItems := (\<lambda>t vaultId. Inr (take 3 tenItems)),
     w_itemsCreate := (\<lambda>t newItm. if ni_title newItm = ''i2''
                                   then Some ''validation: bad field shape'' else None) \<rparr>"

text \<open>A custom item, and a source that returns it to the command-line tool.\<close>

definition customItem :: item where
  "customItem = (plainItem ''X'')\<lparr> it_category := Some ''CUSTOM'' \<rparr>"

definition rawX :: rawItem where
  "rawX = \<lparr> ri_id = Some ''X'', ri_title = ''X'', ri_created_at = None, ri_updated_at = None,
     ri_last_edited_by = None, ri_version = Some 1, ri_category = ''CUSTOM'',
     ri_category_id = None, ri_vaultId = Some ''v1'', ri_fields = Some [] \<rparr>"

definition readableWorld :: world where
  "readableWorld = quietWorld\<lparr> w_cliItemGet := (\<lambda>t token itemId vaultId. Inr rawX) \<rparr>"

definition exampleCtx :: vaultCtx where
  "exampleCtx = vaultContext ''v1'' ''Vault'' ''src'' ''dst'' None ''new-vault'' [customItem]"

definition withVaults :: "world \<Rightarrow> world" where
  "withVaults w = w\<lparr> w_listVaults := (\<lambda>t. Inr [(''v1'', ''One''), (''v2'', ''Two'')]) \<rparr>"

definition exampleBulk :: bulkCtx where
  "exampleBulk = \<lparr> bx_sourceToken = ''src'', bx_destToken = ''dst'',
     bx_customTemplateId = None, bx_totalVaults = 2 \<rparr>"

definition twoVaults :: "(string \<times> string) list" where
  "twoVaults = [(''v1'', ''One''), (''v2'', ''Two'')]"

text \<open>The flag is set from the start.\<close>

definition cancelledWorld :: world where
  "cancelledWorld = quietWorld\<lparr> w_isCancelled := (\<lambda>n. True) \<rparr>"

text \<open>A request to migrate one vault.\<close>

definition exampleRequest :: migrateRequest where
  "exampleRequest = \<lparr> rq_vaultId = Some ''v1'', rq_vaultName = Some ''Vault'',
     rq_sourceToken = Some ''src'', rq_destToken = Some ''dst'', rq_customTemplateId = None \<rparr>"

section \<open>Properties\<close>

subsection \<open>Expiry normalization\<close>


lemma isDigit_not_dash: "isDigit c \<Longrightarrow> c \<noteq> CHR ''-''"
  by (auto simp: isDigit_def)

lemma len7: "length s = 7 \<Longrightarrow> \<exists>a b c d e f g. s = [a,b,c,d,e,f,g]"
  by (auto simp: length_Suc_conv eval_nat_numeral)
lemma len5: "length s = 5 \<Longrightarrow> \<exists>a b c d e. s = [a,b,c,d,e]"
  by (auto simp: length_Suc_conv eval_nat_numeral)
lemma len4: "length s = 4 \<Longrightarrow> \<exists>a b c d. s = [a,b,c,d]"
  by (auto simp: length_Suc_conv eval_nat_numeral)

lemma isDigit_2: "isDigit (CHR ''2'')" "isDigit (CHR ''0'')" by (simp_all add: isDigit_def)

lemma dash_form: "reMMdashYYYY s \<Longrightarrow> replaceFirst (CHR ''-'') (CHR ''/'') s = take 2 s @ ''/'' @ drop 3 s"
  unfolding reMMdashYYYY_def
  by (auto dest!: len7 simp: isDigit_not_dash)

lemma dash_re: "reMMdashYYYY s \<Longrightarrow> reMMslashYYYY (take 2 s @ ''/'' @ drop 3 s)"
  unfolding reMMdashYYYY_def reMMslashYYYY_def
  by (auto dest!: len7)

lemma mmyy_re: "reMMYY s \<Longrightarrow> reMMslashYYYY (take 2 s @ ''/20'' @ drop 2 s)"
  unfolding reMMYY_def reMMslashYYYY_def
  by (auto dest!: len4 simp: isDigit_2)

lemma mmsyy_re: "reMMslashYY s \<Longrightarrow> reMMslashYYYY (take 2 s @ ''/20'' @ drop 3 s)"
  unfolding reMMslashYY_def reMMslashYYYY_def
  by (auto dest!: len5 simp: isDigit_2)

lemma sentinel_re: "reMMslashYYYY ''01/1970''"
  by (simp add: reMMslashYYYY_def isDigit_def)

lemma re_nonempty: "reMMslashYYYY s \<Longrightarrow> s \<noteq> []"
  by (auto simp: reMMslashYYYY_def)

lemma normalizeExpiry_form: "reMMslashYYYY (normalizeExpiry s)"
proof -
  have "reMMdashYYYY s \<Longrightarrow> reMMslashYYYY (replaceFirst (CHR ''-'') (CHR ''/'') s)"
    by (simp only: dash_form dash_re)
  then show ?thesis
    unfolding normalizeExpiry_def
    using mmyy_re [of s] mmsyy_re [of s] sentinel_re by (simp del: append.simps)
qed

lemma normalizeExpiry_fix: "reMMslashYYYY s \<Longrightarrow> normalizeExpiry s = s"
  by (auto simp: normalizeExpiry_def dest: re_nonempty)

lemma excl1: "reMMdashYYYY s \<Longrightarrow> \<not> reMMslashYYYY s"
  by (auto simp: reMMdashYYYY_def reMMslashYYYY_def)
lemma excl2: "reMMYY s \<Longrightarrow> \<not> reMMslashYYYY s \<and> \<not> reMMdashYYYY s"
  by (auto simp: reMMdashYYYY_def reMMslashYYYY_def reMMYY_def)
lemma excl3: "reMMslashYY s \<Longrightarrow> \<not> reMMslashYYYY s \<and> \<not> reMMdashYYYY s \<and> \<not> reMMYY s"
  by (auto simp: reMMdashYYYY_def reMMslashYYYY_def reMMYY_def reMMslashYY_def)

lemma ne1: "reMMdashYYYY s \<Longrightarrow> s \<noteq> []" by (auto simp: reMMdashYYYY_def)
lemma ne2: "reMMYY s \<Longrightarrow> s \<noteq> []" by (auto simp: reMMYY_def)
lemma ne3: "reMMslashYY s \<Longrightarrow> s \<noteq> []" by (auto simp: reMMslashYY_def)

lemma ccField_expiry_value:
  "isExpiryRole f \<Longrightarrow> nf_value (ccField f) = JStr (normalizeExpiry (f_value f))"
  by (simp add: ccField_def Let_def)


text \<open>
  C2. Expiry normalization. For every payment-card field with the expiry role (id
  \<open>expiry\<close>, or a title containing \<open>expiry\<close> or \<open>expiration\<close>) the destination value is
  the normalized expiry of the source value, and the field list keeps its length (no
  field is dropped). The normalized value always has the form MM/YYYY, so normalizing
  is idempotent; a value already MM/YYYY is unchanged; MM-YYYY becomes MM/YYYY; MMYY
  and MM/YY become MM/20YY; anything else, the empty string included, becomes
  \<open>01/1970\<close>.
\<close>

theorem C2_expiry_normalization: "(isExpiryRole f \<longrightarrow> nf_value (ccField f) = JStr (normalizeExpiry (f_value f)))
   \<and> length (map ccField fs) = length fs
   \<and> reMMslashYYYY (normalizeExpiry s)
   \<and> normalizeExpiry (normalizeExpiry s) = normalizeExpiry s
   \<and> (reMMslashYYYY s \<longrightarrow> normalizeExpiry s = s)
   \<and> (reMMdashYYYY s \<longrightarrow> normalizeExpiry s = take 2 s @ ''/'' @ drop 3 s)
   \<and> (reMMYY s \<longrightarrow> normalizeExpiry s = take 2 s @ ''/20'' @ drop 2 s)
   \<and> (reMMslashYY s \<longrightarrow> normalizeExpiry s = take 2 s @ ''/20'' @ drop 3 s)
   \<and> (\<not> reMMslashYYYY s \<and> \<not> reMMdashYYYY s \<and> \<not> reMMYY s \<and> \<not> reMMslashYY s
        \<longrightarrow> normalizeExpiry s = ''01/1970'')
   \<and> normalizeExpiry ''0225'' = ''02/2025'' \<and> normalizeExpiry [] = ''01/1970''"
proof -
  have a: "isExpiryRole f \<longrightarrow> nf_value (ccField f) = JStr (normalizeExpiry (f_value f))"
    by (simp add: ccField_expiry_value)
  have b: "normalizeExpiry (normalizeExpiry s) = normalizeExpiry s"
    by (rule normalizeExpiry_fix [OF normalizeExpiry_form])
  have c: "reMMdashYYYY s \<longrightarrow> normalizeExpiry s = take 2 s @ ''/'' @ drop 3 s"
    using excl1 [of s] ne1 [of s] by (auto simp: normalizeExpiry_def dash_form)
  have d: "reMMYY s \<longrightarrow> normalizeExpiry s = take 2 s @ ''/20'' @ drop 2 s"
    using excl2 [of s] ne2 [of s] by (auto simp: normalizeExpiry_def)
  have e: "reMMslashYY s \<longrightarrow> normalizeExpiry s = take 2 s @ ''/20'' @ drop 3 s"
    using excl3 [of s] ne3 [of s] by (auto simp: normalizeExpiry_def)
  have f: "\<not> reMMslashYYYY s \<and> \<not> reMMdashYYYY s \<and> \<not> reMMYY s \<and> \<not> reMMslashYY s
        \<longrightarrow> normalizeExpiry s = ''01/1970''"
    by (simp add: normalizeExpiry_def)
  have g: "normalizeExpiry ''0225'' = ''02/2025''"
    by (simp add: normalizeExpiry_def reMMslashYYYY_def reMMdashYYYY_def reMMYY_def isDigit_def)
  have h: "normalizeExpiry [] = ''01/1970''"
    by (simp add: normalizeExpiry_def)
  show ?thesis
    using a b c d e f g h normalizeExpiry_form [of s] normalizeExpiry_fix [of s] by simp
qed


theorem C2_expiry_normalization_witness:
  "nf_value (ccField \<lparr>f_id = ''expiry'', f_title = ''Expiry date'', f_label = None,
      f_fieldType = Text, f_value = ''0225'', f_sectionId = None, f_details = None\<rparr>)
     = JStr ''02/2025''
   \<and> normalizeExpiry ''12/2030'' = ''12/2030''
   \<and> normalizeExpiry ''12-2030'' = ''12/2030''
   \<and> normalizeExpiry ''1230'' = ''12/2030''
   \<and> normalizeExpiry ''12/30'' = ''12/2030''
   \<and> normalizeExpiry ''next May'' = ''01/1970''"
  using
    C2_expiry_normalization [of "\<lparr>f_id = ''expiry'', f_title = ''Expiry date'', f_label = None,
      f_fieldType = Text, f_value = ''0225'', f_sectionId = None, f_details = None\<rparr>" "[]" "''12/2030''"]
    C2_expiry_normalization [of _ "[]" "''12-2030''"]
    C2_expiry_normalization [of _ "[]" "''1230''"]
    C2_expiry_normalization [of _ "[]" "''12/30''"]
    C2_expiry_normalization [of _ "[]" "''next May''"]
  by (simp add: isExpiryRole_def reMMslashYYYY_def reMMdashYYYY_def reMMYY_def
      reMMslashYY_def isDigit_def)

subsection \<open>Card-network abbreviations\<close>

text \<open>
  C1, as the code has it. For a payment-card field with the type role (id \<open>type\<close>, or
  a title containing \<open>type\<close> in any case) and without the expiry role, whose lowered
  value is not the name of a property inherited from \<open>Object.prototype\<close>: the values
  \<open>mc\<close>, \<open>visa\<close>, \<open>amex\<close> and \<open>discover\<close> (in any case) become the network's name;
  any other non-empty value is kept as it is; the empty value becomes \<open>Unknown\<close>. The
  destination field type is the credit-card type when the field has none of the number,
  verification and pin roles, whose tests come later and overwrite it.
\<close>

theorem C1_card_type_amended:
  assumes "isTypeRole f" and "\<not> isExpiryRole f"
    and "toLowerCase (f_value f) \<notin> set objectPrototypeKeys"
  shows "(toLowerCase (f_value f) = ''mc'' \<longrightarrow> nf_value (ccField f) = JStr ''Mastercard'')
     \<and> (toLowerCase (f_value f) = ''visa'' \<longrightarrow> nf_value (ccField f) = JStr ''Visa'')
     \<and> (toLowerCase (f_value f) = ''amex'' \<longrightarrow> nf_value (ccField f) = JStr ''American Express'')
     \<and> (toLowerCase (f_value f) = ''discover'' \<longrightarrow> nf_value (ccField f) = JStr ''Discover'')
     \<and> (toLowerCase (f_value f) \<notin> {''mc'', ''visa'', ''amex'', ''discover''} \<and> f_value f \<noteq> []
          \<longrightarrow> nf_value (ccField f) = JStr (f_value f))
     \<and> (f_value f = [] \<longrightarrow> nf_value (ccField f) = JStr ''Unknown'')
     \<and> (\<not> isNumberRole f \<and> \<not> isCvvRole f \<and> \<not> isPinRole f
          \<longrightarrow> nf_fieldType (ccField f) = CreditCardType)"
proof -
  have v: "nf_value (ccField f) = (case cardTypeMap (toLowerCase (f_value f)) of
                                       Some v \<Rightarrow> v
                                     | None \<Rightarrow> JStr (orElse (f_value f) ''Unknown''))"
    using assms(1,2) by (simp add: ccField_def Let_def)
  have t: "\<not> isNumberRole f \<and> \<not> isCvvRole f \<and> \<not> isPinRole f
          \<longrightarrow> nf_fieldType (ccField f) = CreditCardType"
    using assms(1,2) by (simp add: ccField_def Let_def)
  have e: "f_value f = [] \<Longrightarrow> cardTypeMap (toLowerCase (f_value f)) = None"
    by (simp add: cardTypeMap_def toLowerCase_def objectPrototypeKeys_def)
  show ?thesis
    unfolding v using t e assms(3)
    by (auto simp: cardTypeMap_def orElse_def)
qed

theorem C1_card_type_amended_witness:
  "nf_value (ccField (cardTypeField ''MC'')) = JStr ''Mastercard''
   \<and> nf_fieldType (ccField (cardTypeField ''MC'')) = CreditCardType
   \<and> nf_value (ccField (cardTypeField ''Diners'')) = JStr ''Diners''
   \<and> nf_value (ccField (cardTypeField [])) = JStr ''Unknown''"
proof -
  have h1: "isTypeRole (cardTypeField ''MC'') \<and> \<not> isExpiryRole (cardTypeField ''MC'')
      \<and> toLowerCase (f_value (cardTypeField ''MC'')) \<notin> set objectPrototypeKeys
      \<and> toLowerCase (f_value (cardTypeField ''MC'')) = ''mc''
      \<and> \<not> isNumberRole (cardTypeField ''MC'') \<and> \<not> isCvvRole (cardTypeField ''MC'')
      \<and> \<not> isPinRole (cardTypeField ''MC'')"
    by code_simp
  have h2: "isTypeRole (cardTypeField ''Diners'') \<and> \<not> isExpiryRole (cardTypeField ''Diners'')
      \<and> toLowerCase (f_value (cardTypeField ''Diners'')) \<notin> set objectPrototypeKeys
      \<and> toLowerCase (f_value (cardTypeField ''Diners'')) \<notin> {''mc'', ''visa'', ''amex'', ''discover''}
      \<and> f_value (cardTypeField ''Diners'') = ''Diners''"
    by code_simp
  have h3: "isTypeRole (cardTypeField []) \<and> \<not> isExpiryRole (cardTypeField [])
      \<and> toLowerCase (f_value (cardTypeField [])) \<notin> set objectPrototypeKeys
      \<and> f_value (cardTypeField []) = []"
    by code_simp
  have c1: "nf_value (ccField (cardTypeField ''MC'')) = JStr ''Mastercard''
      \<and> nf_fieldType (ccField (cardTypeField ''MC'')) = CreditCardType"
    using C1_card_type_amended [of "cardTypeField ''MC''"] h1 by blast
  have c2: "nf_value (ccField (cardTypeField ''Diners'')) = JStr ''Diners''"
    using C1_card_type_amended [of "cardTypeField ''Diners''"] h2 by force
  have c3: "nf_value (ccField (cardTypeField [])) = JStr ''Unknown''"
    using C1_card_type_amended [of "cardTypeField []"] h3 by blast
  show ?thesis using c1 c2 c3 by blast
qed

text \<open>
  C1 as stated fails: the field below has the type role and the value \<open>jcb\<close>, which is
  none of the four abbreviations; its value stays \<open>jcb\<close> instead of becoming \<open>Unknown\<close>,
  and, its title containing \<open>pin\<close>, its type ends as concealed.
\<close>

theorem C1_card_type_counterexample:
  "isTypeRole chipAndPinField
   \<and> toLowerCase (f_value chipAndPinField) \<notin> {''mc'', ''visa'', ''amex'', ''discover''}
   \<and> nf_value (ccField chipAndPinField) = JStr ''jcb''
   \<and> nf_value (ccField chipAndPinField) \<noteq> JStr ''Unknown''
   \<and> nf_fieldType (ccField chipAndPinField) = Concealed
   \<and> nf_fieldType (ccField chipAndPinField) \<noteq> CreditCardType"
  by code_simp

subsection \<open>One-time-code fields\<close>

lemma listItemField_totp:
  assumes "f_fieldType r = Totp"
  shows "f_fieldType (listItemField r) = Totp"
    and "totpValue (listItemField r) = f_value (listItemField r)"
proof -
  show "f_fieldType (listItemField r) = Totp"
    using assms by (simp add: listItemField_def Let_def split: option.splits)
  have v: "f_value (listItemField r) = optOrElse (detailsTotp r) (f_value r)"
    using assms by (simp add: listItemField_def Let_def split: option.splits)
  have d: "detailsTotp (listItemField r) = detailsTotp r"
    using assms
    by (simp add: listItemField_def Let_def detailsTotp_def detailsContent_def split: option.splits)
  show "totpValue (listItemField r) = f_value (listItemField r)"
    unfolding totpValue_def v d
    by (auto simp: orElse_def optOrElse_def split: option.splits)
qed

lemma transcodeField_totp:
  assumes "f_fieldType f = Totp"
  shows "nf_value (transcodeField f) = JStr (totpValue f)"
    and "nf_fieldType (transcodeField f) =
           (if isValidTotpUri (totpValue f) \<or> isPotentialTotpSeed (totpValue f) then Totp else Text)"
  using assms
  by (simp_all add: transcodeField_def Let_def keptFieldType_def split: option.splits)

text \<open>
  C3, as the code has it. For every field of one-time-code type that \<^verbatim>\<open>listVaultItems\<close>
  hands to the generic field mapping: the destination value is the field's value,
  unchanged; the type stays one-time-code when the value starts with
  \<open>otpauth://totp/\<close> or is 16 to 32 characters of A to Z (either case) and 2 to 7, and
  is plain text otherwise.
\<close>

theorem C3_totp_amended:
  assumes "f_fieldType r = Totp" and "f = listItemField r"
  shows "f_fieldType f = Totp
     \<and> nf_value (transcodeField f) = JStr (f_value f)
     \<and> (startsWith (f_value f) ''otpauth://totp/'' \<or> isPotentialTotpSeed (f_value f)
          \<longrightarrow> nf_fieldType (transcodeField f) = Totp)
     \<and> (\<not> startsWith (f_value f) ''otpauth://totp/'' \<and> \<not> isPotentialTotpSeed (f_value f)
          \<longrightarrow> nf_fieldType (transcodeField f) = Text)"
  using listItemField_totp [OF assms(1)] transcodeField_totp [of f] assms(2)
  by (simp add: isValidTotpUri_def)


theorem C3_totp_amended_witness:
  "nf_fieldType (transcodeField (listItemField (otpField ''JBSWY3DPEHPK3PXP''))) = Totp
   \<and> nf_value (transcodeField (listItemField (otpField ''JBSWY3DPEHPK3PXP'')))
       = JStr ''JBSWY3DPEHPK3PXP''
   \<and> nf_fieldType (transcodeField (listItemField (otpField ''hello''))) = Text
   \<and> nf_value (transcodeField (listItemField (otpField ''hello''))) = JStr ''hello''"
proof -
  have h1: "f_fieldType (otpField ''JBSWY3DPEHPK3PXP'') = Totp
      \<and> f_value (listItemField (otpField ''JBSWY3DPEHPK3PXP'')) = ''JBSWY3DPEHPK3PXP''
      \<and> isPotentialTotpSeed (f_value (listItemField (otpField ''JBSWY3DPEHPK3PXP'')))"
    by code_simp
  have h2: "f_fieldType (otpField ''hello'') = Totp
      \<and> f_value (listItemField (otpField ''hello'')) = ''hello''
      \<and> \<not> startsWith (f_value (listItemField (otpField ''hello''))) ''otpauth://totp/''
      \<and> \<not> isPotentialTotpSeed (f_value (listItemField (otpField ''hello'')))"
    by code_simp
  have c1: "nf_fieldType (transcodeField (listItemField (otpField ''JBSWY3DPEHPK3PXP''))) = Totp
      \<and> nf_value (transcodeField (listItemField (otpField ''JBSWY3DPEHPK3PXP'')))
          = JStr ''JBSWY3DPEHPK3PXP''"
    using C3_totp_amended [of "otpField ''JBSWY3DPEHPK3PXP''", OF _ refl] h1 by metis
  have c2: "nf_fieldType (transcodeField (listItemField (otpField ''hello''))) = Text
      \<and> nf_value (transcodeField (listItemField (otpField ''hello''))) = JStr ''hello''"
    using C3_totp_amended [of "otpField ''hello''", OF _ refl] h2 by metis
  show ?thesis using c1 c2 by blast
qed

text \<open>
  C3 as stated fails: the value below starts with the otpauth URI scheme, and the
  field is downgraded to plain text, because the code asks for \<open>otpauth://totp/\<close>.
\<close>

theorem C3_totp_counterexample:
  "f_fieldType (otpField hotpUri) = Totp
   \<and> startsWith (f_value (listItemField (otpField hotpUri))) ''otpauth://''
   \<and> nf_fieldType (transcodeField (listItemField (otpField hotpUri))) = Text
   \<and> nf_fieldType (transcodeField (listItemField (otpField hotpUri))) \<noteq> Totp"
  by code_simp

subsection \<open>The retry executor\<close>

lemma retryLoop_scripted:
  assumes "retryLoop (scripted r) m d a s = (res, s')" and "1 \<le> a"
  shows "clock s \<le> clock s'
    \<and> clock s' - clock s \<le> Suc m - a
    \<and> slept s' = slept s @ map (\<lambda>k. d * 2 ^ (k - 1)) [a ..< a + (clock s' - clock s) - 1]
    \<and> (\<forall>k. k + 1 < clock s' - clock s \<longrightarrow> (\<exists>e. r (clock s + k) = Inl e \<and> isTransient e))
    \<and> (a \<le> m \<longrightarrow> clock s < clock s' \<and> res = map_sum id Some (r (clock s' - 1)))
    \<and> (a \<le> m \<and> a + (clock s' - clock s) \<le> m \<longrightarrow> (\<forall>e. r (clock s' - 1) = Inl e \<longrightarrow> \<not> isTransient e))
    \<and> (m < a \<longrightarrow> res = Inr None \<and> s' = s)
    \<and> checks s' = checks s \<and> timeReads s' = timeReads s \<and> failedItems s' = failedItems s
    \<and> vaultSummaries s' = vaultSummaries s"
  using assms
proof (induction "Suc m - a" arbitrary: a s)
  case 0
  then have "m < a" by simp
  with "0.prems" show ?case by (simp add: retryLoop.simps)
next
  case (Suc n)
  then have am: "a \<le> m" by simp
  show ?case
  proof (cases "r (clock s)")
    case (Inr v)
    with am Suc.prems show ?thesis
      by (auto simp: retryLoop.simps scripted_def tick_def)
  next
    case (Inl e)
    show ?thesis
    proof (cases "isTransient e \<and> a < m")
      case False
      with Inl am Suc.prems show ?thesis
        by (auto simp: retryLoop.simps scripted_def tick_def)
    next
      case True
      define s3 where "s3 = (logWarning None
                           (''Retrying attempt '' @ showNat a @ '' after '' @ showNat (d * 2 ^ (a - 1))
                              @ ''ms due to '' @ e) (tick s))\<lparr> slept := slept s @ [d * 2 ^ (a - 1)] \<rparr>"
      have rec: "retryLoop (scripted r) m d (a + 1) s3 = (res, s')"
        using Inl am True Suc.prems(1)
        by (simp add: retryLoop.simps [of _ m d a s] scripted_def Let_def s3_def logWarning_def logAt_def tick_def)
      have s3: "clock s3 = Suc (clock s)" "slept s3 = slept s @ [d * 2 ^ (a - 1)]"
        "checks s3 = checks s" "timeReads s3 = timeReads s" "failedItems s3 = failedItems s"
        "vaultSummaries s3 = vaultSummaries s"
        by (simp_all add: s3_def logWarning_def logAt_def tick_def)
      have n: "n = Suc m - (a + 1)" using Suc.hyps(2) by simp
      have a1: "a + 1 \<le> m" using True by simp
      have a1': "1 \<le> a + 1" by simp
      note IH = Suc.hyps(1) [OF n rec a1', simplified s3]
      from IH a1 have c: "Suc (clock s) < clock s'" by simp
      have upt: "[a ..< a + (clock s' - clock s) - 1] = a # [a + 1 ..< a + 1 + (clock s' - Suc (clock s)) - 1]"
        using c by (simp add: upt_conv_Cons)
      have tr: "\<forall>k. k + 1 < clock s' - clock s \<longrightarrow> (\<exists>e. r (clock s + k) = Inl e \<and> isTransient e)"
      proof (intro allI impI)
        fix k assume k: "k + 1 < clock s' - clock s"
        show "\<exists>e. r (clock s + k) = Inl e \<and> isTransient e"
        proof (cases k)
          case 0 with Inl True show ?thesis by simp
        next
          case (Suc j)
          with k have "j + 1 < clock s' - Suc (clock s)" by simp
          with IH have "\<exists>e. r (Suc (clock s) + j) = Inl e \<and> isTransient e" by blast
          with Suc show ?thesis by simp
        qed
      qed
      have last: "a + (clock s' - clock s) \<le> m \<longrightarrow> a + 1 + (clock s' - Suc (clock s)) \<le> m"
        using c by arith
      have bound: "clock s' - clock s \<le> Suc m - a"
        using IH a1 c by arith
      have sl: "slept s' = slept s @ map (\<lambda>k. d * 2 ^ (k - 1)) [a ..< a + (clock s' - clock s) - 1]"
        using IH unfolding upt by simp
      have rest: "(a \<le> m \<longrightarrow> clock s < clock s' \<and> res = map_sum id Some (r (clock s' - 1)))
          \<and> (a \<le> m \<and> a + (clock s' - clock s) \<le> m \<longrightarrow> (\<forall>e. r (clock s' - 1) = Inl e \<longrightarrow> \<not> isTransient e))
          \<and> (m < a \<longrightarrow> res = Inr None \<and> s' = s)
          \<and> checks s' = checks s \<and> timeReads s' = timeReads s \<and> failedItems s' = failedItems s
          \<and> vaultSummaries s' = vaultSummaries s"
        using IH a1 am c last by simp
      have le: "clock s \<le> clock s'" using c by simp
      show ?thesis
        using le bound sl tr rest by blast
    qed
  qed
qed


text \<open>
  C4. The retry executor, for an operation whose outcomes are \<open>r\<close>, by time. Each
  invocation of the operation advances the clock by one and nothing else does, so
  \<open>clock s' - clock s\<close> is the number of invocations. It is at most \<open>maxAttempts\<close>; the
  delays waited are \<open>baseDelay * 2 ^ (attempt - 1)\<close> for the attempts 1, 2, ... before
  the last one, in order; every attempt before the last failed with a transient error;
  the result is the outcome of the last invocation, its error unchanged; the executor
  stops before \<open>maxAttempts\<close> only on a success or on an error that is not transient;
  an error that is not transient at the first attempt is the result, after one
  invocation and no delay. The defaults are 3 attempts and 1000 milliseconds.
\<close>

theorem C4_retry:
  assumes "retryWithBackoff (scripted r) maxAttempts baseDelay s = (res, s')"
  shows "clock s' - clock s \<le> maxAttempts
     \<and> slept s' = slept s
           @ map (\<lambda>attempt. baseDelay * 2 ^ (attempt - 1)) [1 ..< clock s' - clock s]
     \<and> (\<forall>k. k + 1 < clock s' - clock s \<longrightarrow> (\<exists>e. r (clock s + k) = Inl e \<and> isTransient e))
     \<and> (1 \<le> maxAttempts \<longrightarrow>
           clock s < clock s' \<and> res = map_sum id Some (r (clock s' - 1)))
     \<and> (1 \<le> maxAttempts \<and> clock s' - clock s < maxAttempts \<longrightarrow>
           (\<forall>e. r (clock s' - 1) = Inl e \<longrightarrow> \<not> isTransient e))
     \<and> (\<forall>e. 1 \<le> maxAttempts \<and> r (clock s) = Inl e \<and> \<not> isTransient e \<longrightarrow>
           res = Inl e \<and> clock s' = Suc (clock s) \<and> slept s' = slept s)
     \<and> (maxAttempts = 0 \<longrightarrow> res = Inr None \<and> s' = s)
     \<and> retryDefault (scripted r) s = retryWithBackoff (scripted r) 3 1000 s"
proof -
  have one: "(1::nat) \<le> 1" by simp
  note L = retryLoop_scripted [OF assms [unfolded retryWithBackoff_def] one]
  let ?n = "clock s' - clock s"
  have b: "?n \<le> maxAttempts" using L by simp
  have sl: "slept s' = slept s @ map (\<lambda>attempt. baseDelay * 2 ^ (attempt - 1)) [1 ..< ?n]"
    using L by simp
  have tr: "\<forall>k. k + 1 < ?n \<longrightarrow> (\<exists>e. r (clock s + k) = Inl e \<and> isTransient e)"
    using L by blast
  have las: "1 \<le> maxAttempts \<longrightarrow> clock s < clock s' \<and> res = map_sum id Some (r (clock s' - 1))"
    using L by blast
  have stop: "1 \<le> maxAttempts \<and> ?n < maxAttempts \<longrightarrow>
           (\<forall>e. r (clock s' - 1) = Inl e \<longrightarrow> \<not> isTransient e)"
  proof (intro impI)
    assume h: "1 \<le> maxAttempts \<and> ?n < maxAttempts"
    then have "1 \<le> maxAttempts \<and> 1 + ?n \<le> maxAttempts" by simp
    with L show "\<forall>e. r (clock s' - 1) = Inl e \<longrightarrow> \<not> isTransient e" by blast
  qed
  have imm: "\<forall>e. 1 \<le> maxAttempts \<and> r (clock s) = Inl e \<and> \<not> isTransient e \<longrightarrow>
           res = Inl e \<and> clock s' = Suc (clock s) \<and> slept s' = slept s"
  proof (intro allI impI)
    fix e assume h: "1 \<le> maxAttempts \<and> r (clock s) = Inl e \<and> \<not> isTransient e"
    have n1: "?n = 1"
    proof (rule ccontr)
      assume "?n \<noteq> 1"
      moreover have "clock s < clock s'" using las h by simp
      ultimately have "0 + 1 < ?n" by simp
      with tr have "\<exists>e'. r (clock s + 0) = Inl e' \<and> isTransient e'" by blast
      with h show False by simp
    qed
    then have c: "clock s' = Suc (clock s)" by simp
    have "res = Inl e" using las h c by simp
    moreover have "slept s' = slept s" using sl n1 by simp
    ultimately show "res = Inl e \<and> clock s' = Suc (clock s) \<and> slept s' = slept s"
      using c by simp
  qed
  have z: "maxAttempts = 0 \<longrightarrow> res = Inr None \<and> s' = s" using L by simp
  have d: "retryDefault (scripted r) s = retryWithBackoff (scripted r) 3 1000 s"
    by (simp add: retryDefault_def)
  show ?thesis using b sl tr las stop imm z d by blast
qed


theorem C4_retry_witness:
  "clock (snd (retryWithBackoff (scripted limitedTwice) 3 1000 sys0)) - clock sys0 \<le> 3
   \<and> slept (snd (retryWithBackoff (scripted limitedTwice) 3 1000 sys0)) = [1000, 2000]
   \<and> fst (retryWithBackoff (scripted limitedTwice) 3 1000 sys0) = Inr (Some ())
   \<and> fst (retryWithBackoff (scripted alwaysRefused) 3 1000 sys0)
       = Inl ''validation: bad field shape''
   \<and> clock (snd (retryWithBackoff (scripted alwaysRefused) 3 1000 sys0)) = Suc (clock sys0)
   \<and> slept (snd (retryWithBackoff (scripted alwaysRefused) 3 1000 sys0)) = slept sys0"
proof -
  let ?a = "retryWithBackoff (scripted limitedTwice) 3 1000 sys0"
  let ?b = "retryWithBackoff (scripted alwaysRefused) 3 1000 sys0"
  have a: "?a = (fst ?a, snd ?a)" and b: "?b = (fst ?b, snd ?b)" by simp_all
  have ha: "fst ?a = Inr (Some ()) \<and> slept (snd ?a) = [1000, 2000]" by code_simp
  have hb: "(1::nat) \<le> 3 \<and> alwaysRefused (clock sys0) = Inl ''validation: bad field shape''
      \<and> \<not> isTransient ''validation: bad field shape''"
    by code_simp
  have ca: "clock (snd ?a) - clock sys0 \<le> 3"
    using C4_retry [OF a] by blast
  have cb: "fst ?b = Inl ''validation: bad field shape''
      \<and> clock (snd ?b) = Suc (clock sys0) \<and> slept (snd ?b) = slept sys0"
    using C4_retry [OF b] hb by blast
  show ?thesis using ha ca cb by blast
qed

subsection \<open>Counting the items of a vault\<close>

lemma initializeClient_ok:
  "token \<noteq> [] \<Longrightarrow> w_createClient w (clock s) token = None \<Longrightarrow>
   initializeClient w token s
     = (Inr (), tick (logInfo None ''Initializing 1Password SDK client'' s))"
  by (simp add: initializeClient_def Let_def logInfo_def logAt_def)

lemma initializeClient_fails:
  "token = [] \<or> w_createClient w (clock s) token \<noteq> None \<Longrightarrow>
   \<exists>e s1. initializeClient w token s = (Inl e, s1)"
  by (auto simp: initializeClient_def Let_def logInfo_def logAt_def split: option.splits)

lemma getVaultItemCount_total: "\<exists>n s'. getVaultItemCount w vaultId token s = (Inr n, s')"
  by (auto simp: getVaultItemCount_def split: prod.splits sum.splits)

text \<open>
  C10. The item count never raises: it always returns a number. It is 0 when the
  client cannot be initialized or the listing of the active items fails; otherwise it
  is the number of items that listing returned, whatever the listing of the archived
  items does. When the latter fails, the only trace is one warning in the log.
\<close>

theorem C10_item_count:
  "(\<exists>n s'. getVaultItemCount w vaultId token s = (Inr n, s'))
   \<and> (token = [] \<or> w_createClient w (clock s) token \<noteq> None \<longrightarrow>
         fst (getVaultItemCount w vaultId token s) = Inr 0)
   \<and> (\<forall>e. token \<noteq> [] \<and> w_createClient w (clock s) token = None
           \<and> w_itemsList w (Suc (clock s)) token vaultId = Inl e \<longrightarrow>
         fst (getVaultItemCount w vaultId token s) = Inr 0)
   \<and> (\<forall>activeItems. token \<noteq> [] \<and> w_createClient w (clock s) token = None
           \<and> w_itemsList w (Suc (clock s)) token vaultId = Inr activeItems \<longrightarrow>
         fst (getVaultItemCount w vaultId token s) = Inr (length activeItems))
   \<and> (\<forall>activeItems e. token \<noteq> [] \<and> w_createClient w (clock s) token = None
           \<and> w_itemsList w (Suc (clock s)) token vaultId = Inr activeItems
           \<and> w_itemsListArchived w (Suc (Suc (clock s))) token vaultId = Inl e \<longrightarrow>
         getVaultItemCount w vaultId token s
           = (Inr (length activeItems),
              s\<lparr> clock := clock s + 3,
                 globalLog := globalLog s @
                   [(INFO, None, ''Initializing 1Password SDK client''),
                    (WARNING, Some vaultId, ''Could not fetch archived items: '' @ e)] \<rparr>))"
proof -
  have f: "token = [] \<or> w_createClient w (clock s) token \<noteq> None \<longrightarrow>
         fst (getVaultItemCount w vaultId token s) = Inr 0"
  proof
    assume "token = [] \<or> w_createClient w (clock s) token \<noteq> None"
    from initializeClient_fails [OF this] obtain e s1
      where "initializeClient w token s = (Inl e, s1)" by blast
    then show "fst (getVaultItemCount w vaultId token s) = Inr 0"
      by (simp add: getVaultItemCount_def getVaultItemCount_try_def)
  qed
  have g: "\<forall>e. token \<noteq> [] \<and> w_createClient w (clock s) token = None
           \<and> w_itemsList w (Suc (clock s)) token vaultId = Inl e \<longrightarrow>
         fst (getVaultItemCount w vaultId token s) = Inr 0"
    by (simp add: getVaultItemCount_def getVaultItemCount_try_def initializeClient_ok
        tick_def logInfo_def logAt_def)
  have h: "\<forall>activeItems. token \<noteq> [] \<and> w_createClient w (clock s) token = None
           \<and> w_itemsList w (Suc (clock s)) token vaultId = Inr activeItems \<longrightarrow>
         fst (getVaultItemCount w vaultId token s) = Inr (length activeItems)"
    by (simp add: getVaultItemCount_def getVaultItemCount_try_def initializeClient_ok
        tick_def logInfo_def logAt_def Let_def)
  have i: "\<forall>activeItems e. token \<noteq> [] \<and> w_createClient w (clock s) token = None
           \<and> w_itemsList w (Suc (clock s)) token vaultId = Inr activeItems
           \<and> w_itemsListArchived w (Suc (Suc (clock s))) token vaultId = Inl e \<longrightarrow>
         getVaultItemCount w vaultId token s
           = (Inr (length activeItems),
              s\<lparr> clock := clock s + 3,
                 globalLog := globalLog s @
                   [(INFO, None, ''Initializing 1Password SDK client''),
                    (WARNING, Some vaultId, ''Could not fetch archived items: '' @ e)] \<rparr>)"
    by (simp add: getVaultItemCount_def getVaultItemCount_try_def initializeClient_ok
        tick_def logInfo_def logWarning_def logAt_def Let_def)
  show ?thesis using getVaultItemCount_total [of w vaultId token s] f g h i by blast
qed

theorem C10_item_count_witness:
  "getVaultItemCount archiveDownWorld ''vault-1'' ''token'' sys0
     = (Inr 3,
        sys0\<lparr> clock := clock sys0 + 3,
              globalLog := globalLog sys0 @
                [(INFO, None, ''Initializing 1Password SDK client''),
                 (WARNING, Some ''vault-1'', ''Could not fetch archived items: '' @ ''timeout'')] \<rparr>)
   \<and> fst (getVaultItemCount quietWorld ''vault-1'' [] sys0) = Inr 0"
proof -
  have h: "''token'' \<noteq> [] \<and> w_createClient archiveDownWorld (clock sys0) ''token'' = None
      \<and> w_itemsList archiveDownWorld (Suc (clock sys0)) ''token'' ''vault-1''
          = Inr [''a'', ''b'', ''c'']
      \<and> w_itemsListArchived archiveDownWorld (Suc (Suc (clock sys0))) ''token'' ''vault-1''
          = Inl ''timeout''
      \<and> length [''a'', ''b'', ''c''] = 3"
    by code_simp
  have a: "getVaultItemCount archiveDownWorld ''vault-1'' ''token'' sys0
     = (Inr (length [''a'', ''b'', ''c'']),
        sys0\<lparr> clock := clock sys0 + 3,
              globalLog := globalLog sys0 @
                [(INFO, None, ''Initializing 1Password SDK client''),
                 (WARNING, Some ''vault-1'', ''Could not fetch archived items: '' @ ''timeout'')] \<rparr>)"
    using C10_item_count [of archiveDownWorld "''vault-1''" "''token''" sys0] h by blast
  have b: "fst (getVaultItemCount quietWorld ''vault-1'' [] sys0) = Inr 0"
    using C10_item_count [of quietWorld "''vault-1''" "[]" sys0] by blast
  show ?thesis using a b h by simp
qed

subsection \<open>What the steps leave unchanged\<close>

lemma checks_log [simp]:
  "checks (logAt l v m s) = checks s"
  "checks (logInfo v m s) = checks s"
  "checks (logWarning v m s) = checks s"
  "checks (logError v m s) = checks s"
  "checks (tick s) = checks s"
  "checks (logFailedItem a b c d e s) = checks s"
  "checks (logVaultComplete a st s) = checks s"
  by (simp_all add: logAt_def logInfo_def logWarning_def logError_def tick_def
      logFailedItem_def logVaultComplete_def)

lemma clock_log [simp]:
  "clock (logAt l v m s) = clock s"
  "clock (logInfo v m s) = clock s"
  "clock (logWarning v m s) = clock s"
  "clock (logError v m s) = clock s"
  "clock (tick s) = Suc (clock s)"
  "clock (logFailedItem a b c d e s) = clock s"
  "clock (logVaultComplete a st s) = clock s"
  by (simp_all add: logAt_def logInfo_def logWarning_def logError_def tick_def
      logFailedItem_def logVaultComplete_def)

lemma retryDefault_checks:
  assumes "retryDefault (scripted r) s = (res, s1)"
  shows "checks s1 = checks s"
proof -
  have one: "(1::nat) \<le> 1" by simp
  from assms have "retryLoop (scripted r) 3 1000 1 s = (res, s1)"
    by (simp add: retryDefault_def retryWithBackoff_def)
  from retryLoop_scripted [OF this one] show ?thesis by simp
qed

lemma documentStep_checks:
  "checks (snd (documentStep w v itm ni s)) = checks s"
proof -
  obtain r1 s1 where a: "retryDefault (scripted (\<lambda>t. w_itemsGet w t v (it_id itm))) s = (r1, s1)"
    by fastforce
  obtain r2 s2 where b: "retryDefault (scripted (\<lambda>t. w_filesRead w t v (it_id itm))) s1 = (r2, s2)"
    by fastforce
  note c = retryDefault_checks [OF a] retryDefault_checks [OF b]
  show ?thesis
    unfolding documentStep_def callItemsGet_def callFilesRead_def Let_def
    using a b c by (simp split: sum.splits option.splits)
qed

lemma creditCardStep_checks:
  "checks (snd (creditCardStep w v itm ni s)) = checks s"
proof -
  obtain r1 s1 where a: "retryDefault (scripted (\<lambda>t. w_itemsGet w t v (it_id itm))) s = (r1, s1)"
    by fastforce
  note c = retryDefault_checks [OF a]
  show ?thesis
    unfolding creditCardStep_def callItemsGet_def Let_def
    using a c by (simp split: sum.splits option.splits)
qed

lemma filesLoop_checks:
  "checks (snd (snd (filesLoop w i fs acc ids s))) = checks s"
  by (induction w i fs acc ids s rule: filesLoop.induct) (simp_all add: Let_def)

lemma filesStep_checks:
  "checks (snd (filesStep w itm ni s)) = checks s"
  unfolding filesStep_def
  using filesLoop_checks [of w 0 "it_files itm" "[]" "[]" s]
  by (auto split: prod.splits)

lemma migrateViaSDK_checks:
  "checks (snd (migrateViaSDK w cx itm s)) = checks s"
proof -
  define ni1 where "ni1 = notesStep itm \<lparr> ni_title = it_title itm,
                       ni_category = optOrElse (it_category itm) ItemCategory_Login,
                       ni_vaultId = cx_newVaultId cx,
                       ni_notes = None, ni_document = None, ni_fields = None,
                       ni_sections = None, ni_files = None, ni_tags = None,
                       ni_websites = None \<rparr>"
  obtain ni2 s2 where a: "documentStep w (cx_vaultId cx) itm ni1 s = (ni2, s2)" by fastforce
  define ni3 where "ni3 = (if it_category itm = Some ''SSH_KEY''
                              then ni2\<lparr> ni_category := ItemCategory_SshKey \<rparr> else ni2)"
  obtain ni4 s4 where b: "creditCardStep w (cx_vaultId cx) itm ni3 s2 = (ni4, s4)" by fastforce
  obtain ni6 s6 where c: "filesStep w itm (sectionsStep itm (fieldsStep itm ni4)) s4 = (ni6, s6)"
    by fastforce
  obtain r7 s7 where d: "retryDefault (scripted (\<lambda>t. case w_itemsCreate w t
      (websitesStep itm (tagsStep itm ni6)) of None \<Rightarrow> Inr () | Some e \<Rightarrow> Inl e)) s6 = (r7, s7)"
    by fastforce
  have e: "checks s2 = checks s" "checks s4 = checks s2" "checks s6 = checks s4" "checks s7 = checks s6"
    using documentStep_checks [of w "cx_vaultId cx" itm ni1 s] a
      creditCardStep_checks [of w "cx_vaultId cx" itm ni3 s2] b
      filesStep_checks [of w itm "sectionsStep itm (fieldsStep itm ni4)" s4] c
      retryDefault_checks [OF d]
    by simp_all
  show ?thesis
    unfolding migrateViaSDK_def callItemsCreate_def Let_def
    using a b c d e by (simp add: ni1_def ni3_def split: sum.splits)
qed

lemma resolveTemplate_checks:
  "checks (snd (resolveTemplate w dt v ct s)) = checks s"
  unfolding resolveTemplate_def Let_def
  by (simp split: sum.splits option.splits)

lemma createCustomItemViaCLI_try_checks:
  "checks (snd (createCustomItemViaCLI_try w itm st dt sv dv v ct s)) = checks s"
proof -
  obtain r2 s2 where a: "resolveTemplate w dt v ct
      (tick (logInfo (Some v) (''Fetching CUSTOM item '' @ it_id itm @ '' via CLI from source'') s))
        = (r2, s2)"
    by fastforce
  have c: "checks s2 = checks s"
    using resolveTemplate_checks [of w dt v ct
      "tick (logInfo (Some v) (''Fetching CUSTOM item '' @ it_id itm @ '' via CLI from source'') s)"] a
    by simp
  show ?thesis
    unfolding createCustomItemViaCLI_try_def Let_def
    using a c by (simp split: sum.splits option.splits)
qed

lemma createCustomItemViaCLI_checks:
  "checks (snd (createCustomItemViaCLI w itm st dt sv dv v ct s)) = checks s"
  unfolding createCustomItemViaCLI_def
  using createCustomItemViaCLI_try_checks [of w itm st dt sv dv v ct s]
  by (auto split: sum.splits prod.splits)

lemma attemptItem_checks:
  "checks (snd (attemptItem w cx itm s)) = checks s"
  unfolding attemptItem_def Let_def
  by (simp add: createCustomItemViaCLI_checks migrateViaSDK_checks)

lemma itemBody_checks:
  "checks (snd (itemBody w cx itm lv s)) = checks s"
  unfolding itemBody_def Let_def
  using attemptItem_checks [of w cx itm s]
  by (auto split: prod.splits sum.splits)


subsection \<open>The item loop\<close>

lemma itemBody_entry:
  assumes "attemptItem w cx itm s = (res, s1)"
  shows "lv_migrationResults (fst (itemBody w cx itm lv s))
           = lv_migrationResults lv @ [entryOf cx itm (lv_processedItems lv + 1) res]"
    and "lv_processedItems (fst (itemBody w cx itm lv s)) = lv_processedItems lv + 1"
    and "lv_successCount (fst (itemBody w cx itm lv s))
           = lv_successCount lv + (case res of Inl e \<Rightarrow> 0 | Inr u \<Rightarrow> 1)"
    and "lv_failureCount (fst (itemBody w cx itm lv s))
           = lv_failureCount lv + (case res of Inl e \<Rightarrow> 1 | Inr u \<Rightarrow> 0)"
    and "le_status (lv_logEntry (fst (itemBody w cx itm lv s))) = le_status (lv_logEntry lv)"
  using assms
  by (simp_all add: itemBody_def Let_def entryOf_def split: sum.splits)

lemma itemBody_countsAgree:
  "countsAgree lv \<Longrightarrow> countsAgree (fst (itemBody w cx itm lv s))"
proof -
  obtain res s1 where a: "attemptItem w cx itm s = (res, s1)" by fastforce
  assume "countsAgree lv"
  then show ?thesis
    unfolding countsAgree_def itemBody_entry [OF a]
    by (simp add: entryOf_def split: sum.splits)
qed

lemma itemLoop_Cons_run:
  "\<not> w_isCancelled w (checks s) \<Longrightarrow>
   itemBody w cx itm lv (s\<lparr> checks := Suc (checks s) \<rparr>) = (lv1, s2) \<Longrightarrow>
   itemLoop w cx (itm # rest) lv s = itemLoop w cx rest lv1 s2"
  by simp

lemma itemLoop_results:
  "itemLoop w cx items lv s = (c, lv', s') \<Longrightarrow>
     (\<exists>new. lv_migrationResults lv' = lv_migrationResults lv @ new
           \<and> map r_id new = map it_id (take (length new) items)
           \<and> length new \<le> length items
           \<and> (c \<longrightarrow> length new < length items)
           \<and> (\<not> c \<longrightarrow> length new = length items))
     \<and> (countsAgree lv \<longrightarrow> countsAgree lv')
     \<and> (c \<longrightarrow> le_status (lv_logEntry lv') = Cancelled \<and> 0 < checks s'
              \<and> w_isCancelled w (checks s' - 1))
     \<and> (\<not> c \<longrightarrow> le_status (lv_logEntry lv') = le_status (lv_logEntry lv))"
proof (induction items arbitrary: lv s)
  case Nil
  then show ?case by simp
next
  case (Cons itm rest)
  show ?case
  proof (cases "w_isCancelled w (checks s)")
    case True
    with Cons.prems have c: "c"
      and lv': "lv' = lv\<lparr> lv_logEntry := (lv_logEntry lv)\<lparr> le_status := Cancelled \<rparr> \<rparr>"
      and s': "checks s' = Suc (checks s)"
      by (auto simp: cancelVault_def)
    have "lv_migrationResults lv' = lv_migrationResults lv @ []
           \<and> map r_id [] = map it_id (take (length ([] :: itemResult list)) (itm # rest))
           \<and> length ([] :: itemResult list) \<le> length (itm # rest)
           \<and> (c \<longrightarrow> length ([] :: itemResult list) < length (itm # rest))
           \<and> (\<not> c \<longrightarrow> length ([] :: itemResult list) = length (itm # rest))"
      using c lv' by simp
    then have ex: "\<exists>new. lv_migrationResults lv' = lv_migrationResults lv @ new
           \<and> map r_id new = map it_id (take (length new) (itm # rest))
           \<and> length new \<le> length (itm # rest)
           \<and> (c \<longrightarrow> length new < length (itm # rest))
           \<and> (\<not> c \<longrightarrow> length new = length (itm # rest))"
      by (rule exI)
    have ca: "countsAgree lv \<longrightarrow> countsAgree lv'"
      using lv' by (simp add: countsAgree_def)
    have st: "le_status (lv_logEntry lv') = Cancelled \<and> 0 < checks s'
              \<and> w_isCancelled w (checks s' - 1)"
      using lv' s' True by simp
    show ?thesis using ex ca st c by blast
  next
    case False
    let ?s0 = "s\<lparr> checks := Suc (checks s) \<rparr>"
    obtain res s1 where a: "attemptItem w cx itm ?s0 = (res, s1)" by fastforce
    obtain lv1 s2 where b: "itemBody w cx itm lv ?s0 = (lv1, s2)" by fastforce
    note e = itemBody_entry [OF a, of lv, unfolded b fst_conv]
    have r: "itemLoop w cx rest lv1 s2 = (c, lv', s')"
      using Cons.prems itemLoop_Cons_run [OF False b] by simp
    note IH = Cons.IH [OF r]
    from IH obtain new where n:
      "lv_migrationResults lv' = lv_migrationResults lv1 @ new"
      "map r_id new = map it_id (take (length new) rest)"
      "length new \<le> length rest" "c \<longrightarrow> length new < length rest"
      "\<not> c \<longrightarrow> length new = length rest"
      by blast
    let ?new = "entryOf cx itm (lv_processedItems lv + 1) res # new"
    have "lv_migrationResults lv' = lv_migrationResults lv @ ?new
           \<and> map r_id ?new = map it_id (take (length ?new) (itm # rest))
           \<and> length ?new \<le> length (itm # rest)
           \<and> (c \<longrightarrow> length ?new < length (itm # rest))
           \<and> (\<not> c \<longrightarrow> length ?new = length (itm # rest))"
      using n e(1) by (simp add: entryOf_def)
    then have ex: "\<exists>new. lv_migrationResults lv' = lv_migrationResults lv @ new
           \<and> map r_id new = map it_id (take (length new) (itm # rest))
           \<and> length new \<le> length (itm # rest)
           \<and> (c \<longrightarrow> length new < length (itm # rest))
           \<and> (\<not> c \<longrightarrow> length new = length (itm # rest))"
      by (rule exI)
    have ca: "countsAgree lv \<longrightarrow> countsAgree lv'"
      using itemBody_countsAgree [of lv w cx itm ?s0] b IH by simp
    have st: "(c \<longrightarrow> le_status (lv_logEntry lv') = Cancelled \<and> 0 < checks s'
              \<and> w_isCancelled w (checks s' - 1))
        \<and> (\<not> c \<longrightarrow> le_status (lv_logEntry lv') = le_status (lv_logEntry lv))"
      using IH e(5) by simp
    show ?thesis using ex ca st by blast
  qed
qed

lemma itemLoop_uncancelled:
  assumes "\<forall>i < length xs. \<not> w_isCancelled w (checks s + i)"
  shows "\<exists>lv1 s1. itemLoop w cx xs lv s = (False, lv1, s1)
           \<and> checks s1 = checks s + length xs
           \<and> itemLoop w cx (xs @ ys) lv s = itemLoop w cx ys lv1 s1"
  using assms
proof (induction xs arbitrary: lv s)
  case Nil
  then show ?case by simp
next
  case (Cons itm rest)
  let ?s0 = "s\<lparr> checks := Suc (checks s) \<rparr>"
  obtain lv1 s2 where b: "itemBody w cx itm lv ?s0 = (lv1, s2)" by fastforce
  have c: "checks s2 = Suc (checks s)"
    using itemBody_checks [of w cx itm lv ?s0] b by simp
  from Cons.prems have n0: "\<not> w_isCancelled w (checks s)" by force
  have "\<forall>i < length rest. \<not> w_isCancelled w (checks s2 + i)"
  proof (intro allI impI)
    fix i assume "i < length rest"
    then have "Suc i < length (itm # rest)" by simp
    with Cons.prems have "\<not> w_isCancelled w (checks s + Suc i)" by blast
    then show "\<not> w_isCancelled w (checks s2 + i)" using c by simp
  qed
  from Cons.IH [OF this, of lv1] obtain lv2 s3 where
    "itemLoop w cx rest lv1 s2 = (False, lv2, s3)" "checks s3 = checks s2 + length rest"
    "itemLoop w cx (rest @ ys) lv1 s2 = itemLoop w cx ys lv2 s3"
    by blast
  then show ?case using itemLoop_Cons_run [OF n0 b] c by simp
qed

subsection \<open>The loop with progress reports\<close>

lemma itemBodyWithProgress_eq:
  "itemBodyWithProgress w cx itm lv calls s
     = (fst (itemBody w cx itm lv s),
        reportProgress cx (fst (itemBody w cx itm lv s)) calls,
        snd (itemBody w cx itm lv s))"
  by (simp add: itemBodyWithProgress_def itemBody_def Let_def split: prod.splits sum.splits)

lemma itemLoopWithProgress_eq:
  "(case itemLoopWithProgress w cx items lv calls s of (c, lv', calls', s') \<Rightarrow> (c, lv', s'))
     = itemLoop w cx items lv s"
proof (induction items arbitrary: lv calls s)
  case Nil
  show ?case by simp
next
  case (Cons itm rest)
  show ?case
    by (simp add: itemBodyWithProgress_eq Cons.IH split: prod.splits)
qed

lemma reportProgress_addsUp:
  "countsAgree lv \<Longrightarrow> list_all callAddsUp calls \<Longrightarrow> list_all callAddsUp (reportProgress cx lv calls)"
  by (simp add: reportProgress_def callAddsUp_def countsAgree_def)

lemma itemLoopWithProgress_addsUp:
  assumes "countsAgree lv" and "list_all callAddsUp calls"
  shows "list_all callAddsUp (fst (snd (snd (itemLoopWithProgress w cx items lv calls s))))"
  using assms
proof (induction items arbitrary: lv calls s)
  case Nil
  then show ?case by simp
next
  case (Cons itm rest)
  let ?s0 = "s\<lparr> checks := Suc (checks s) \<rparr>"
  have a: "countsAgree (fst (itemBody w cx itm lv ?s0))"
    using Cons.prems(1) by (rule itemBody_countsAgree)
  have b: "list_all callAddsUp (reportProgress cx (fst (itemBody w cx itm lv ?s0)) calls)"
    using a Cons.prems(2) by (rule reportProgress_addsUp)
  show ?case
    using Cons.prems Cons.IH [OF a b] by (simp add: itemBodyWithProgress_eq)
qed


subsection \<open>The two procedures\<close>

lemma vaultCatch_Inr [simp]: "vaultCatch v (Inr r, le, s) = (Inr r, le, s)"
  by (simp add: vaultCatch_def)

lemma migrateVaultWithProgress_fst:
  "fst (migrateVaultWithProgress w vaultId vaultName sourceToken destToken customTemplateId s)
     = migrateVault w vaultId vaultName sourceToken destToken customTemplateId s"
proof -
  let ?b = "beginVault w vaultId vaultName sourceToken destToken newLogEntry
               (startVault vaultId vaultName s)"
  obtain res le s1 where b: "?b = (res, le, s1)" by (metis prod_cases3)
  show ?thesis
  proof (cases res)
    case (Inl e)
    with b show ?thesis by (simp add: migrateVaultWithProgress_def migrateVault_def)
  next
    case (Inr t)
    obtain srcCount newVaultId items where t: "t = (srcCount, newVaultId, items)"
      by (metis prod_cases3)
    let ?cx = "vaultContext vaultId vaultName sourceToken destToken customTemplateId newVaultId items"
    obtain c lv calls s2 where p:
      "itemLoopWithProgress w ?cx items (initialLoopVars le) [] s1 = (c, lv, calls, s2)"
      by (metis prod_cases4)
    have l: "itemLoop w ?cx items (initialLoopVars le) s1 = (c, lv, s2)"
      using itemLoopWithProgress_eq [of w ?cx items "initialLoopVars le" "[]" s1] p by simp
    show ?thesis
      using b Inr t p l
      by (cases c) (simp_all add: migrateVaultWithProgress_def migrateVault_def Let_def)
  qed
qed

text \<open>
  C9. For every world and every argument, the progress variant returns what the
  single-vault procedure returns (the result or the error thrown, the log entry and the
  state, log included); beside it, it has the calls of the progress callback.
\<close>

theorem C9_progress_variant_equal:
  "fst (migrateVaultWithProgress w vaultId vaultName sourceToken destToken customTemplateId s)
     = migrateVault w vaultId vaultName sourceToken destToken customTemplateId s"
  by (rule migrateVaultWithProgress_fst)

lemma finishVault_dest:
  "finishVault w cx srcCount lv s = (Inr r, le, s') \<Longrightarrow>
     (\<exists>d s1. getVaultItemCount w (cx_newVaultId cx) (cx_destToken cx) s = (Inr d, s1)
         \<and> destItemCount r = Some d)
     \<and> le_status le = Completed
     \<and> migrationResults r = lv_migrationResults lv
     \<and> successCount r = lv_successCount lv \<and> failureCount r = lv_failureCount lv
     \<and> itemsLength r = cx_itemsLength cx \<and> sourceItemCount r = srcCount"
  unfolding finishVault_def Let_def
  by (auto split: prod.splits sum.splits)

text \<open>How a run of \<^verbatim>\<open>migrateVault\<close> that returns a result went.\<close>

lemma migrateVault_Inr:
  assumes "migrateVault w vaultId vaultName sourceToken destToken customTemplateId s = (Inr r, le, s')"
  shows "\<exists>srcCount newVaultId items le0 s1 c lv s2.
     beginVault w vaultId vaultName sourceToken destToken newLogEntry
         (startVault vaultId vaultName s)
       = (Inr (srcCount, newVaultId, items), le0, s1)
     \<and> itemLoop w (vaultContext vaultId vaultName sourceToken destToken customTemplateId
                     newVaultId items) items (initialLoopVars le0) s1 = (c, lv, s2)
     \<and> (c \<longrightarrow> r = cancelledResult (vaultContext vaultId vaultName sourceToken destToken
                     customTemplateId newVaultId items) srcCount lv
              \<and> le = lv_logEntry lv \<and> s' = s2)
     \<and> (\<not> c \<longrightarrow> finishVault w (vaultContext vaultId vaultName sourceToken destToken
                     customTemplateId newVaultId items) srcCount lv s2 = (Inr r, le, s'))"
proof -
  let ?b = "beginVault w vaultId vaultName sourceToken destToken newLogEntry
               (startVault vaultId vaultName s)"
  obtain res le0 s1 where b: "?b = (res, le0, s1)" by (metis prod_cases3)
  show ?thesis
  proof (cases res)
    case (Inl e)
    with b assms show ?thesis by (simp add: migrateVault_def vaultCatch_def)
  next
    case (Inr t)
    obtain srcCount newVaultId items where t: "t = (srcCount, newVaultId, items)"
      by (metis prod_cases3)
    let ?cx = "vaultContext vaultId vaultName sourceToken destToken customTemplateId newVaultId items"
    obtain c lv s2 where l: "itemLoop w ?cx items (initialLoopVars le0) s1 = (c, lv, s2)"
      by (metis prod_cases3)
    show ?thesis
    proof (cases c)
      case True
      with assms b Inr t l have "r = cancelledResult ?cx srcCount lv \<and> le = lv_logEntry lv \<and> s' = s2"
        by (simp add: migrateVault_def Let_def)
      with b Inr t l True show ?thesis by blast
    next
      case False
      obtain fr fle fs where f: "finishVault w ?cx srcCount lv s2 = (fr, fle, fs)"
        by (metis prod_cases3)
      with assms b Inr t l False have "vaultCatch vaultId (fr, fle, fs) = (Inr r, le, s')"
        by (simp add: migrateVault_def Let_def)
      then have "(fr, fle, fs) = (Inr r, le, s')"
        by (cases fr) (simp_all add: vaultCatch_def)
      with f b Inr t l False show ?thesis by blast
    qed
  qed
qed


subsection \<open>Cancellation\<close>

lemma itemLoop_cancel_now:
  "w_isCancelled w (checks s) \<Longrightarrow>
   itemLoop w cx (itm # rest) lv s
     = (True, lv\<lparr> lv_logEntry := (lv_logEntry lv)\<lparr> le_status := Cancelled \<rparr> \<rparr>,
        cancelVault cx (s\<lparr> checks := Suc (checks s) \<rparr>))"
  by simp

lemma itemLoop_cancel_at:
  assumes k: "k < length items"
    and before: "\<forall>i<k. \<not> w_isCancelled w (checks s + i)"
    and at: "w_isCancelled w (checks s + k)"
  shows "\<exists>lv s2. itemLoop w cx (take k items) lv0 s = (False, lv, s2)
           \<and> itemLoop w cx items lv0 s
               = (True, lv\<lparr> lv_logEntry := (lv_logEntry lv)\<lparr> le_status := Cancelled \<rparr> \<rparr>,
                  cancelVault cx (s2\<lparr> checks := Suc (checks s2) \<rparr>))
           \<and> length (lv_migrationResults lv) = length (lv_migrationResults lv0) + k
           \<and> map r_id (drop (length (lv_migrationResults lv0)) (lv_migrationResults lv))
               = map it_id (take k items)
           \<and> take (length (lv_migrationResults lv0)) (lv_migrationResults lv)
               = lv_migrationResults lv0"
proof -
  have len: "length (take k items) = k" using k by simp
  have b: "\<forall>i < length (take k items). \<not> w_isCancelled w (checks s + i)"
    using before len by simp
  from itemLoop_uncancelled [OF b, of cx lv0 "drop k items"]
  obtain lv s2 where u: "itemLoop w cx (take k items) lv0 s = (False, lv, s2)"
    "checks s2 = checks s + k"
    "itemLoop w cx (take k items @ drop k items) lv0 s = itemLoop w cx (drop k items) lv s2"
    using len by auto
  obtain itm rest where d: "drop k items = itm # rest"
    using k by (metis Cons_nth_drop_Suc)
  have c: "w_isCancelled w (checks s2)" using at u(2) by simp
  have whole: "itemLoop w cx items lv0 s
      = (True, lv\<lparr> lv_logEntry := (lv_logEntry lv)\<lparr> le_status := Cancelled \<rparr> \<rparr>,
         cancelVault cx (s2\<lparr> checks := Suc (checks s2) \<rparr>))"
  proof -
    have "itemLoop w cx items lv0 s = itemLoop w cx (drop k items) lv s2"
      using u(3) by simp
    also have "\<dots> = itemLoop w cx (itm # rest) lv s2" by (simp only: d)
    also note itemLoop_cancel_now [OF c, of cx itm rest lv]
    finally show ?thesis .
  qed
  from itemLoop_results [OF u(1)] obtain new where n:
    "lv_migrationResults lv = lv_migrationResults lv0 @ new"
    "map r_id new = map it_id (take (length new) (take k items))"
    "length new = length (take k items)"
    by auto
  have "length (lv_migrationResults lv) = length (lv_migrationResults lv0) + k"
    using n(1,3) len by simp
  moreover have "map r_id (drop (length (lv_migrationResults lv0)) (lv_migrationResults lv))
               = map it_id (take k items)"
    using n len by simp
  moreover have "take (length (lv_migrationResults lv0)) (lv_migrationResults lv)
               = lv_migrationResults lv0"
    using n(1) by simp
  ultimately show ?thesis using u(1) whole by blast
qed

lemma migrateVault_cancelled_flag:
  assumes "migrateVault w vaultId vaultName sourceToken destToken customTemplateId s = (Inr r, le, s')"
    and "destItemCount r = None"
  shows "le_status le = Cancelled \<and> 0 < checks s' \<and> w_isCancelled w (checks s' - 1)"
proof -
  from migrateVault_Inr [OF assms(1)] obtain srcCount newVaultId items le0 s1 c lv s2 where
    l: "itemLoop w (vaultContext vaultId vaultName sourceToken destToken customTemplateId
                     newVaultId items) items (initialLoopVars le0) s1 = (c, lv, s2)"
    and t: "c \<longrightarrow> r = cancelledResult (vaultContext vaultId vaultName sourceToken destToken
                     customTemplateId newVaultId items) srcCount lv
              \<and> le = lv_logEntry lv \<and> s' = s2"
    and f: "\<not> c \<longrightarrow> finishVault w (vaultContext vaultId vaultName sourceToken destToken
                     customTemplateId newVaultId items) srcCount lv s2 = (Inr r, le, s')"
    by blast
  have c: "c"
  proof (rule ccontr)
    assume "\<not> c"
    with f finishVault_dest have "\<exists>d. destItemCount r = Some d" by blast
    with assms(2) show False by simp
  qed
  with itemLoop_results [OF l] t show ?thesis by simp
qed

lemma vaultLoop_cancel_now:
  "w_isCancelled w (checks s) \<Longrightarrow>
   vaultLoop w bx ((v, n) # rest) completedVaults results events s
     = (True, results, events @ [CancelledByUser results],
        cancelBulk (s\<lparr> checks := Suc (checks s) \<rparr>))"
  by simp

lemma vaultLoop_run:
  "\<not> w_isCancelled w (checks s) \<Longrightarrow>
   migrateVaultWithProgress w v (n @ '' (Migrated)'') (bx_sourceToken bx)
       (bx_destToken bx) (bx_customTemplateId bx) (s\<lparr> checks := Suc (checks s) \<rparr>)
     = ((res, le, s1), calls) \<Longrightarrow>
   vaultLoop w bx ((v, n) # rest) completedVaults results events s
     = vaultLoop w bx rest (Suc completedVaults) (results @ [outcomeOf v n res])
         (((events @ [Preparing ((of_nat completedVaults / of_nat (bx_totalVaults bx)) * 100) v n])
             @ map (progressEvent bx completedVaults v n) calls)
            @ [Outcome ((of_nat (Suc completedVaults) / of_nat (bx_totalVaults bx)) * 100)
                 (outcomeOf v n res)])
         (case res of Inr u \<Rightarrow> s1
          | Inl e \<Rightarrow> logError (Some v) (''Vault migration failed: '' @ e) s1)"
  by (simp add: Let_def)

declare vaultLoop.simps(2) [simp del]

lemma vaultLoop_after_cancelled_vault:
  assumes mono: "\<forall>i j. i \<le> j \<and> w_isCancelled w i \<longrightarrow> w_isCancelled w j"
    and start: "\<not> w_isCancelled w (checks s0)"
    and run: "migrateVaultWithProgress w v (n @ '' (Migrated)'') (bx_sourceToken bx)
                (bx_destToken bx) (bx_customTemplateId bx) (s0\<lparr> checks := Suc (checks s0) \<rparr>)
              = ((Inr r, le, s1), calls)"
    and none: "destItemCount r = None"
  shows "\<exists>events'. vaultLoop w bx ((v, n) # rest) completedVaults results events s0
           = (rest \<noteq> [], results @ [outcomeOf v n (Inr r)], events',
              (if rest = [] then s1 else cancelBulk (s1\<lparr> checks := Suc (checks s1) \<rparr>)))"
proof -
  have m: "migrateVault w v (n @ '' (Migrated)'') (bx_sourceToken bx)
                (bx_destToken bx) (bx_customTemplateId bx) (s0\<lparr> checks := Suc (checks s0) \<rparr>)
            = (Inr r, le, s1)"
    using migrateVaultWithProgress_fst [of w v "n @ '' (Migrated)''" "bx_sourceToken bx"
        "bx_destToken bx" "bx_customTemplateId bx" "s0\<lparr> checks := Suc (checks s0) \<rparr>"] run
    by simp
  from migrateVault_cancelled_flag [OF m none]
  have "0 < checks s1" "w_isCancelled w (checks s1 - 1)" by simp_all
  with mono have c: "w_isCancelled w (checks s1)"
    by (metis diff_le_self)
  note first = vaultLoop_run [OF start run, of rest completedVaults results events]
  show ?thesis
  proof (cases rest)
    case Nil
    show ?thesis unfolding first unfolding Nil by simp
  next
    case (Cons p rest')
    obtain v' n' where p: "p = (v', n')" by (cases p)
    show ?thesis
      unfolding first unfolding Cons p
      by (simp add: vaultLoop_cancel_now [OF c])
  qed
qed


text \<open>
  C5. Cancellation. In a vault: when the source count, the destination vault and the
  listing succeeded with \<open>n\<close> items, the flag reads false at the first \<open>k < n\<close> checks of
  the loop and true at the next, the procedure (and its progress variant) returns a
  result with exactly \<open>k\<close> entries, those of the first \<open>k\<close> items in order, and no
  destination count; its log entry has the status cancelled; and its final state is
  the state after the loop over the first \<open>k\<close> items alone, plus the read of the flag
  and the log line of the cancellation: nothing was attempted for the items after
  the \<open>k\<close>-th. Among vaults: when the flag reads true before a vault, the loop over the
  vaults returns there, with the outcomes it has and without any further call; and when
  the flag, once true, stays true, a vault that returned on a cancellation is the last
  vault started.
\<close>

theorem C5_cancellation:
  "(\<forall>srcCount newVaultId items le s1 k.
       beginVault w vaultId vaultName sourceToken destToken newLogEntry
           (startVault vaultId vaultName s)
         = (Inr (srcCount, newVaultId, items), le, s1)
       \<and> k < length items
       \<and> (\<forall>i<k. \<not> w_isCancelled w (checks s1 + i))
       \<and> w_isCancelled w (checks s1 + k)
     \<longrightarrow> (\<exists>r le' lv s2.
            migrateVault w vaultId vaultName sourceToken destToken customTemplateId s
              = (Inr r, le',
                 cancelVault (vaultContext vaultId vaultName sourceToken destToken
                     customTemplateId newVaultId items) (s2\<lparr> checks := Suc (checks s2) \<rparr>))
          \<and> fst (migrateVaultWithProgress w vaultId vaultName sourceToken destToken
                    customTemplateId s)
              = (Inr r, le',
                 cancelVault (vaultContext vaultId vaultName sourceToken destToken
                     customTemplateId newVaultId items) (s2\<lparr> checks := Suc (checks s2) \<rparr>))
          \<and> itemLoop w (vaultContext vaultId vaultName sourceToken destToken
                     customTemplateId newVaultId items) (take k items) (initialLoopVars le) s1
              = (False, lv, s2)
          \<and> migrationResults r = lv_migrationResults lv
          \<and> length (migrationResults r) = k
          \<and> map r_id (migrationResults r) = map it_id (take k items)
          \<and> destItemCount r = None
          \<and> itemsLength r = length items
          \<and> le_status le' = Cancelled))
   \<and> (\<forall>bx v n rest completedVaults results events s0.
         w_isCancelled w (checks s0) \<longrightarrow>
         vaultLoop w bx ((v, n) # rest) completedVaults results events s0
           = (True, results, events @ [CancelledByUser results],
              cancelBulk (s0\<lparr> checks := Suc (checks s0) \<rparr>)))
   \<and> ((\<forall>i j. i \<le> j \<and> w_isCancelled w i \<longrightarrow> w_isCancelled w j) \<longrightarrow>
        (\<forall>bx v n rest completedVaults results events s0 r le s1 calls.
           \<not> w_isCancelled w (checks s0)
           \<and> migrateVaultWithProgress w v (n @ '' (Migrated)'') (bx_sourceToken bx)
                 (bx_destToken bx) (bx_customTemplateId bx) (s0\<lparr> checks := Suc (checks s0) \<rparr>)
               = ((Inr r, le, s1), calls)
           \<and> destItemCount r = None
         \<longrightarrow> (\<exists>events'. vaultLoop w bx ((v, n) # rest) completedVaults results events s0
                 = (rest \<noteq> [], results @ [outcomeOf v n (Inr r)], events',
                    (if rest = [] then s1
                     else cancelBulk (s1\<lparr> checks := Suc (checks s1) \<rparr>))))))"
proof (intro conjI allI impI)
  fix srcCount newVaultId items le k and s1 :: sys
  let ?cx = "vaultContext vaultId vaultName sourceToken destToken customTemplateId newVaultId items"
  assume h: "beginVault w vaultId vaultName sourceToken destToken newLogEntry
           (startVault vaultId vaultName s)
         = (Inr (srcCount, newVaultId, items), le, s1)
       \<and> k < length items
       \<and> (\<forall>i<k. \<not> w_isCancelled w (checks s1 + i))
       \<and> w_isCancelled w (checks s1 + k)"
  then have b: "beginVault w vaultId vaultName sourceToken destToken newLogEntry
           (startVault vaultId vaultName s) = (Inr (srcCount, newVaultId, items), le, s1)"
    and k: "k < length items" and before: "\<forall>i<k. \<not> w_isCancelled w (checks s1 + i)"
    and at: "w_isCancelled w (checks s1 + k)"
    by simp_all
  from itemLoop_cancel_at [OF k before at, of ?cx "initialLoopVars le"]
  obtain lv s2 where
    pre: "itemLoop w ?cx (take k items) (initialLoopVars le) s1 = (False, lv, s2)"
    and whole: "itemLoop w ?cx items (initialLoopVars le) s1
               = (True, lv\<lparr> lv_logEntry := (lv_logEntry lv)\<lparr> le_status := Cancelled \<rparr> \<rparr>,
                  cancelVault ?cx (s2\<lparr> checks := Suc (checks s2) \<rparr>))"
    and len: "length (lv_migrationResults lv) = k"
    and ids: "map r_id (lv_migrationResults lv) = map it_id (take k items)"
    by (auto simp: initialLoopVars_def)
  let ?lv = "lv\<lparr> lv_logEntry := (lv_logEntry lv)\<lparr> le_status := Cancelled \<rparr> \<rparr>"
  let ?r = "cancelledResult ?cx srcCount ?lv"
  let ?s = "cancelVault ?cx (s2\<lparr> checks := Suc (checks s2) \<rparr>)"
  have m: "migrateVault w vaultId vaultName sourceToken destToken customTemplateId s
             = (Inr ?r, lv_logEntry ?lv, ?s)"
    using b whole by (simp add: migrateVault_def Let_def)
  have p: "fst (migrateVaultWithProgress w vaultId vaultName sourceToken destToken
                    customTemplateId s) = (Inr ?r, lv_logEntry ?lv, ?s)"
    using m by (simp only: migrateVaultWithProgress_fst)
  have props: "migrationResults ?r = lv_migrationResults lv
      \<and> length (migrationResults ?r) = k
      \<and> map r_id (migrationResults ?r) = map it_id (take k items)
      \<and> destItemCount ?r = None
      \<and> itemsLength ?r = length items
      \<and> le_status (lv_logEntry ?lv) = Cancelled"
    using len ids by (simp add: cancelledResult_def vaultContext_def)
  show "\<exists>r le' lv s2.
            migrateVault w vaultId vaultName sourceToken destToken customTemplateId s
              = (Inr r, le', cancelVault ?cx (s2\<lparr> checks := Suc (checks s2) \<rparr>))
          \<and> fst (migrateVaultWithProgress w vaultId vaultName sourceToken destToken
                    customTemplateId s)
              = (Inr r, le', cancelVault ?cx (s2\<lparr> checks := Suc (checks s2) \<rparr>))
          \<and> itemLoop w ?cx (take k items) (initialLoopVars le) s1 = (False, lv, s2)
          \<and> migrationResults r = lv_migrationResults lv
          \<and> length (migrationResults r) = k
          \<and> map r_id (migrationResults r) = map it_id (take k items)
          \<and> destItemCount r = None
          \<and> itemsLength r = length items
          \<and> le_status le' = Cancelled"
    using m p pre props by blast
next
  fix v n rest completedVaults results events and s0 :: sys and bx :: bulkCtx
  assume "w_isCancelled w (checks s0)"
  then show "vaultLoop w bx ((v, n) # rest) completedVaults results events s0
           = (True, results, events @ [CancelledByUser results],
              cancelBulk (s0\<lparr> checks := Suc (checks s0) \<rparr>))"
    by (rule vaultLoop_cancel_now)
next
  fix v n rest completedVaults results events r le calls and s0 s1 :: sys and bx :: bulkCtx
  assume mono: "\<forall>i j. i \<le> j \<and> w_isCancelled w i \<longrightarrow> w_isCancelled w j"
  assume h: "\<not> w_isCancelled w (checks s0)
           \<and> migrateVaultWithProgress w v (n @ '' (Migrated)'') (bx_sourceToken bx)
                 (bx_destToken bx) (bx_customTemplateId bx) (s0\<lparr> checks := Suc (checks s0) \<rparr>)
               = ((Inr r, le, s1), calls)
           \<and> destItemCount r = None"
  then have a: "\<not> w_isCancelled w (checks s0)"
    and b: "migrateVaultWithProgress w v (n @ '' (Migrated)'') (bx_sourceToken bx)
                 (bx_destToken bx) (bx_customTemplateId bx) (s0\<lparr> checks := Suc (checks s0) \<rparr>)
               = ((Inr r, le, s1), calls)"
    and c: "destItemCount r = None"
    by simp_all
  show "\<exists>events'. vaultLoop w bx ((v, n) # rest) completedVaults results events s0
                 = (rest \<noteq> [], results @ [outcomeOf v n (Inr r)], events',
                    (if rest = [] then s1
                     else cancelBulk (s1\<lparr> checks := Suc (checks s1) \<rparr>)))"
    by (rule vaultLoop_after_cancelled_vault [OF mono a b c])
qed



theorem C5_cancellation_witness:
  "(\<exists>r le' s'. migrateVault cancelWorld ''v1'' ''Vault'' ''src'' ''dst'' None sys0 = (Inr r, le', s')
       \<and> length (migrationResults r) = 4
       \<and> map r_id (migrationResults r) = [''i1'', ''i2'', ''i3'', ''i4'']
       \<and> destItemCount r = None
       \<and> itemsLength r = 10
       \<and> le_status le' = Cancelled)
   \<and> vaultLoop cancelledWorld exampleBulk twoVaults 0 [] [] sys0
       = (True, [], [CancelledByUser []], cancelBulk (sys0\<lparr> checks := Suc (checks sys0) \<rparr>))
   \<and> (\<exists>o1 events' s'. vaultLoop cancelWorld exampleBulk twoVaults 0 [] [] sys0
          = (True, [o1], events', s'))"
proof -
  let ?B = "beginVault cancelWorld ''v1'' ''Vault'' ''src'' ''dst'' newLogEntry
              (startVault ''v1'' ''Vault'' sys0)"
  have h1: "fst ?B = Inr (0, ''new-vault'', tenItems) \<and> checks (snd (snd ?B)) = 0
      \<and> 4 < length tenItems \<and> length tenItems = 10
      \<and> map it_id (take 4 tenItems) = [''i1'', ''i2'', ''i3'', ''i4'']"
    by code_simp
  have b: "?B = (Inr (0, ''new-vault'', tenItems), fst (snd ?B), snd (snd ?B))"
    using h1 by (metis prod.collapse)
  have fl: "w_isCancelled cancelWorld = (\<lambda>n. 4 \<le> n)"
    by (simp add: cancelWorld_def quietWorld_def)
  have k: "4 < length tenItems" using h1 by blast
  have before: "\<forall>i<4. \<not> w_isCancelled cancelWorld (checks (snd (snd ?B)) + i)"
    using h1 by (simp add: fl)
  have at: "w_isCancelled cancelWorld (checks (snd (snd ?B)) + 4)"
    using h1 by (simp add: fl)
  note T = C5_cancellation [of cancelWorld "''v1''" "''Vault''" "''src''" "''dst''" sys0 None]
  note T1 = T [THEN conjunct1, rule_format, OF conjI [OF b conjI [OF k conjI [OF before at]]]]
  from T1 obtain r le' s' where
    m: "migrateVault cancelWorld ''v1'' ''Vault'' ''src'' ''dst'' None sys0 = (Inr r, le', s')"
    and l: "length (migrationResults r) = 4"
    and ids: "map r_id (migrationResults r) = map it_id (take 4 tenItems)"
    and d: "destItemCount r = None"
    and il: "itemsLength r = length tenItems"
    and st: "le_status le' = Cancelled"
    by blast
  have cc: "migrateVault cancelWorld ''v1'' ''Vault'' ''src'' ''dst'' None sys0 = (Inr r, le', s')
       \<and> length (migrationResults r) = 4
       \<and> map r_id (migrationResults r) = [''i1'', ''i2'', ''i3'', ''i4'']
       \<and> destItemCount r = None
       \<and> itemsLength r = 10
       \<and> le_status le' = Cancelled"
    using m l ids d il st h1 by simp
  have one: "\<exists>r le' s'. migrateVault cancelWorld ''v1'' ''Vault'' ''src'' ''dst'' None sys0 = (Inr r, le', s')
       \<and> length (migrationResults r) = 4
       \<and> map r_id (migrationResults r) = [''i1'', ''i2'', ''i3'', ''i4'']
       \<and> destItemCount r = None
       \<and> itemsLength r = 10
       \<and> le_status le' = Cancelled"
    by (rule exI [of _ r], rule exI [of _ le'], rule exI [of _ s'], rule cc)
  have c0: "w_isCancelled cancelledWorld (checks sys0)"
    by (simp add: cancelledWorld_def quietWorld_def)
  have two: "vaultLoop cancelledWorld exampleBulk twoVaults 0 [] [] sys0
       = (True, [], [CancelledByUser []], cancelBulk (sys0\<lparr> checks := Suc (checks sys0) \<rparr>))"
    unfolding twoVaults_def
    using C5_cancellation [of cancelledWorld "''v1''" "''Vault''" "''src''" "''dst''" sys0 None,
        THEN conjunct2, THEN conjunct1, rule_format, OF c0,
        of exampleBulk "''v1''" "''One''" "[(''v2'', ''Two'')]" 0 "[]" "[]"]
    by simp
  let ?X = "migrateVaultWithProgress cancelWorld ''v1'' (''One'' @ '' (Migrated)'')
              (bx_sourceToken exampleBulk) (bx_destToken exampleBulk)
              (bx_customTemplateId exampleBulk) (sys0\<lparr> checks := Suc (checks sys0) \<rparr>)"
  have h3: "(case fst (fst ?X) of Inr r \<Rightarrow> destItemCount r = None | Inl e \<Rightarrow> False)
      \<and> \<not> w_isCancelled cancelWorld (checks sys0)"
    by code_simp
  then obtain r2 where r2: "fst (fst ?X) = Inr r2" "destItemCount r2 = None"
    by (cases "fst (fst ?X)") simp_all
  have x: "?X = ((Inr r2, fst (snd (fst ?X)), snd (snd (fst ?X))), snd ?X)"
    using r2(1) by (metis prod.collapse)
  have n0: "\<not> w_isCancelled cancelWorld (checks sys0)" using h3 by blast
  have mono: "\<forall>i j. i \<le> j \<and> w_isCancelled cancelWorld i \<longrightarrow> w_isCancelled cancelWorld j"
    by (simp add: fl)
  note T3a = T [THEN conjunct2, THEN conjunct2, THEN mp, OF mono, rule_format]
  note T3 = T3a [OF conjI [OF n0 conjI [OF x r2(2)]], of "[(''v2'', ''Two'')]" 0 "[]" "[]"]
  from T3 obtain events' where
    "vaultLoop cancelWorld exampleBulk ((''v1'', ''One'') # [(''v2'', ''Two'')]) 0 [] [] sys0
       = ([(''v2'', ''Two'')] \<noteq> [], [] @ [outcomeOf ''v1'' ''One'' (Inr r2)], events',
          (if [(''v2'', ''Two'')] = [] then snd (snd (fst ?X))
           else cancelBulk ((snd (snd (fst ?X)))\<lparr> checks := Suc (checks (snd (snd (fst ?X)))) \<rparr>)))"
    by blast
  then have v: "vaultLoop cancelWorld exampleBulk twoVaults 0 [] [] sys0
       = (True, [outcomeOf ''v1'' ''One'' (Inr r2)], events',
          cancelBulk ((snd (snd (fst ?X)))\<lparr> checks := Suc (checks (snd (snd (fst ?X)))) \<rparr>))"
    unfolding twoVaults_def by simp
  have three: "\<exists>o1 events' s'. vaultLoop cancelWorld exampleBulk twoVaults 0 [] [] sys0
          = (True, [o1], events', s')"
    by (rule exI, rule exI, rule exI, rule v)
  show ?thesis by (rule conjI [OF one conjI [OF two three]])
qed

subsection \<open>Counters, checkpoints and failures\<close>

lemma countsAgree_initial: "countsAgree (initialLoopVars le)"
  by (simp add: countsAgree_def initialLoopVars_def)

lemma migrateVaultWithProgress_calls:
  "list_all callAddsUp
     (snd (migrateVaultWithProgress w vaultId vaultName sourceToken destToken customTemplateId s))"
proof -
  let ?b = "beginVault w vaultId vaultName sourceToken destToken newLogEntry
               (startVault vaultId vaultName s)"
  obtain res le s1 where b: "?b = (res, le, s1)" by (metis prod_cases3)
  show ?thesis
  proof (cases res)
    case (Inl e)
    with b show ?thesis by (simp add: migrateVaultWithProgress_def)
  next
    case (Inr t)
    obtain srcCount newVaultId items where t: "t = (srcCount, newVaultId, items)"
      by (metis prod_cases3)
    let ?cx = "vaultContext vaultId vaultName sourceToken destToken customTemplateId newVaultId items"
    obtain c lv calls s2 where p:
      "itemLoopWithProgress w ?cx items (initialLoopVars le) [] s1 = (c, lv, calls, s2)"
      by (metis prod_cases4)
    have "list_all callAddsUp calls"
      using itemLoopWithProgress_addsUp [OF countsAgree_initial, of "[]" w ?cx items le s1] p
      by simp
    then show ?thesis
      using b Inr t p by (cases c) (simp_all add: migrateVaultWithProgress_def Let_def)
  qed
qed

lemma migrateVault_counts:
  assumes "migrateVault w vaultId vaultName sourceToken destToken customTemplateId s = (Inr r, le, s')"
  shows "successCount r + failureCount r = length (migrationResults r)
     \<and> successCount r = length (filter r_success (migrationResults r))
     \<and> failureCount r = length (filter (\<lambda>x. \<not> r_success x) (migrationResults r))
     \<and> (destItemCount r \<noteq> None \<longrightarrow> length (migrationResults r) = itemsLength r)"
proof -
  from migrateVault_Inr [OF assms] obtain srcCount newVaultId items le0 s1 c lv s2 where
    l: "itemLoop w (vaultContext vaultId vaultName sourceToken destToken customTemplateId
                     newVaultId items) items (initialLoopVars le0) s1 = (c, lv, s2)"
    and t: "c \<longrightarrow> r = cancelledResult (vaultContext vaultId vaultName sourceToken destToken
                     customTemplateId newVaultId items) srcCount lv"
    and f: "\<not> c \<longrightarrow> finishVault w (vaultContext vaultId vaultName sourceToken destToken
                     customTemplateId newVaultId items) srcCount lv s2 = (Inr r, le, s')"
    by blast
  let ?cx = "vaultContext vaultId vaultName sourceToken destToken customTemplateId newVaultId items"
  note R = itemLoop_results [OF l]
  have ca: "countsAgree lv" using R countsAgree_initial by blast
  have len: "\<not> c \<longrightarrow> length (lv_migrationResults lv) = length items"
    using R by (auto simp: initialLoopVars_def)
  have fields: "migrationResults r = lv_migrationResults lv
      \<and> successCount r = lv_successCount lv \<and> failureCount r = lv_failureCount lv
      \<and> (destItemCount r \<noteq> None \<longrightarrow> \<not> c) \<and> itemsLength r = length items"
  proof (cases c)
    case True
    with t show ?thesis by (simp add: cancelledResult_def vaultContext_def)
  next
    case False
    with f finishVault_dest [of w ?cx srcCount lv s2 r le s'] show ?thesis
      by (simp add: vaultContext_def)
  qed
  show ?thesis using ca len fields by (auto simp: countsAgree_def)
qed

text \<open>
  C6. Every call of the progress callback reports counters that add up:
  \<open>successCount + failureCount = itemsProcessed\<close>; so do the counters of a returned
  result, which count the successful and the failed entries, and a run that was not
  cancelled has one entry for each item listed. An attempt that throws \<open>e\<close> adds one
  entry, with \<open>success = false\<close> and the error \<open>e\<close>, after the entries already recorded,
  adds one to the failure counter and leaves the success counter as it is, in either
  procedure; the loop then goes on with the next item; and over the whole loop the
  entries recorded before stay as they are, the new ones being those of the items in
  order.
\<close>

theorem C6_counts_and_failures:
  "(\<forall>res le s' calls.
       migrateVaultWithProgress w vaultId vaultName sourceToken destToken customTemplateId s
         = ((res, le, s'), calls) \<longrightarrow>
       list_all callAddsUp calls
       \<and> (\<forall>r. res = Inr r \<longrightarrow>
             successCount r + failureCount r = length (migrationResults r)
           \<and> successCount r = length (filter r_success (migrationResults r))
           \<and> failureCount r = length (filter (\<lambda>x. \<not> r_success x) (migrationResults r))
           \<and> (destItemCount r \<noteq> None \<longrightarrow> length (migrationResults r) = itemsLength r)))
   \<and> (\<forall>cx itm lv calls s0 e s1.
         attemptItem w cx itm s0 = (Inl e, s1) \<longrightarrow>
           lv_migrationResults (fst (itemBody w cx itm lv s0))
             = lv_migrationResults lv @
                 [\<lparr> r_id = it_id itm, r_title = it_title itm, r_success = False,
                    r_error = Some e,
                    r_progress = progressOf (lv_processedItems lv + 1) (cx_itemsLength cx) \<rparr>]
         \<and> lv_failureCount (fst (itemBody w cx itm lv s0)) = lv_failureCount lv + 1
         \<and> lv_successCount (fst (itemBody w cx itm lv s0)) = lv_successCount lv
         \<and> lv_processedItems (fst (itemBody w cx itm lv s0)) = lv_processedItems lv + 1
         \<and> fst (itemBodyWithProgress w cx itm lv calls s0) = fst (itemBody w cx itm lv s0))
   \<and> (\<forall>cx itm rest lv s0.
         \<not> w_isCancelled w (checks s0) \<longrightarrow>
           itemLoop w cx (itm # rest) lv s0
             = itemLoop w cx rest
                 (fst (itemBody w cx itm lv (s0\<lparr> checks := Suc (checks s0) \<rparr>)))
                 (snd (itemBody w cx itm lv (s0\<lparr> checks := Suc (checks s0) \<rparr>))))
   \<and> (\<forall>cx items lv s0 c lv' s1.
         itemLoop w cx items lv s0 = (c, lv', s1) \<longrightarrow>
           (\<exists>new. lv_migrationResults lv' = lv_migrationResults lv @ new
              \<and> map r_id new = map it_id (take (length new) items)
              \<and> (\<not> c \<longrightarrow> length new = length items)))"
proof (intro conjI allI impI)
  fix res le s' calls
  assume a: "migrateVaultWithProgress w vaultId vaultName sourceToken destToken customTemplateId s
         = ((res, le, s'), calls)"
  show "list_all callAddsUp calls"
    using migrateVaultWithProgress_calls [of w vaultId vaultName sourceToken destToken
        customTemplateId s] a by simp
  fix r
  assume r: "res = Inr r"
  have m: "migrateVault w vaultId vaultName sourceToken destToken customTemplateId s = (Inr r, le, s')"
    using migrateVaultWithProgress_fst [of w vaultId vaultName sourceToken destToken
        customTemplateId s] a r by simp
  note C = migrateVault_counts [OF m]
  show "successCount r + failureCount r = length (migrationResults r)" using C by blast
  show "successCount r = length (filter r_success (migrationResults r))" using C by blast
  show "failureCount r = length (filter (\<lambda>x. \<not> r_success x) (migrationResults r))"
    using C by blast
  assume "destItemCount r \<noteq> None"
  then show "length (migrationResults r) = itemsLength r" using C by blast
next
  fix cx itm lv e s1 and s0 :: sys and calls :: "progressCall list"
  assume a: "attemptItem w cx itm s0 = (Inl e, s1)"
  note E = itemBody_entry [OF a, of lv]
  show "lv_migrationResults (fst (itemBody w cx itm lv s0))
             = lv_migrationResults lv @
                 [\<lparr> r_id = it_id itm, r_title = it_title itm, r_success = False,
                    r_error = Some e,
                    r_progress = progressOf (lv_processedItems lv + 1) (cx_itemsLength cx) \<rparr>]"
    using E(1) by (simp add: entryOf_def)
  show "lv_failureCount (fst (itemBody w cx itm lv s0)) = lv_failureCount lv + 1"
    using E(4) by simp
  show "lv_successCount (fst (itemBody w cx itm lv s0)) = lv_successCount lv"
    using E(3) by simp
  show "lv_processedItems (fst (itemBody w cx itm lv s0)) = lv_processedItems lv + 1"
    using E(2) by simp
  show "fst (itemBodyWithProgress w cx itm lv calls s0) = fst (itemBody w cx itm lv s0)"
    by (simp add: itemBodyWithProgress_eq)
next
  fix cx itm rest lv and s0 :: sys
  assume "\<not> w_isCancelled w (checks s0)"
  then show "itemLoop w cx (itm # rest) lv s0
             = itemLoop w cx rest
                 (fst (itemBody w cx itm lv (s0\<lparr> checks := Suc (checks s0) \<rparr>)))
                 (snd (itemBody w cx itm lv (s0\<lparr> checks := Suc (checks s0) \<rparr>)))"
    by (simp add: split_beta)
next
  fix cx items lv s0 c lv' s1
  assume "itemLoop w cx items lv s0 = (c, lv', s1)"
  from itemLoop_results [OF this]
  show "\<exists>new. lv_migrationResults lv' = lv_migrationResults lv @ new
              \<and> map r_id new = map it_id (take (length new) items)
              \<and> (\<not> c \<longrightarrow> length new = length items)"
    by blast
qed


theorem C6_counts_and_failures_witness:
  "list_all callAddsUp
     (snd (migrateVaultWithProgress refusingWorld ''v1'' ''Vault'' ''src'' ''dst'' None sys0))
   \<and> snd (migrateVaultWithProgress refusingWorld ''v1'' ''Vault'' ''src'' ''dst'' None sys0)
       = [\<lparr> pc_itemsProcessed = 3, pc_totalItems = 3, pc_successCount = 2,
            pc_failureCount = 1 \<rparr>]
   \<and> (\<exists>r. fst (fst (migrateVaultWithProgress refusingWorld ''v1'' ''Vault'' ''src'' ''dst''
                      None sys0)) = Inr r
        \<and> map r_success (migrationResults r) = [True, False, True]
        \<and> successCount r + failureCount r = length (migrationResults r)
        \<and> failureCount r = length (filter (\<lambda>x. \<not> r_success x) (migrationResults r))
        \<and> length (migrationResults r) = itemsLength r)
   \<and> fst (attemptItem refusingWorld exampleCtx (plainItem ''i2'') sys0)
       = Inl ''validation: bad field shape''
   \<and> lv_failureCount (fst (itemBody refusingWorld exampleCtx (plainItem ''i2'')
        (initialLoopVars newLogEntry) sys0)) = 1
   \<and> map r_error (lv_migrationResults (fst (itemBody refusingWorld exampleCtx (plainItem ''i2'')
        (initialLoopVars newLogEntry) sys0))) = [Some ''validation: bad field shape'']"
proof -
  let ?X = "migrateVaultWithProgress refusingWorld ''v1'' ''Vault'' ''src'' ''dst'' None sys0"
  let ?A = "attemptItem refusingWorld exampleCtx (plainItem ''i2'') sys0"
  let ?lv = "initialLoopVars newLogEntry"
  have h1: "(case fst (fst ?X) of
               Inr r \<Rightarrow> map r_success (migrationResults r) = [True, False, True]
                         \<and> destItemCount r \<noteq> None
             | Inl e \<Rightarrow> False)
      \<and> snd ?X = [\<lparr> pc_itemsProcessed = 3, pc_totalItems = 3, pc_successCount = 2,
            pc_failureCount = 1 \<rparr>]"
    by code_simp
  then obtain r where r: "fst (fst ?X) = Inr r"
      and rs: "map r_success (migrationResults r) = [True, False, True]"
      and rd: "destItemCount r \<noteq> None"
    by (cases "fst (fst ?X)") simp_all
  have x: "?X = ((fst (fst ?X), fst (snd (fst ?X)), snd (snd (fst ?X))), snd ?X)"
    by simp
  note T = C6_counts_and_failures [of refusingWorld "''v1''" "''Vault''" "''src''" "''dst''"
      None sys0]
  note T1 = T [THEN conjunct1, rule_format, OF x]
  have c1: "list_all callAddsUp (snd ?X)" using T1 by (rule conjunct1)
  note T1r = T1 [THEN conjunct2, rule_format, OF r]
  have c2: "successCount r + failureCount r = length (migrationResults r)"
    using T1r by blast
  have c3: "failureCount r = length (filter (\<lambda>x. \<not> r_success x) (migrationResults r))"
    using T1r by blast
  have c4: "length (migrationResults r) = itemsLength r"
    using T1r rd by blast
  have h2: "fst ?A = Inl ''validation: bad field shape''
      \<and> lv_failureCount ?lv = 0 \<and> lv_migrationResults ?lv = []"
    by code_simp
  have a: "?A = (Inl ''validation: bad field shape'', snd ?A)"
    using h2 by (metis prod.collapse)
  note T2 = T [THEN conjunct2, THEN conjunct1, rule_format, OF a, of ?lv]
  have f0: "lv_failureCount ?lv = 0" using h2 by blast
  have m0: "lv_migrationResults ?lv = []" using h2 by blast
  have c5: "lv_failureCount (fst (itemBody refusingWorld exampleCtx (plainItem ''i2'') ?lv sys0)) = 1"
    using T2 [THEN conjunct2, THEN conjunct1] by (simp only: f0)
  have c6: "map r_error (lv_migrationResults (fst (itemBody refusingWorld exampleCtx
        (plainItem ''i2'') ?lv sys0))) = [Some ''validation: bad field shape'']"
    by (simp only: T2 [THEN conjunct1] m0 append_Nil list.map itemResult.simps)
  have ex: "\<exists>r. fst (fst ?X) = Inr r
        \<and> map r_success (migrationResults r) = [True, False, True]
        \<and> successCount r + failureCount r = length (migrationResults r)
        \<and> failureCount r = length (filter (\<lambda>x. \<not> r_success x) (migrationResults r))
        \<and> length (migrationResults r) = itemsLength r"
    by (rule exI [of _ r], rule conjI [OF r conjI [OF rs conjI [OF c2 conjI [OF c3 c4]]]])
  have h3: "snd ?X = [\<lparr> pc_itemsProcessed = 3, pc_totalItems = 3, pc_successCount = 2,
            pc_failureCount = 1 \<rparr>]" using h1 by (rule conjunct2)
  have h4: "fst ?A = Inl ''validation: bad field shape''" using h2 by (rule conjunct1)
  show ?thesis
    by (rule conjI [OF c1 conjI [OF h3 conjI [OF ex conjI [OF h4 conjI [OF c5 c6]]]]])
qed

subsection \<open>Reconciliation\<close>

lemma strIncludes_append: "strIncludes ys sub \<Longrightarrow> strIncludes (xs @ ys) sub"
  by (induction xs) simp_all

lemma strIncludes_startsWith: "startsWith s sub \<Longrightarrow> strIncludes s sub"
  by (cases s) (auto simp: startsWith_def)

lemma strIncludes_prefix: "strIncludes (sub @ zs) sub"
  by (rule strIncludes_startsWith) (simp add: startsWith_def)

lemma strIncludes_mid: "strIncludes (xs @ sub @ zs) sub"
  by (rule strIncludes_append, rule strIncludes_prefix)

lemma replyTo_success:
  "rs_success (fst (replyTo vaultId vaultName r s))
     = (failureCount r = 0 \<and> destItemCount r = Some (sourceItemCount r))"
  by (auto simp: replyTo_def)

lemma replyTo_message:
  assumes "\<not> rs_success (fst (replyTo vaultId vaultName r s))"
  shows "strIncludes (rs_message (fst (replyTo vaultId vaultName r s)))
           '' migration completed with ''"
proof -
  have c: "failureCount r > 0 \<or> Some (sourceItemCount r) \<noteq> destItemCount r"
    using assms by (auto simp: replyTo_def split: if_splits)
  have "rs_message (fst (replyTo vaultId vaultName r s))
      = (''Vault '' @ dquote @ vaultName @ dquote) @ '' migration completed with ''
          @ (showNat (failureCount r) @ '' failures out of '' @ showNat (itemsLength r)
               @ '' items'')"
    using c unfolding replyTo_def by (simp del: append.simps add: append_assoc)
  then show ?thesis by (simp only: strIncludes_mid)
qed

lemma migrateVault_recount:
  assumes "migrateVault w vaultId vaultName sourceToken destToken customTemplateId s = (Inr r, le, s')"
    and "destItemCount r \<noteq> None"
  shows "\<exists>srcCount newVaultId items le0 s1 lv s2 d s3.
       beginVault w vaultId vaultName sourceToken destToken newLogEntry
           (startVault vaultId vaultName s)
         = (Inr (srcCount, newVaultId, items), le0, s1)
     \<and> itemLoop w (vaultContext vaultId vaultName sourceToken destToken customTemplateId
                     newVaultId items) items (initialLoopVars le0) s1 = (False, lv, s2)
     \<and> getVaultItemCount w newVaultId destToken s2 = (Inr d, s3)
     \<and> destItemCount r = Some d
     \<and> sourceItemCount r = srcCount
     \<and> migrationResults r = lv_migrationResults lv
     \<and> map r_id (migrationResults r) = map it_id items
     \<and> itemsLength r = length items
     \<and> le_status le = Completed"
proof -
  from migrateVault_Inr [OF assms(1)] obtain srcCount newVaultId items le0 s1 c lv s2 where
    b: "beginVault w vaultId vaultName sourceToken destToken newLogEntry
           (startVault vaultId vaultName s) = (Inr (srcCount, newVaultId, items), le0, s1)"
    and l: "itemLoop w (vaultContext vaultId vaultName sourceToken destToken customTemplateId
                     newVaultId items) items (initialLoopVars le0) s1 = (c, lv, s2)"
    and t: "c \<longrightarrow> r = cancelledResult (vaultContext vaultId vaultName sourceToken destToken
                     customTemplateId newVaultId items) srcCount lv"
    and f: "\<not> c \<longrightarrow> finishVault w (vaultContext vaultId vaultName sourceToken destToken
                     customTemplateId newVaultId items) srcCount lv s2 = (Inr r, le, s')"
    by blast
  let ?cx = "vaultContext vaultId vaultName sourceToken destToken customTemplateId newVaultId items"
  have nc: "\<not> c" using t assms(2) by (auto simp: cancelledResult_def)
  note F = finishVault_dest [OF f [rule_format, OF nc]]
  from F obtain d s3 where
    g: "getVaultItemCount w (cx_newVaultId ?cx) (cx_destToken ?cx) s2 = (Inr d, s3)"
    and d: "destItemCount r = Some d" by blast
  have g': "getVaultItemCount w newVaultId destToken s2 = (Inr d, s3)"
    using g by (simp add: vaultContext_def)
  have ids: "map r_id (lv_migrationResults lv) = map it_id items"
    using itemLoop_results [OF l] nc by (auto simp: initialLoopVars_def)
  have l': "itemLoop w ?cx items (initialLoopVars le0) s1 = (False, lv, s2)"
    using l nc by simp
  have rest: "sourceItemCount r = srcCount \<and> migrationResults r = lv_migrationResults lv
     \<and> map r_id (migrationResults r) = map it_id items
     \<and> itemsLength r = length items \<and> le_status le = Completed"
    using F ids by (simp add: vaultContext_def)
  show ?thesis using b l' g' d rest by blast
qed

lemma migrateVaultEndpoint_reply:
  assumes "\<not> missing (rq_vaultId rq)" "\<not> missing (rq_vaultName rq)"
    "\<not> missing (rq_sourceToken rq)" "\<not> missing (rq_destToken rq)"
    and "initializeClient w (optOrElse (rq_sourceToken rq) []) s = (Inr (), s1)"
    and "initializeClient w (optOrElse (rq_destToken rq) []) s1 = (Inr (), s2)"
    and "migrateVault w (optOrElse (rq_vaultId rq) []) (optOrElse (rq_vaultName rq) [])
           (optOrElse (rq_sourceToken rq) []) (optOrElse (rq_destToken rq) [])
           (rq_customTemplateId rq) s2 = (Inr r, le, s3)"
  shows "migrateVaultEndpoint w rq s
           = replyTo (optOrElse (rq_vaultId rq) []) (optOrElse (rq_vaultName rq) []) r s3"
  using assms unfolding migrateVaultEndpoint_def Let_def by simp


text \<open>
  C7. A run of \<^verbatim>\<open>migrateVault\<close> that returns a destination count went through every
  listed item without a cancellation, then counted the items of the new vault with
  \<^verbatim>\<open>getVaultItemCount\<close> and the destination token, in the state the loop left; the result
  carries that count, the source count taken before the loop and one entry for each item,
  and the log entry has the status \<open>completed\<close>. The reply of the endpoint of one vault
  has \<open>success = true\<close> exactly when \<open>failureCount = 0\<close> and the destination count equals
  the source count; otherwise its message says that the migration completed with
  failures. The outcome in the endpoint of many vaults has the same \<open>success\<close>, with the
  phase \<open>completed\<close> in both cases. A request with all its parameters, whose two clients
  initialize and whose run returns a result, is answered with that reply. A result with
  source count five, five successes, no failure and destination count five is answered
  with \<open>success = true\<close> and these counts.
\<close>

theorem C7_reconciliation:
  "(\<forall>r le s'.
       migrateVault w vaultId vaultName sourceToken destToken customTemplateId s = (Inr r, le, s')
       \<and> destItemCount r \<noteq> None \<longrightarrow>
         (\<exists>srcCount newVaultId items le0 s1 lv s2 d s3.
             beginVault w vaultId vaultName sourceToken destToken newLogEntry
                 (startVault vaultId vaultName s)
               = (Inr (srcCount, newVaultId, items), le0, s1)
           \<and> itemLoop w (vaultContext vaultId vaultName sourceToken destToken customTemplateId
                           newVaultId items) items (initialLoopVars le0) s1 = (False, lv, s2)
           \<and> getVaultItemCount w newVaultId destToken s2 = (Inr d, s3)
           \<and> destItemCount r = Some d
           \<and> sourceItemCount r = srcCount
           \<and> migrationResults r = lv_migrationResults lv
           \<and> map r_id (migrationResults r) = map it_id items
           \<and> itemsLength r = length items
           \<and> le_status le = Completed))
   \<and> (\<forall>r s3. rs_success (fst (replyTo vaultId vaultName r s3))
                 = (failureCount r = 0 \<and> destItemCount r = Some (sourceItemCount r))
              \<and> rs_stats (fst (replyTo vaultId vaultName r s3)) = Some (statsOf r)
              \<and> rs_results (fst (replyTo vaultId vaultName r s3)) = Some (migrationResults r)
              \<and> (\<not> rs_success (fst (replyTo vaultId vaultName r s3)) \<longrightarrow>
                    strIncludes (rs_message (fst (replyTo vaultId vaultName r s3)))
                      '' migration completed with ''))
   \<and> (\<forall>r. vo_success (outcomeOf vaultId vaultName (Inr r))
                 = (failureCount r = 0 \<and> destItemCount r = Some (sourceItemCount r))
            \<and> vo_phase (outcomeOf vaultId vaultName (Inr r)) = ''completed'')
   \<and> (\<forall>rq s1 s2 r le s3.
         \<not> missing (rq_vaultId rq) \<and> \<not> missing (rq_vaultName rq)
         \<and> \<not> missing (rq_sourceToken rq) \<and> \<not> missing (rq_destToken rq)
         \<and> initializeClient w (optOrElse (rq_sourceToken rq) []) s = (Inr (), s1)
         \<and> initializeClient w (optOrElse (rq_destToken rq) []) s1 = (Inr (), s2)
         \<and> migrateVault w (optOrElse (rq_vaultId rq) []) (optOrElse (rq_vaultName rq) [])
              (optOrElse (rq_sourceToken rq) []) (optOrElse (rq_destToken rq) [])
              (rq_customTemplateId rq) s2 = (Inr r, le, s3) \<longrightarrow>
           migrateVaultEndpoint w rq s
             = replyTo (optOrElse (rq_vaultId rq) []) (optOrElse (rq_vaultName rq) []) r s3)
   \<and> (\<forall>r s3. sourceItemCount r = 5 \<and> successCount r = 5 \<and> failureCount r = 0
              \<and> destItemCount r = Some 5 \<longrightarrow>
           rs_success (fst (replyTo vaultId vaultName r s3))
         \<and> rs_stats (fst (replyTo vaultId vaultName r s3))
             = Some \<lparr> st_successCount = 5, st_failureCount = 0, st_sourceItemCount = 5,
                      st_destItemCount = Some 5 \<rparr>)"
proof (intro conjI allI impI)
  fix r le s'
  assume "migrateVault w vaultId vaultName sourceToken destToken customTemplateId s = (Inr r, le, s')
       \<and> destItemCount r \<noteq> None"
  then show "\<exists>srcCount newVaultId items le0 s1 lv s2 d s3.
             beginVault w vaultId vaultName sourceToken destToken newLogEntry
                 (startVault vaultId vaultName s)
               = (Inr (srcCount, newVaultId, items), le0, s1)
           \<and> itemLoop w (vaultContext vaultId vaultName sourceToken destToken customTemplateId
                           newVaultId items) items (initialLoopVars le0) s1 = (False, lv, s2)
           \<and> getVaultItemCount w newVaultId destToken s2 = (Inr d, s3)
           \<and> destItemCount r = Some d
           \<and> sourceItemCount r = srcCount
           \<and> migrationResults r = lv_migrationResults lv
           \<and> map r_id (migrationResults r) = map it_id items
           \<and> itemsLength r = length items
           \<and> le_status le = Completed"
    using migrateVault_recount by blast
next
  fix r and s3 :: sys
  show "rs_success (fst (replyTo vaultId vaultName r s3))
                 = (failureCount r = 0 \<and> destItemCount r = Some (sourceItemCount r))"
    by (rule replyTo_success)
  show "rs_stats (fst (replyTo vaultId vaultName r s3)) = Some (statsOf r)"
    by (simp add: replyTo_def)
  show "rs_results (fst (replyTo vaultId vaultName r s3)) = Some (migrationResults r)"
    by (simp add: replyTo_def)
next
  fix r and s3 :: sys
  assume "\<not> rs_success (fst (replyTo vaultId vaultName r s3))"
  then show "strIncludes (rs_message (fst (replyTo vaultId vaultName r s3)))
                      '' migration completed with ''"
    by (rule replyTo_message)
next
  fix r
  show "vo_success (outcomeOf vaultId vaultName (Inr r))
                 = (failureCount r = 0 \<and> destItemCount r = Some (sourceItemCount r))"
    by (auto simp: outcomeOf_def Let_def)
  show "vo_phase (outcomeOf vaultId vaultName (Inr r)) = ''completed''"
    by (simp add: outcomeOf_def Let_def)
next
  fix s1 s2 r le s3 and rq :: migrateRequest
  assume "\<not> missing (rq_vaultId rq) \<and> \<not> missing (rq_vaultName rq)
         \<and> \<not> missing (rq_sourceToken rq) \<and> \<not> missing (rq_destToken rq)
         \<and> initializeClient w (optOrElse (rq_sourceToken rq) []) s = (Inr (), s1)
         \<and> initializeClient w (optOrElse (rq_destToken rq) []) s1 = (Inr (), s2)
         \<and> migrateVault w (optOrElse (rq_vaultId rq) []) (optOrElse (rq_vaultName rq) [])
              (optOrElse (rq_sourceToken rq) []) (optOrElse (rq_destToken rq) [])
              (rq_customTemplateId rq) s2 = (Inr r, le, s3)"
  then show "migrateVaultEndpoint w rq s
             = replyTo (optOrElse (rq_vaultId rq) []) (optOrElse (rq_vaultName rq) []) r s3"
    using migrateVaultEndpoint_reply by blast
next
  fix r :: vaultResult and s3 :: sys
  assume a: "sourceItemCount r = 5 \<and> successCount r = 5 \<and> failureCount r = 0
              \<and> destItemCount r = Some 5"
  then show "rs_success (fst (replyTo vaultId vaultName r s3))"
    by (simp add: replyTo_success)
  from a show "rs_stats (fst (replyTo vaultId vaultName r s3))
             = Some \<lparr> st_successCount = 5, st_failureCount = 0, st_sourceItemCount = 5,
                      st_destItemCount = Some 5 \<rparr>"
    by (simp add: replyTo_def statsOf_def)
qed


theorem C7_reconciliation_witness:
  "(\<exists>r le s'. migrateVault fiveWorld ''v1'' ''Vault'' ''src'' ''dst'' None sys0 = (Inr r, le, s')
       \<and> sourceItemCount r = 5 \<and> destItemCount r = Some 5
       \<and> successCount r = 5 \<and> failureCount r = 0
       \<and> length (migrationResults r) = 5
       \<and> le_status le = Completed
       \<and> rs_success (fst (replyTo ''v1'' ''Vault'' r s'))
       \<and> vo_success (outcomeOf ''v1'' ''Vault'' (Inr r)))
   \<and> rs_success (fst (migrateVaultEndpoint fiveWorld exampleRequest sys0))
   \<and> rs_stats (fst (migrateVaultEndpoint fiveWorld exampleRequest sys0))
       = Some \<lparr> st_successCount = 5, st_failureCount = 0, st_sourceItemCount = 5,
                st_destItemCount = Some 5 \<rparr>
   \<and> \<not> rs_success (fst (migrateVaultEndpoint refusingWorld exampleRequest sys0))
   \<and> strIncludes (rs_message (fst (migrateVaultEndpoint refusingWorld exampleRequest sys0)))
        '' migration completed with ''"
proof -
  let ?M = "migrateVault fiveWorld ''v1'' ''Vault'' ''src'' ''dst'' None sys0"
  have h1: "(case fst ?M of
               Inr r \<Rightarrow> sourceItemCount r = 5 \<and> destItemCount r = Some 5
                         \<and> successCount r = 5 \<and> failureCount r = 0 \<and> itemsLength r = 5
             | Inl e \<Rightarrow> False)"
    by code_simp
  then obtain r where r: "fst ?M = Inr r"
      and rc: "sourceItemCount r = 5 \<and> successCount r = 5 \<and> failureCount r = 0
                 \<and> destItemCount r = Some 5"
      and il: "itemsLength r = 5"
    by (cases "fst ?M") simp_all
  have m: "?M = (Inr r, fst (snd ?M), snd (snd ?M))"
    using r by (metis prod.collapse)
  have dn: "destItemCount r \<noteq> None" using rc by simp
  note T = C7_reconciliation [of fiveWorld "''v1''" "''Vault''" "''src''" "''dst''" None sys0]
  from T [THEN conjunct1, rule_format, OF conjI [OF m dn]]
  obtain items :: "item list" where
      i1: "map r_id (migrationResults r) = map it_id items"
      and i2: "itemsLength r = length items"
      and st: "le_status (fst (snd ?M)) = Completed"
    by blast
  have len: "length (migrationResults r) = 5"
    using arg_cong [OF i1, of length] i2 il by simp
  have ok: "rs_success (fst (replyTo ''v1'' ''Vault'' r (snd (snd ?M))))"
    using T [THEN conjunct2, THEN conjunct2, THEN conjunct2, THEN conjunct2, rule_format, OF rc]
    by (rule conjunct1)
  have vo: "vo_success (outcomeOf ''v1'' ''Vault'' (Inr r))"
    using T [THEN conjunct2, THEN conjunct2, THEN conjunct1, rule_format, of r] rc by simp
  have one: "\<exists>r le s'. migrateVault fiveWorld ''v1'' ''Vault'' ''src'' ''dst'' None sys0 = (Inr r, le, s')
       \<and> sourceItemCount r = 5 \<and> destItemCount r = Some 5
       \<and> successCount r = 5 \<and> failureCount r = 0
       \<and> length (migrationResults r) = 5
       \<and> le_status le = Completed
       \<and> rs_success (fst (replyTo ''v1'' ''Vault'' r s'))
       \<and> vo_success (outcomeOf ''v1'' ''Vault'' (Inr r))"
    apply (rule exI [of _ r], rule exI [of _ "fst (snd ?M)"], rule exI [of _ "snd (snd ?M)"])
    using m rc len st ok vo by simp
  let ?vid = "optOrElse (rq_vaultId exampleRequest) []"
  let ?vn = "optOrElse (rq_vaultName exampleRequest) []"
  let ?st = "optOrElse (rq_sourceToken exampleRequest) []"
  let ?dt = "optOrElse (rq_destToken exampleRequest) []"
  let ?I1 = "initializeClient fiveWorld ?st sys0"
  let ?I2 = "initializeClient fiveWorld ?dt (snd ?I1)"
  let ?E = "migrateVault fiveWorld ?vid ?vn ?st ?dt (rq_customTemplateId exampleRequest) (snd ?I2)"
  have h2: "\<not> missing (rq_vaultId exampleRequest) \<and> \<not> missing (rq_vaultName exampleRequest)
       \<and> \<not> missing (rq_sourceToken exampleRequest) \<and> \<not> missing (rq_destToken exampleRequest)
       \<and> fst ?I1 = Inr () \<and> fst ?I2 = Inr ()
       \<and> ?vid = ''v1'' \<and> ?vn = ''Vault''
       \<and> (case fst ?E of
             Inr r \<Rightarrow> sourceItemCount r = 5 \<and> destItemCount r = Some 5
                       \<and> successCount r = 5 \<and> failureCount r = 0
           | Inl e \<Rightarrow> False)"
    by code_simp
  then obtain r2 where r2: "fst ?E = Inr r2"
      and rc2: "sourceItemCount r2 = 5 \<and> successCount r2 = 5 \<and> failureCount r2 = 0
                 \<and> destItemCount r2 = Some 5"
    by (cases "fst ?E") simp_all
  have e: "?E = (Inr r2, fst (snd ?E), snd (snd ?E))"
    using r2 by (metis prod.collapse)
  have a1: "?I1 = (Inr (), snd ?I1)" using h2 by (metis prod.collapse)
  have a2: "?I2 = (Inr (), snd ?I2)" using h2 by (metis prod.collapse)
  have n1: "\<not> missing (rq_vaultId exampleRequest)" using h2 by blast
  have n2: "\<not> missing (rq_vaultName exampleRequest)" using h2 by blast
  have n3: "\<not> missing (rq_sourceToken exampleRequest)" using h2 by blast
  have n4: "\<not> missing (rq_destToken exampleRequest)" using h2 by blast
  have v: "?vid = ''v1''" using h2 by blast
  have n: "?vn = ''Vault''" using h2 by blast
  have ep: "migrateVaultEndpoint fiveWorld exampleRequest sys0
              = replyTo ?vid ?vn r2 (snd (snd ?E))"
    by (rule T [THEN conjunct2, THEN conjunct2, THEN conjunct2, THEN conjunct1, rule_format,
          OF conjI [OF n1 conjI [OF n2 conjI [OF n3 conjI [OF n4 conjI [OF a1 conjI [OF a2 e]]]]]]])
  have ep': "migrateVaultEndpoint fiveWorld exampleRequest sys0
              = replyTo ''v1'' ''Vault'' r2 (snd (snd ?E))"
    using ep by (simp only: v n)
  note F = T [THEN conjunct2, THEN conjunct2, THEN conjunct2, THEN conjunct2, rule_format,
      OF rc2, of "snd (snd ?E)"]
  have two: "rs_success (fst (migrateVaultEndpoint fiveWorld exampleRequest sys0))"
    using F [THEN conjunct1] by (simp only: ep')
  have three: "rs_stats (fst (migrateVaultEndpoint fiveWorld exampleRequest sys0))
       = Some \<lparr> st_successCount = 5, st_failureCount = 0, st_sourceItemCount = 5,
                st_destItemCount = Some 5 \<rparr>"
    using F [THEN conjunct2] by (simp only: ep')
  let ?J1 = "initializeClient refusingWorld ?st sys0"
  let ?J2 = "initializeClient refusingWorld ?dt (snd ?J1)"
  let ?G = "migrateVault refusingWorld ?vid ?vn ?st ?dt (rq_customTemplateId exampleRequest)
              (snd ?J2)"
  have h3: "fst ?J1 = Inr () \<and> fst ?J2 = Inr ()
       \<and> (case fst ?G of Inr r \<Rightarrow> failureCount r = 1 | Inl e \<Rightarrow> False)"
    by code_simp
  then obtain r3 where r3: "fst ?G = Inr r3" and rc3: "failureCount r3 = 1"
    by (cases "fst ?G") simp_all
  have g: "?G = (Inr r3, fst (snd ?G), snd (snd ?G))"
    using r3 by (metis prod.collapse)
  have b1: "?J1 = (Inr (), snd ?J1)" using h3 by (metis prod.collapse)
  have b2: "?J2 = (Inr (), snd ?J2)" using h3 by (metis prod.collapse)
  note U = C7_reconciliation [of refusingWorld "''v1''" "''Vault''" "''src''" "''dst''" None sys0]
  have rp: "migrateVaultEndpoint refusingWorld exampleRequest sys0
              = replyTo ?vid ?vn r3 (snd (snd ?G))"
    by (rule U [THEN conjunct2, THEN conjunct2, THEN conjunct2, THEN conjunct1, rule_format,
          OF conjI [OF n1 conjI [OF n2 conjI [OF n3 conjI [OF n4 conjI [OF b1 conjI [OF b2 g]]]]]]])
  have rp': "migrateVaultEndpoint refusingWorld exampleRequest sys0
              = replyTo ''v1'' ''Vault'' r3 (snd (snd ?G))"
    using rp by (simp only: v n)
  note V = U [THEN conjunct2, THEN conjunct1, rule_format, of r3 "snd (snd ?G)"]
  have nok: "\<not> rs_success (fst (replyTo ''v1'' ''Vault'' r3 (snd (snd ?G))))"
    using V [THEN conjunct1] rc3 by simp
  have msg: "strIncludes (rs_message (fst (replyTo ''v1'' ''Vault'' r3 (snd (snd ?G)))))
        '' migration completed with ''"
    using V [THEN conjunct2, THEN conjunct2, THEN conjunct2, rule_format, OF nok] .
  have four: "\<not> rs_success (fst (migrateVaultEndpoint refusingWorld exampleRequest sys0))"
    unfolding rp' by (rule nok)
  have five: "strIncludes (rs_message (fst (migrateVaultEndpoint refusingWorld exampleRequest sys0)))
        '' migration completed with ''"
    unfolding rp' by (rule msg)
  show ?thesis
    by (rule conjI [OF one conjI [OF two conjI [OF three conjI [OF four five]]]])
qed

subsection \<open>The bridge without a template\<close>

lemma failedToGetTemplate_hint: "strIncludes (failedToGetTemplate e) templateHint"
proof -
  have "failedToGetTemplate e = (''Failed to get CUSTOM template: '' @ e @ ''. '') @ templateHint @ ''.''"
    unfolding failedToGetTemplate_def by (simp del: append.simps)
  then show ?thesis by (simp only: strIncludes_mid)
qed

lemma resolveTemplate_none:
  assumes "\<not> templateProvided customTemplateId"
    and "(\<exists>e. w_cliTemplateList w (clock s) destToken = Inl e)
       \<or> (\<exists>ts. w_cliTemplateList w (clock s) destToken = Inr ts
               \<and> find isCustomTemplate ts = None)"
  shows "\<exists>e s1. resolveTemplate w destToken vaultId customTemplateId s
                   = (Inl (failedToGetTemplate e), s1)"
  using assms unfolding resolveTemplate_def Let_def
  by (auto simp: logInfo_def logAt_def)

lemma createCustomItemViaCLI_none:
  assumes "\<not> templateProvided customTemplateId"
    and "w_cliItemGet w (clock s) sourceToken (it_id itm) sourceVaultId = Inr raw"
    and "ri_fields raw \<noteq> None"
    and "(\<exists>e. w_cliTemplateList w (Suc (clock s)) destToken = Inl e)
       \<or> (\<exists>ts. w_cliTemplateList w (Suc (clock s)) destToken = Inr ts
               \<and> find isCustomTemplate ts = None)"
  shows "\<exists>e s1. createCustomItemViaCLI w itm sourceToken destToken sourceVaultId destVaultId
                    vaultId customTemplateId s = (Inl (failedToGetTemplate e), s1)"
proof -
  let ?s1 = "logInfo (Some vaultId)
               (''Fetching CUSTOM item '' @ it_id itm @ '' via CLI from source'') s"
  have c: "clock (tick ?s1) = Suc (clock s)" by (simp add: tick_def)
  from resolveTemplate_none [of customTemplateId w "tick ?s1" destToken vaultId] assms(1,4) c
  obtain e s2 where r: "resolveTemplate w destToken vaultId customTemplateId (tick ?s1)
                   = (Inl (failedToGetTemplate e), s2)"
    by auto
  obtain fs where f: "ri_fields raw = Some fs" using assms(3) by auto
  have g: "w_cliItemGet w (clock ?s1) sourceToken (it_id itm) sourceVaultId = Inr raw"
    using assms(2) by simp
  have "createCustomItemViaCLI_try w itm sourceToken destToken sourceVaultId destVaultId
          vaultId customTemplateId s = (Inl (failedToGetTemplate e), s2)"
    unfolding createCustomItemViaCLI_try_def Let_def by (simp only: g f r sum.case option.case prod.case)
  then show ?thesis by (auto simp: createCustomItemViaCLI_def)
qed

lemma attemptItem_none:
  assumes "isCustomItem w itm"
    and "\<not> templateProvided (cx_customTemplateId cx)"
    and "w_cliItemGet w (clock s) (cx_sourceToken cx) (it_id itm) (cx_vaultId cx) = Inr raw"
    and "ri_fields raw \<noteq> None"
    and "(\<exists>e. w_cliTemplateList w (Suc (clock s)) (cx_destToken cx) = Inl e)
       \<or> (\<exists>ts. w_cliTemplateList w (Suc (clock s)) (cx_destToken cx) = Inr ts
               \<and> find isCustomTemplate ts = None)"
  shows "\<exists>e s1. attemptItem w cx itm s = (Inl (failedToGetTemplate e), s1)"
proof -
  let ?s1 = "logInfo (Some (cx_vaultId cx))
                 (''Item '' @ dquote @ it_title itm @ dquote @ '' category: '' @ categoryStr itm
                    @ '' (type: '' @ categoryType itm @ '')'') s"
  let ?s2 = "logInfo (Some (cx_vaultId cx))
                (''Detected CUSTOM item '' @ dquote @ it_title itm @ dquote @ '' (category: ''
                   @ categoryStr itm @ '') - migrating via CLI'') ?s1"
  have c: "clock ?s2 = clock s" by simp
  have a: "attemptItem w cx itm s
      = createCustomItemViaCLI w itm (cx_sourceToken cx) (cx_destToken cx) (cx_vaultId cx)
             (cx_newVaultId cx) (cx_vaultId cx) (cx_customTemplateId cx) ?s2"
    unfolding attemptItem_def Let_def using assms(1) by (simp only: if_True)
  show ?thesis
    unfolding a
    by (rule createCustomItemViaCLI_none [OF assms(2) _ assms(4)])
       (simp_all only: c assms(3) assms(5))
qed

text \<open>
  C8, amended. A custom item is given to the bridge. When no template identifier was
  supplied, the bridge's read of the source item succeeds and returns an item with its
  field list, and the listing of the destination's templates fails or holds no custom
  template, the attempt throws a message that contains
  \<open>Please provide a Custom Template UUID in the connection form\<close>. The loop records the
  item as failed with that message, adds one to the failure counter, lists it among the
  failed items, and goes on with the remaining items.
\<close>

theorem C8_bridge_amended:
  assumes "isCustomItem w itm"
    and "\<not> templateProvided (cx_customTemplateId cx)"
    and "w_cliItemGet w (clock s) (cx_sourceToken cx) (it_id itm) (cx_vaultId cx) = Inr raw"
    and "ri_fields raw \<noteq> None"
    and "(\<exists>e. w_cliTemplateList w (Suc (clock s)) (cx_destToken cx) = Inl e)
       \<or> (\<exists>ts. w_cliTemplateList w (Suc (clock s)) (cx_destToken cx) = Inr ts
               \<and> find isCustomTemplate ts = None)"
    and "\<not> w_isCancelled w (checks s)"
  shows "\<exists>msg lv1 s1 s2.
       attemptItem w cx itm (s\<lparr> checks := Suc (checks s) \<rparr>) = (Inl msg, s1)
     \<and> strIncludes msg templateHint
     \<and> itemBody w cx itm lv (s\<lparr> checks := Suc (checks s) \<rparr>) = (lv1, s2)
     \<and> lv_migrationResults lv1 = lv_migrationResults lv @
          [\<lparr> r_id = it_id itm, r_title = it_title itm, r_success = False, r_error = Some msg,
             r_progress = progressOf (lv_processedItems lv + 1) (cx_itemsLength cx) \<rparr>]
     \<and> lv_failureCount lv1 = lv_failureCount lv + 1
     \<and> lv_successCount lv1 = lv_successCount lv
     \<and> failedItems s2 = failedItems s1 @
          [\<lparr> fa_vaultId = cx_vaultId cx, fa_vaultName = cx_vaultName cx, fa_itemId = it_id itm,
             fa_itemTitle = it_title itm, fa_error = msg \<rparr>]
     \<and> itemLoop w cx (itm # rest) lv s = itemLoop w cx rest lv1 s2"
proof -
  let ?s0 = "s\<lparr> checks := Suc (checks s) \<rparr>"
  have c: "clock ?s0 = clock s" by simp
  from attemptItem_none [of w itm cx ?s0 raw] assms(1-5) c
  obtain e s1 where a: "attemptItem w cx itm ?s0 = (Inl (failedToGetTemplate e), s1)"
    by auto
  let ?msg = "failedToGetTemplate e"
  obtain lv1 s2 where b: "itemBody w cx itm lv ?s0 = (lv1, s2)" by fastforce
  note E = itemBody_entry [OF a, of lv]
  have h: "strIncludes ?msg templateHint" by (rule failedToGetTemplate_hint)
  have ne: "?msg \<noteq> []" by (simp add: failedToGetTemplate_def)
  have r: "lv_migrationResults lv1 = lv_migrationResults lv @
          [\<lparr> r_id = it_id itm, r_title = it_title itm, r_success = False, r_error = Some ?msg,
             r_progress = progressOf (lv_processedItems lv + 1) (cx_itemsLength cx) \<rparr>]"
    using E(1) b by (simp add: entryOf_def)
  have f: "lv_failureCount lv1 = lv_failureCount lv + 1" using E(4) b by simp
  have su: "lv_successCount lv1 = lv_successCount lv" using E(3) b by simp
  have s2: "s2 = logFailedItem (cx_vaultId cx) (cx_vaultName cx) (it_id itm) (it_title itm) ?msg s1"
    using b unfolding itemBody_def Let_def by (simp add: a)
  have fa: "failedItems s2 = failedItems s1 @
          [\<lparr> fa_vaultId = cx_vaultId cx, fa_vaultName = cx_vaultName cx, fa_itemId = it_id itm,
             fa_itemTitle = it_title itm, fa_error = ?msg \<rparr>]"
    unfolding s2 logFailedItem_def using ne
    by (simp add: logError_def logAt_def orElse_def)
  have l: "itemLoop w cx (itm # rest) lv s = itemLoop w cx rest lv1 s2"
    by (rule itemLoop_Cons_run [OF assms(6) b])
  show ?thesis using a h b r f su fa l by blast
qed


end
